theory Spec2Isabelle
  imports Complex_Main "HOL-Library.Char_ord" "HOL-Library.List_Lexorder"
begin

section \<open>Data model\<close>

text \<open>
  A float64 cell of a DataFrame or a nullable numeric column of the warehouse. \<open>None\<close> is
  the missing value (pandas NaN, SQL NULL). The loader only copies these cells, so the
  carrier of the defined values is the reals; rounding is not modelled.
\<close>

type_synonym metric = "real option"

text \<open>Rows of the three GOLD marts read by \<open>main\<close> (columns as written by silver_to_gold.py).\<close>

record energy_mart_row =
  em_region :: string
  em_energy_source :: string
  em_year :: int
  em_month :: int
  em_avg_consumption_mwh :: metric
  em_max_consumption_mwh :: metric
  em_avg_temp_c :: metric
  em_records :: int

record emissions_mart_row =
  ms_region :: string
  ms_sector :: string
  ms_year :: int
  ms_month :: int
  ms_avg_co2_tonnes :: metric
  ms_total_co2_tonnes :: metric
  ms_records :: int

record intensity_mart_row =
  ci_region :: string
  ci_year :: int
  ci_month :: int
  ci_total_energy_mwh :: metric
  ci_total_co2_tonnes :: metric
  ci_co2_per_mwh :: metric

record marts =
  energy_m :: "energy_mart_row list"
  emis_m :: "emissions_mart_row list"
  intensity :: "intensity_mart_row list"

text \<open>
  Rows of the fact frames built in \<open>main\<close>, of the staging tables and of the fact tables.
  An id cell is \<open>None\<close> where \<open>Series.map\<close> found no key (NaN).  The \<open>records\<close> column is
  int64 and cannot hold a missing value.
\<close>

record energy_fact_row =
  ef_region_id :: "int option"
  ef_source_id :: "int option"
  ef_time_id :: "int option"
  ef_avg_consumption_mwh :: metric
  ef_max_consumption_mwh :: metric
  ef_avg_temp_c :: metric
  ef_records :: int

record emissions_fact_row =
  mf_region_id :: "int option"
  mf_sector_id :: "int option"
  mf_time_id :: "int option"
  mf_avg_co2_tonnes :: metric
  mf_total_co2_tonnes :: metric
  mf_records :: int

record intensity_fact_row =
  cf_region_id :: "int option"
  cf_time_id :: "int option"
  cf_total_energy_mwh :: metric
  cf_total_co2_tonnes :: metric
  cf_co2_per_mwh :: metric

text \<open>
  The three string-keyed dimension tables that \<open>upsert_dim_table\<close> and \<open>fetch_dim_map\<close>
  are called with (the arguments \<open>table\<close>, \<open>name_col\<close>, \<open>id_col\<close> of the source; the column
  names are fixed by the table).
\<close>

datatype dim_name = DimRegion | DimEnergySource | DimSector

text \<open>
  The state seen through the connection \<open>conn\<close>: the dimension tables as lists of
  (id, natural key) rows in insertion order, the fact tables, and the staging tables
  (\<open>None\<close>: the table does not exist).
\<close>

record warehouse =
  dims :: "dim_name \<Rightarrow> (int \<times> string) list"
  dim_time :: "(int \<times> (int \<times> int)) list"
  fact_energy_monthly :: "energy_fact_row list"
  fact_emissions_monthly :: "emissions_fact_row list"
  fact_carbon_intensity :: "intensity_fact_row list"
  stg_dims :: "dim_name \<Rightarrow> string list option"
  stg_dim_time :: "(int \<times> int) list option"
  stg_fact_energy :: "energy_fact_row list option"
  stg_fact_emissions :: "emissions_fact_row list option"
  stg_fact_intensity :: "intensity_fact_row list option"

text \<open>
  The exceptions that leave \<open>main\<close>: the \<open>ValueError\<close> of step 5, with the frame name and
  the list \<open>bad_cols\<close> that its message is formatted from, and PostgreSQL's error 21000
  (\<open>ON CONFLICT DO UPDATE command cannot affect row a second time\<close>) from a merge.
\<close>

datatype error = ValueError string "string list" | CardinalityViolation

section \<open>Dimension registration\<close>

text \<open>
  Modelled from the spec: the table definitions (DDL) of the warehouse are not in the
  repository.  The spec gives each dimension a system-assigned integer primary key; the
  INSERT statements of the loader leave the id column to the warehouse.  Here a new row
  gets the successor of the greatest id of the table (1 in an empty table).
\<close>

definition next_id :: "(int \<times> 'a) list \<Rightarrow> int" where
  "next_id rows = fold max (map fst rows) 0 + 1"

fun append_rows :: "(int \<times> 'a) list \<Rightarrow> 'a list \<Rightarrow> (int \<times> 'a) list" where
  "append_rows rows [] = rows"
| "append_rows rows (v # vs) = append_rows (rows @ [(next_id rows, v)]) vs"

text \<open>
  \<open>INSERT INTO d (k) SELECT s.k FROM stg s LEFT JOIN d ON d.k = s.k WHERE d.k IS NULL\<close>:
  the staged keys with no equal key in the table, as the table is before the statement.
\<close>

definition insert_missing :: "(int \<times> 'a) list \<Rightarrow> 'a list \<Rightarrow> (int \<times> 'a) list" where
  "insert_missing rows stg = append_rows rows (filter (\<lambda>s. s \<notin> set (map snd rows)) stg)"

definition upsert_dim_table :: "dim_name \<Rightarrow> string list \<Rightarrow> warehouse \<Rightarrow> warehouse" where
  "upsert_dim_table table vals conn =
     (let vals' = sort (remdups vals) in
      if vals' = [] then conn
      else
        let conn1 = conn\<lparr>stg_dims := (stg_dims conn)(table := Some vals')\<rparr>;
            conn2 = conn1\<lparr>dims := (dims conn1)(table := insert_missing (dims conn1 table) vals')\<rparr>
        in conn2\<lparr>stg_dims := (stg_dims conn2)(table := None)\<rparr>)"

text \<open>\<open>DataFrame.drop_duplicates\<close> keeps the first occurrence of each row.\<close>

definition drop_duplicates :: "'a list \<Rightarrow> 'a list" where
  "drop_duplicates xs = rev (remdups (rev xs))"

definition upsert_dim_time :: "(int \<times> int) list \<Rightarrow> warehouse \<Rightarrow> warehouse" where
  "upsert_dim_time year_month_pairs conn =
     (if year_month_pairs = [] then conn
      else
        let df = drop_duplicates year_month_pairs;
            conn1 = conn\<lparr>stg_dim_time := Some df\<rparr>;
            conn2 = conn1\<lparr>dim_time := insert_missing (dim_time conn1) df\<rparr>
        in conn2\<lparr>stg_dim_time := None\<rparr>)"

text \<open>\<open>{r[1]: r[0] for r in rows}\<close>: a later row with the same key replaces an earlier one.\<close>

definition dict_of_rows :: "(int \<times> 'a) list \<Rightarrow> ('a \<rightharpoonup> int)" where
  "dict_of_rows rows = fold (\<lambda>r m. m(snd r \<mapsto> fst r)) rows Map.empty"

definition fetch_dim_map :: "dim_name \<Rightarrow> warehouse \<Rightarrow> (string \<rightharpoonup> int)" where
  "fetch_dim_map table conn = dict_of_rows (dims conn table)"

definition fetch_time_map :: "warehouse \<Rightarrow> ((int \<times> int) \<rightharpoonup> int)" where
  "fetch_time_map conn = dict_of_rows (dim_time conn)"

section \<open>Fact upserts\<close>

text \<open>
  One incoming row of \<open>INSERT ... ON CONFLICT (key) DO UPDATE SET ...\<close>: the first row of
  the target with an equal key is updated, otherwise the row is appended.  \<open>key\<close> gives
  \<open>None\<close> for a key tuple with a NULL component, which conflicts with no row.
\<close>

fun on_conflict_row :: "('r \<Rightarrow> 'k option) \<Rightarrow> ('r \<Rightarrow> 'r \<Rightarrow> 'r) \<Rightarrow> 'r list \<Rightarrow> 'r \<Rightarrow> 'r list" where
  "on_conflict_row key upd [] s = [s]"
| "on_conflict_row key upd (t # ts) s =
     (if key s \<noteq> None \<and> key t = key s then upd t s # ts
      else t # on_conflict_row key upd ts s)"

text \<open>
  The whole statement: PostgreSQL refuses a command in which two incoming rows have the
  same key tuple (the second would touch a row the command already wrote).
\<close>

definition insert_on_conflict ::
  "('r \<Rightarrow> 'k option) \<Rightarrow> ('r \<Rightarrow> 'r \<Rightarrow> 'r) \<Rightarrow> 'r list \<Rightarrow> 'r list \<Rightarrow> error + 'r list" where
  "insert_on_conflict key upd target staged =
     (if distinct (filter (\<lambda>k. k \<noteq> None) (map key staged))
      then Inr (foldl (on_conflict_row key upd) target staged)
      else Inl CardinalityViolation)"

text \<open>
  Modelled from the spec: the DDL is not in the repository.  The spec's schema gives each
  fact table a unique constraint on its key tuple, the conflict target of the merge: no
  two rows of the table have the same key tuple without a NULL component.
\<close>

definition unique_constraint :: "('r \<Rightarrow> 'k option) \<Rightarrow> 'r list \<Rightarrow> bool" where
  "unique_constraint key rows = distinct (filter (\<lambda>k. k \<noteq> None) (map key rows))"

definition ef_key :: "energy_fact_row \<Rightarrow> (int \<times> int \<times> int) option" where
  "ef_key r = (case (ef_region_id r, ef_source_id r, ef_time_id r) of
                 (Some a, Some b, Some c) \<Rightarrow> Some (a, b, c) | _ \<Rightarrow> None)"

definition ef_update :: "energy_fact_row \<Rightarrow> energy_fact_row \<Rightarrow> energy_fact_row" where
  "ef_update t excluded = t\<lparr>ef_avg_consumption_mwh := ef_avg_consumption_mwh excluded,
                            ef_max_consumption_mwh := ef_max_consumption_mwh excluded,
                            ef_avg_temp_c := ef_avg_temp_c excluded,
                            ef_records := ef_records excluded\<rparr>"

definition mf_key :: "emissions_fact_row \<Rightarrow> (int \<times> int \<times> int) option" where
  "mf_key r = (case (mf_region_id r, mf_sector_id r, mf_time_id r) of
                 (Some a, Some b, Some c) \<Rightarrow> Some (a, b, c) | _ \<Rightarrow> None)"

definition mf_update :: "emissions_fact_row \<Rightarrow> emissions_fact_row \<Rightarrow> emissions_fact_row" where
  "mf_update t excluded = t\<lparr>mf_avg_co2_tonnes := mf_avg_co2_tonnes excluded,
                            mf_total_co2_tonnes := mf_total_co2_tonnes excluded,
                            mf_records := mf_records excluded\<rparr>"

definition cf_key :: "intensity_fact_row \<Rightarrow> (int \<times> int) option" where
  "cf_key r = (case (cf_region_id r, cf_time_id r) of
                 (Some a, Some b) \<Rightarrow> Some (a, b) | _ \<Rightarrow> None)"

definition cf_update :: "intensity_fact_row \<Rightarrow> intensity_fact_row \<Rightarrow> intensity_fact_row" where
  "cf_update t excluded = t\<lparr>cf_total_energy_mwh := cf_total_energy_mwh excluded,
                            cf_total_co2_tonnes := cf_total_co2_tonnes excluded,
                            cf_co2_per_mwh := cf_co2_per_mwh excluded\<rparr>"

text \<open>
  Each upsert runs three statements on the connection: \<open>to_sql\<close> (re)creates the staging
  table, the merge, and \<open>DROP TABLE IF EXISTS\<close>.  An exception of the merge leaves the
  function before the drop; the connection then still holds the staging table.
\<close>

definition upsert_fact_energy :: "energy_fact_row list \<Rightarrow> warehouse \<Rightarrow> error option \<times> warehouse" where
  "upsert_fact_energy df conn =
     (let conn1 = conn\<lparr>stg_fact_energy := Some df\<rparr> in
      case insert_on_conflict ef_key ef_update (fact_energy_monthly conn1) df of
        Inl e \<Rightarrow> (Some e, conn1)
      | Inr rows \<Rightarrow> (None, conn1\<lparr>fact_energy_monthly := rows, stg_fact_energy := None\<rparr>))"

definition upsert_fact_emissions :: "emissions_fact_row list \<Rightarrow> warehouse \<Rightarrow> error option \<times> warehouse" where
  "upsert_fact_emissions df conn =
     (let conn1 = conn\<lparr>stg_fact_emissions := Some df\<rparr> in
      case insert_on_conflict mf_key mf_update (fact_emissions_monthly conn1) df of
        Inl e \<Rightarrow> (Some e, conn1)
      | Inr rows \<Rightarrow> (None, conn1\<lparr>fact_emissions_monthly := rows, stg_fact_emissions := None\<rparr>))"

definition upsert_fact_intensity :: "intensity_fact_row list \<Rightarrow> warehouse \<Rightarrow> error option \<times> warehouse" where
  "upsert_fact_intensity df conn =
     (let conn1 = conn\<lparr>stg_fact_intensity := Some df\<rparr> in
      case insert_on_conflict cf_key cf_update (fact_carbon_intensity conn1) df of
        Inl e \<Rightarrow> (Some e, conn1)
      | Inr rows \<Rightarrow> (None, conn1\<lparr>fact_carbon_intensity := rows, stg_fact_intensity := None\<rparr>))"

section \<open>The load\<close>

text \<open>Steps 1 and 2 of \<open>main\<close>.  \<open>list(ym)\<close> enumerates a Python set, whose order the
  language leaves open; the model lists the pairs by first occurrence.\<close>

definition year_month_pairs_of :: "marts \<Rightarrow> (int \<times> int) list" where
  "year_month_pairs_of m =
     drop_duplicates (map (\<lambda>r. (em_year r, em_month r)) (energy_m m)
                      @ map (\<lambda>r. (ms_year r, ms_month r)) (emis_m m)
                      @ map (\<lambda>r. (ci_year r, ci_month r)) (intensity m))"

definition register_dimensions :: "marts \<Rightarrow> warehouse \<Rightarrow> warehouse" where
  "register_dimensions m conn =
     (let conn1 = upsert_dim_table DimRegion (map em_region (energy_m m)) conn;
          conn2 = upsert_dim_table DimEnergySource (map em_energy_source (energy_m m)) conn1;
          conn3 = upsert_dim_table DimSector (map ms_sector (emis_m m)) conn2
      in upsert_dim_time (year_month_pairs_of m) conn3)"

text \<open>Step 4: \<open>Series.map\<close> with a dict gives NaN for a value that is not a key.\<close>

definition build_energy_fact ::
  "(string \<rightharpoonup> int) \<Rightarrow> (string \<rightharpoonup> int) \<Rightarrow> ((int \<times> int) \<rightharpoonup> int) \<Rightarrow> energy_mart_row list \<Rightarrow> energy_fact_row list" where
  "build_energy_fact region_map source_map time_map mart =
     map (\<lambda>r. \<lparr>ef_region_id = region_map (em_region r),
               ef_source_id = source_map (em_energy_source r),
               ef_time_id = time_map (em_year r, em_month r),
               ef_avg_consumption_mwh = em_avg_consumption_mwh r,
               ef_max_consumption_mwh = em_max_consumption_mwh r,
               ef_avg_temp_c = em_avg_temp_c r,
               ef_records = em_records r\<rparr>) mart"

definition build_emissions_fact ::
  "(string \<rightharpoonup> int) \<Rightarrow> (string \<rightharpoonup> int) \<Rightarrow> ((int \<times> int) \<rightharpoonup> int) \<Rightarrow> emissions_mart_row list \<Rightarrow> emissions_fact_row list" where
  "build_emissions_fact region_map sector_map time_map mart =
     map (\<lambda>r. \<lparr>mf_region_id = region_map (ms_region r),
               mf_sector_id = sector_map (ms_sector r),
               mf_time_id = time_map (ms_year r, ms_month r),
               mf_avg_co2_tonnes = ms_avg_co2_tonnes r,
               mf_total_co2_tonnes = ms_total_co2_tonnes r,
               mf_records = ms_records r\<rparr>) mart"

definition build_intensity_fact ::
  "(string \<rightharpoonup> int) \<Rightarrow> ((int \<times> int) \<rightharpoonup> int) \<Rightarrow> intensity_mart_row list \<Rightarrow> intensity_fact_row list" where
  "build_intensity_fact region_map time_map mart =
     map (\<lambda>r. \<lparr>cf_region_id = region_map (ci_region r),
               cf_time_id = time_map (ci_year r, ci_month r),
               cf_total_energy_mwh = ci_total_energy_mwh r,
               cf_total_co2_tonnes = ci_total_co2_tonnes r,
               cf_co2_per_mwh = ci_co2_per_mwh r\<rparr>) mart"

text \<open>The three frames as \<open>main\<close> builds them, from the maps fetched on the connection.\<close>

definition energy_fact_of :: "marts \<Rightarrow> warehouse \<Rightarrow> energy_fact_row list" where
  "energy_fact_of m conn =
     build_energy_fact (fetch_dim_map DimRegion conn) (fetch_dim_map DimEnergySource conn)
       (fetch_time_map conn) (energy_m m)"

definition emissions_fact_of :: "marts \<Rightarrow> warehouse \<Rightarrow> emissions_fact_row list" where
  "emissions_fact_of m conn =
     build_emissions_fact (fetch_dim_map DimRegion conn) (fetch_dim_map DimSector conn)
       (fetch_time_map conn) (emis_m m)"

definition intensity_fact_of :: "marts \<Rightarrow> warehouse \<Rightarrow> intensity_fact_row list" where
  "intensity_fact_of m conn =
     build_intensity_fact (fetch_dim_map DimRegion conn) (fetch_time_map conn) (intensity m)"

text \<open>Step 5.  \<open>df.isna().any()\<close>: per column, in column order, whether a cell is missing.\<close>

definition ef_isna :: "energy_fact_row list \<Rightarrow> (string \<times> bool) list" where
  "ef_isna df =
     [(''region_id'', list_ex (\<lambda>r. ef_region_id r = None) df),
      (''source_id'', list_ex (\<lambda>r. ef_source_id r = None) df),
      (''time_id'', list_ex (\<lambda>r. ef_time_id r = None) df),
      (''avg_consumption_mwh'', list_ex (\<lambda>r. ef_avg_consumption_mwh r = None) df),
      (''max_consumption_mwh'', list_ex (\<lambda>r. ef_max_consumption_mwh r = None) df),
      (''avg_temp_c'', list_ex (\<lambda>r. ef_avg_temp_c r = None) df),
      (''records'', False)]"

definition mf_isna :: "emissions_fact_row list \<Rightarrow> (string \<times> bool) list" where
  "mf_isna df =
     [(''region_id'', list_ex (\<lambda>r. mf_region_id r = None) df),
      (''sector_id'', list_ex (\<lambda>r. mf_sector_id r = None) df),
      (''time_id'', list_ex (\<lambda>r. mf_time_id r = None) df),
      (''avg_co2_tonnes'', list_ex (\<lambda>r. mf_avg_co2_tonnes r = None) df),
      (''total_co2_tonnes'', list_ex (\<lambda>r. mf_total_co2_tonnes r = None) df),
      (''records'', False)]"

definition cf_isna :: "intensity_fact_row list \<Rightarrow> (string \<times> bool) list" where
  "cf_isna df =
     [(''region_id'', list_ex (\<lambda>r. cf_region_id r = None) df),
      (''time_id'', list_ex (\<lambda>r. cf_time_id r = None) df),
      (''total_energy_mwh'', list_ex (\<lambda>r. cf_total_energy_mwh r = None) df),
      (''total_co2_tonnes'', list_ex (\<lambda>r. cf_total_co2_tonnes r = None) df),
      (''co2_per_mwh'', list_ex (\<lambda>r. cf_co2_per_mwh r = None) df)]"

definition any_any :: "(string \<times> bool) list \<Rightarrow> bool" where
  "any_any isna = list_ex snd isna"

definition bad_cols :: "(string \<times> bool) list \<Rightarrow> string list" where
  "bad_cols isna = map fst (filter snd isna)"

fun fail_fast :: "(string \<times> (string \<times> bool) list) list \<Rightarrow> error option" where
  "fail_fast [] = None"
| "fail_fast ((name, isna) # rest) =
     (if any_any isna then Some (ValueError name (bad_cols isna)) else fail_fast rest)"

text \<open>The message of the \<open>ValueError\<close>, with the list printed as Python prints it.\<close>

fun py_list_items :: "string list \<Rightarrow> string" where
  "py_list_items [] = []"
| "py_list_items [c] = [CHR 39] @ c @ [CHR 39]"
| "py_list_items (c # cs) = [CHR 39] @ c @ [CHR 39] @ '', '' @ py_list_items cs"

fun message :: "error \<Rightarrow> string" where
  "message (ValueError name cols) =
     name @ '' has NULLs after ID mapping. Bad columns: ['' @ py_list_items cols @ '']''"
| "message CardinalityViolation =
     ''ON CONFLICT DO UPDATE command cannot affect row a second time''"

text \<open>Sequencing of statements that may raise: the first exception ends the block.\<close>

definition and_then ::
  "error option \<times> warehouse \<Rightarrow> (warehouse \<Rightarrow> error option \<times> warehouse) \<Rightarrow> error option \<times> warehouse" where
  "and_then r f = (case r of (None, conn) \<Rightarrow> f conn | (Some e, conn) \<Rightarrow> (Some e, conn))"

text \<open>The body of the \<open>with\<close> block of \<open>main\<close>: the result and the state of the connection
  when the block is left.\<close>

definition main_body :: "marts \<Rightarrow> warehouse \<Rightarrow> error option \<times> warehouse" where
  "main_body m conn0 =
     (let conn = register_dimensions m conn0;
          energy_fact = energy_fact_of m conn;
          emissions_fact = emissions_fact_of m conn;
          intensity_fact = intensity_fact_of m conn
      in case fail_fast [(''energy_fact'', ef_isna energy_fact),
                         (''emissions_fact'', mf_isna emissions_fact),
                         (''intensity_fact'', cf_isna intensity_fact)] of
           Some e \<Rightarrow> (Some e, conn)
         | None \<Rightarrow>
             and_then (and_then (upsert_fact_energy energy_fact conn)
                                (upsert_fact_emissions emissions_fact))
                      (upsert_fact_intensity intensity_fact))"

text \<open>
  \<open>with engine.begin() as conn:\<close> runs the block in one transaction of the warehouse: it
  commits when the block ends normally and rolls back when an exception leaves it.  The
  argument and the second component of the result are the committed state.
\<close>

definition engine_begin ::
  "(warehouse \<Rightarrow> error option \<times> warehouse) \<Rightarrow> warehouse \<Rightarrow> error option \<times> warehouse" where
  "engine_begin block db =
     (case block db of (None, conn) \<Rightarrow> (None, conn) | (Some e, conn) \<Rightarrow> (Some e, db))"

definition main :: "marts \<Rightarrow> warehouse \<Rightarrow> error option \<times> warehouse" where
  "main m db = engine_begin (main_body m) db"

section \<open>The carbon-intensity ratio of the GOLD step\<close>

text \<open>
  \<open>total_co2_tonnes / total_energy_mwh.replace(0, pd.NA)\<close>, cell by cell: a zero
  denominator becomes NA first, and a quotient with NA is NA.
\<close>

definition replace_zero_na :: "metric \<Rightarrow> metric" where
  "replace_zero_na x = (if x = Some 0 then None else x)"

definition co2_per_mwh :: "metric \<Rightarrow> metric \<Rightarrow> metric" where
  "co2_per_mwh total_co2_tonnes total_energy_mwh =
     (case (total_co2_tonnes, replace_zero_na total_energy_mwh) of
        (Some c, Some e) \<Rightarrow> Some (c / e)
      | _ \<Rightarrow> None)"

definition carbon_intensity_row :: "string \<Rightarrow> int \<Rightarrow> int \<Rightarrow> metric \<Rightarrow> metric \<Rightarrow> intensity_mart_row" where
  "carbon_intensity_row region year month total_energy_mwh total_co2_tonnes =
     \<lparr>ci_region = region, ci_year = year, ci_month = month,
      ci_total_energy_mwh = total_energy_mwh, ci_total_co2_tonnes = total_co2_tonnes,
      ci_co2_per_mwh = co2_per_mwh total_co2_tonnes total_energy_mwh\<rparr>"


section \<open>Concrete warehouses and marts\<close>

definition empty_warehouse :: warehouse where
  "empty_warehouse =
     \<lparr>dims = (\<lambda>_. []), dim_time = [], fact_energy_monthly = [], fact_emissions_monthly = [],
      fact_carbon_intensity = [], stg_dims = (\<lambda>_. None), stg_dim_time = None,
      stg_fact_energy = None, stg_fact_emissions = None, stg_fact_intensity = None\<rparr>"

definition two_regions :: warehouse where
  "two_regions = upsert_dim_table DimRegion [''South'', ''North'', ''South''] empty_warehouse"

definition one_month :: warehouse where
  "one_month = upsert_dim_time [(2024, 1), (2024, 1)] empty_warehouse"

definition energy_north :: energy_mart_row where
  "energy_north =
     \<lparr>em_region = ''North'', em_energy_source = ''Solar'', em_year = 2024, em_month = 1,
      em_avg_consumption_mwh = Some 100, em_max_consumption_mwh = Some 150,
      em_avg_temp_c = Some 5, em_records = 31\<rparr>"

definition emissions_north :: emissions_mart_row where
  "emissions_north =
     \<lparr>ms_region = ''North'', ms_sector = ''Transport'', ms_year = 2024, ms_month = 1,
      ms_avg_co2_tonnes = Some 4, ms_total_co2_tonnes = Some 120, ms_records = 30\<rparr>"

definition intensity_north :: intensity_mart_row where
  "intensity_north =
     \<lparr>ci_region = ''North'', ci_year = 2024, ci_month = 1,
      ci_total_energy_mwh = Some 3100, ci_total_co2_tonnes = Some 120,
      ci_co2_per_mwh = Some (120 / 3100)\<rparr>"

definition good_marts :: marts where
  "good_marts =
     \<lparr>energy_m = [energy_north], emis_m = [emissions_north], intensity = [intensity_north]\<rparr>"

text \<open>An emissions row whose region occurs in no row of the energy mart.\<close>

definition west_marts :: marts where
  "west_marts =
     \<lparr>energy_m = [energy_north],
      emis_m = [emissions_north\<lparr>ms_region := ''West'', ms_year := 2024, ms_month := 2\<rparr>],
      intensity = [intensity_north]\<rparr>"

text \<open>
  A month in which the North region consumed nothing: the marts that silver_to_gold.py
  writes from one energy record with \<open>consumption_mwh = 0\<close> and one emissions record
  with \<open>co2_tonnes = 120\<close>.
\<close>

definition zero_energy_marts :: marts where
  "zero_energy_marts =
     \<lparr>energy_m = [\<lparr>em_region = ''North'', em_energy_source = ''Solar'', em_year = 2024,
                   em_month = 1, em_avg_consumption_mwh = Some 0,
                   em_max_consumption_mwh = Some 0, em_avg_temp_c = Some 5, em_records = 1\<rparr>],
      emis_m = [\<lparr>ms_region = ''North'', ms_sector = ''Transport'', ms_year = 2024,
                 ms_month = 1, ms_avg_co2_tonnes = Some 120, ms_total_co2_tonnes = Some 120,
                 ms_records = 1\<rparr>],
      intensity = [carbon_intensity_row ''North'' 2024 1 (Some 0) (Some 120)]\<rparr>"

text \<open>An emissions mart with two rows for one (region, sector, year, month).\<close>

definition repeated_key_marts :: marts where
  "repeated_key_marts =
     \<lparr>energy_m = [energy_north],
      emis_m = [emissions_north, emissions_north\<lparr>ms_total_co2_tonnes := Some 130\<rparr>],
      intensity = [intensity_north]\<rparr>"

text \<open>The fact rows that \<open>main\<close> builds from \<open>good_marts\<close> on an empty warehouse.\<close>

definition energy_fact_north :: energy_fact_row where
  "energy_fact_north =
     \<lparr>ef_region_id = Some 1, ef_source_id = Some 1, ef_time_id = Some 1,
      ef_avg_consumption_mwh = Some 100, ef_max_consumption_mwh = Some 150,
      ef_avg_temp_c = Some 5, ef_records = 31\<rparr>"

definition emissions_fact_north :: emissions_fact_row where
  "emissions_fact_north =
     \<lparr>mf_region_id = Some 1, mf_sector_id = Some 1, mf_time_id = Some 1,
      mf_avg_co2_tonnes = Some 4, mf_total_co2_tonnes = Some 120, mf_records = 30\<rparr>"

definition intensity_fact_north :: intensity_fact_row where
  "intensity_fact_north =
     \<lparr>cf_region_id = Some 1, cf_time_id = Some 1, cf_total_energy_mwh = Some 3100,
      cf_total_co2_tonnes = Some 120, cf_co2_per_mwh = Some (120 / 3100)\<rparr>"

text \<open>The energy fact row of a revised mart: the same key tuple, other metrics.\<close>

definition energy_fact_revised :: energy_fact_row where
  "energy_fact_revised =
     energy_fact_north\<lparr>ef_avg_consumption_mwh := Some 110, ef_records := 30\<rparr>"


definition emissions_fact_revised :: emissions_fact_row where
  "emissions_fact_revised =
     emissions_fact_north\<lparr>mf_avg_co2_tonnes := Some 5, mf_total_co2_tonnes := Some 150\<rparr>"

definition intensity_fact_revised :: intensity_fact_row where
  "intensity_fact_revised =
     intensity_fact_north\<lparr>cf_total_co2_tonnes := Some 155, cf_co2_per_mwh := Some (155 / 3100)\<rparr>"


lemma append_rows_append:
  "\<exists>new. append_rows rows vs = rows @ new \<and> map snd new = vs"
proof (induction vs arbitrary: rows)
  case Nil
  show ?case by simp
next
  case (Cons v vs)
  obtain new where n: "append_rows (rows @ [(next_id rows, v)]) vs = (rows @ [(next_id rows, v)]) @ new"
    "map snd new = vs"
    using Cons.IH by blast
  show ?case
    by (rule exI [of _ "(next_id rows, v) # new"]) (simp add: n)
qed

lemma insert_missing_append:
  "\<exists>new. insert_missing rows stg = rows @ new
     \<and> map snd new = filter (\<lambda>s. s \<notin> snd ` set rows) stg"
  using append_rows_append [of rows "filter (\<lambda>s. s \<notin> set (map snd rows)) stg"]
  by (simp add: insert_missing_def)

lemma insert_missing_known:
  "set stg \<subseteq> snd ` set rows \<Longrightarrow> insert_missing rows stg = rows"
proof -
  assume a: "set stg \<subseteq> snd ` set rows"
  have "filter (\<lambda>s. s \<notin> set (map snd rows)) stg = []"
    using a by (auto simp: filter_empty_conv)
  then show ?thesis by (simp add: insert_missing_def)
qed

lemma set_drop_duplicates [simp]: "set (drop_duplicates xs) = set xs"
  by (simp add: drop_duplicates_def)

lemma distinct_drop_duplicates [simp]: "distinct (drop_duplicates xs)"
  by (simp add: drop_duplicates_def)

lemma drop_duplicates_Nil_iff [simp]: "drop_duplicates xs = [] \<longleftrightarrow> xs = []"
  by (metis set_drop_duplicates set_empty)

lemma sort_remdups_Nil_iff: "sort (remdups vals) = [] \<longleftrightarrow> vals = []"
  by (metis set_empty set_remdups set_sort)


lemma insert_missing_distinct:
  assumes "distinct stg"
  shows "\<exists>new. insert_missing rows stg = rows @ new
     \<and> map snd new = filter (\<lambda>s. s \<notin> snd ` set rows) stg \<and> distinct (map snd new)"
proof -
  obtain new where n: "insert_missing rows stg = rows @ new"
    "map snd new = filter (\<lambda>s. s \<notin> snd ` set rows) stg"
    using insert_missing_append [of rows stg] by auto
  have "distinct (map snd new)" using n(2) assms by simp
  with n show ?thesis by (intro exI [of _ new]) simp
qed

lemma dims_upsert_dim_table:
  "dims (upsert_dim_table t vals conn) =
     (dims conn)(t := insert_missing (dims conn t) (sort (remdups vals)))"
proof (cases "sort (remdups vals) = []")
  case True
  then show ?thesis
    by (simp add: upsert_dim_table_def insert_missing_def)
next
  case False
  then show ?thesis
    by (simp add: upsert_dim_table_def Let_def)
qed

lemma upsert_dim_table_other_tables:
  "dim_time (upsert_dim_table t vals conn) = dim_time conn"
  "fact_energy_monthly (upsert_dim_table t vals conn) = fact_energy_monthly conn"
  "fact_emissions_monthly (upsert_dim_table t vals conn) = fact_emissions_monthly conn"
  "fact_carbon_intensity (upsert_dim_table t vals conn) = fact_carbon_intensity conn"
  by (simp_all add: upsert_dim_table_def Let_def)

lemma dim_time_upsert_dim_time:
  "dim_time (upsert_dim_time pairs conn) =
     insert_missing (dim_time conn) (drop_duplicates pairs)"
proof (cases "pairs = []")
  case True
  then show ?thesis
    by (simp add: upsert_dim_time_def insert_missing_def drop_duplicates_def)
next
  case False
  then show ?thesis
    by (simp add: upsert_dim_time_def Let_def)
qed

lemma upsert_dim_time_other_tables:
  "dims (upsert_dim_time pairs conn) = dims conn"
  "fact_energy_monthly (upsert_dim_time pairs conn) = fact_energy_monthly conn"
  "fact_emissions_monthly (upsert_dim_time pairs conn) = fact_emissions_monthly conn"
  "fact_carbon_intensity (upsert_dim_time pairs conn) = fact_carbon_intensity conn"
  by (simp_all add: upsert_dim_time_def Let_def)

text \<open>
  Claim C5.  Registering candidates, strings with \<open>upsert_dim_table\<close> or (year, month)
  pairs with \<open>upsert_dim_time\<close>, appends to the dimension exactly the distinct candidates
  that no existing row equals; the existing rows, with their ids, stay as the front of
  the table and the other dimensions are untouched.  Candidates that are all known
  leave the dimension as it was, and an empty collection leaves the whole state as it
  was.
\<close>

theorem dimension_registration_inserts_only_new:
  "(\<exists>new. dims (upsert_dim_table t vals conn) t = dims conn t @ new
       \<and> map snd new = filter (\<lambda>v. v \<notin> snd ` set (dims conn t)) (sort (remdups vals))
       \<and> distinct (map snd new))
   \<and> (\<forall>t'. t' \<noteq> t \<longrightarrow> dims (upsert_dim_table t vals conn) t' = dims conn t')
   \<and> dim_time (upsert_dim_table t vals conn) = dim_time conn
   \<and> (set vals \<subseteq> snd ` set (dims conn t) \<longrightarrow> dims (upsert_dim_table t vals conn) = dims conn)
   \<and> upsert_dim_table t [] conn = conn
   \<and> (\<exists>new. dim_time (upsert_dim_time pairs conn) = dim_time conn @ new
       \<and> map snd new = filter (\<lambda>p. p \<notin> snd ` set (dim_time conn)) (drop_duplicates pairs)
       \<and> distinct (map snd new))
   \<and> dims (upsert_dim_time pairs conn) = dims conn
   \<and> (set pairs \<subseteq> snd ` set (dim_time conn) \<longrightarrow> dim_time (upsert_dim_time pairs conn) = dim_time conn)
   \<and> upsert_dim_time [] conn = conn"
proof -
  have a: "\<exists>new. dims (upsert_dim_table t vals conn) t = dims conn t @ new
       \<and> map snd new = filter (\<lambda>v. v \<notin> snd ` set (dims conn t)) (sort (remdups vals))
       \<and> distinct (map snd new)"
    using insert_missing_distinct [of "sort (remdups vals)" "dims conn t"]
    by (simp add: dims_upsert_dim_table)
  have b: "\<forall>t'. t' \<noteq> t \<longrightarrow> dims (upsert_dim_table t vals conn) t' = dims conn t'"
    by (simp add: dims_upsert_dim_table)
  have c: "set vals \<subseteq> snd ` set (dims conn t) \<longrightarrow> dims (upsert_dim_table t vals conn) = dims conn"
  proof
    assume "set vals \<subseteq> snd ` set (dims conn t)"
    then have "insert_missing (dims conn t) (sort (remdups vals)) = dims conn t"
      by (intro insert_missing_known) simp
    then show "dims (upsert_dim_table t vals conn) = dims conn"
      by (simp add: dims_upsert_dim_table)
  qed
  have d: "upsert_dim_table t [] conn = conn"
    by (simp add: upsert_dim_table_def)
  have e: "\<exists>new. dim_time (upsert_dim_time pairs conn) = dim_time conn @ new
       \<and> map snd new = filter (\<lambda>p. p \<notin> snd ` set (dim_time conn)) (drop_duplicates pairs)
       \<and> distinct (map snd new)"
    using insert_missing_distinct [of "drop_duplicates pairs" "dim_time conn"]
    by (simp add: dim_time_upsert_dim_time)
  have f: "set pairs \<subseteq> snd ` set (dim_time conn) \<longrightarrow> dim_time (upsert_dim_time pairs conn) = dim_time conn"
  proof
    assume "set pairs \<subseteq> snd ` set (dim_time conn)"
    then have "insert_missing (dim_time conn) (drop_duplicates pairs) = dim_time conn"
      by (intro insert_missing_known) simp
    then show "dim_time (upsert_dim_time pairs conn) = dim_time conn"
      by (simp add: dim_time_upsert_dim_time)
  qed
  have g: "upsert_dim_time [] conn = conn"
    by (simp add: upsert_dim_time_def)
  show ?thesis
    using a b c d e f g
    by (simp only: upsert_dim_table_other_tables upsert_dim_time_other_tables simp_thms)
qed

lemma dims_two_regions: "dims two_regions DimRegion = [(1, ''North''), (2, ''South'')]"
  by (simp add: two_regions_def upsert_dim_table_def empty_warehouse_def insert_missing_def
      next_id_def Let_def)

lemma dim_time_one_month: "dim_time one_month = [(1, (2024, 1))]"
  by (simp add: one_month_def upsert_dim_time_def empty_warehouse_def insert_missing_def
      next_id_def drop_duplicates_def Let_def)

theorem dimension_registration_inserts_only_new_witness:
  "dims (upsert_dim_table DimRegion [''South'', ''East''] two_regions) DimRegion
     = [(1, ''North''), (2, ''South''), (3, ''East'')]
   \<and> DimSector \<noteq> DimRegion
   \<and> dims (upsert_dim_table DimRegion [''South'', ''East''] two_regions) DimSector
     = dims two_regions DimSector
   \<and> set [''South'', ''North''] \<subseteq> snd ` set (dims two_regions DimRegion)
   \<and> dims (upsert_dim_table DimRegion [''South'', ''North''] two_regions) = dims two_regions
   \<and> set [(2024, 1)] \<subseteq> snd ` set (dim_time one_month)
   \<and> dim_time (upsert_dim_time [(2024, 1)] one_month) = dim_time one_month"
proof -
  have sub: "set [''South'', ''North''] \<subseteq> snd ` set (dims two_regions DimRegion)"
    by (simp add: dims_two_regions)
  have subt: "set [(2024, 1)] \<subseteq> snd ` set (dim_time one_month)"
    by (simp add: dim_time_one_month)
  have new: "dims (upsert_dim_table DimRegion [''South'', ''East''] two_regions) DimRegion
     = [(1, ''North''), (2, ''South''), (3, ''East'')]"
    by (simp add: dims_upsert_dim_table dims_two_regions insert_missing_def next_id_def)
  note thm1 = dimension_registration_inserts_only_new
      [of DimRegion "[''South'', ''East'']" two_regions "[(2024, 1)]"]
  note thm2 = dimension_registration_inserts_only_new
      [of DimRegion "[''South'', ''North'']" two_regions "[(2024, 1)]"]
  note thm3 = dimension_registration_inserts_only_new
      [of DimRegion "[''South'', ''North'']" one_month "[(2024, 1)]"]
  have other: "dims (upsert_dim_table DimRegion [''South'', ''East''] two_regions) DimSector
     = dims two_regions DimSector"
    using thm1 by blast
  have same: "dims (upsert_dim_table DimRegion [''South'', ''North''] two_regions) = dims two_regions"
    using thm2 sub by blast
  have samet: "dim_time (upsert_dim_time [(2024, 1)] one_month) = dim_time one_month"
    using thm3 subt by blast
  show ?thesis using sub subt new other same samet by simp
qed


lemma sort_remdups_set_cong:
  fixes xs ys :: "'a::linorder list"
  assumes "set xs = set ys"
  shows "sort (remdups xs) = sort (remdups ys)"
proof -
  have "sort (remdups xs) = sorted_list_of_set (set xs)"
    by (simp add: sorted_list_of_set_sort_remdups)
  also have "\<dots> = sorted_list_of_set (set ys)" using assms by simp
  also have "\<dots> = sort (remdups ys)"
    by (simp add: sorted_list_of_set_sort_remdups)
  finally show ?thesis .
qed

lemma strict_sorted_sort_remdups:
  fixes xs :: "'a::linorder list"
  shows "sorted_wrt (<) (sort (remdups xs))"
proof -
  have "sorted (sort (remdups xs))" "distinct (sort (remdups xs))" by simp_all
  then show ?thesis by (simp add: strict_sorted_iff)
qed

text \<open>
  Claim C10.  \<open>upsert_dim_table\<close> depends on its candidates only through their set: two
  collections with the same distinct values give the same state, whatever their order
  and multiplicities, and the rows it appends are in strictly ascending order of the
  natural key.
\<close>

theorem upsert_dim_table_deterministic_in_set:
  "(set vals1 = set vals2 \<longrightarrow> upsert_dim_table t vals1 conn = upsert_dim_table t vals2 conn)
   \<and> (\<exists>new. dims (upsert_dim_table t vals1 conn) t = dims conn t @ new
         \<and> map snd new = filter (\<lambda>v. v \<notin> snd ` set (dims conn t)) (sort (remdups vals1))
         \<and> sorted_wrt (<) (map snd new))"
proof
  show "set vals1 = set vals2 \<longrightarrow> upsert_dim_table t vals1 conn = upsert_dim_table t vals2 conn"
  proof
    assume "set vals1 = set vals2"
    then have "sort (remdups vals1) = sort (remdups vals2)"
      by (rule sort_remdups_set_cong)
    then show "upsert_dim_table t vals1 conn = upsert_dim_table t vals2 conn"
      by (simp add: upsert_dim_table_def)
  qed
next
  obtain new where n: "insert_missing (dims conn t) (sort (remdups vals1)) = dims conn t @ new"
    "map snd new = filter (\<lambda>v. v \<notin> snd ` set (dims conn t)) (sort (remdups vals1))"
    using insert_missing_append [of "dims conn t" "sort (remdups vals1)"] by auto
  have "sorted_wrt (<) (filter (\<lambda>v. v \<notin> snd ` set (dims conn t)) (sort (remdups vals1)))"
    using strict_sorted_sort_remdups [of vals1] by (rule sorted_wrt_filter)
  with n show "\<exists>new. dims (upsert_dim_table t vals1 conn) t = dims conn t @ new
         \<and> map snd new = filter (\<lambda>v. v \<notin> snd ` set (dims conn t)) (sort (remdups vals1))
         \<and> sorted_wrt (<) (map snd new)"
    by (intro exI [of _ new]) (simp add: dims_upsert_dim_table)
qed

theorem upsert_dim_table_deterministic_in_set_witness:
  "set [''South'', ''East'', ''South'', ''Alpha''] = set [''Alpha'', ''East'', ''South'']
   \<and> upsert_dim_table DimRegion [''South'', ''East'', ''South'', ''Alpha''] two_regions
     = upsert_dim_table DimRegion [''Alpha'', ''East'', ''South''] two_regions
   \<and> dims (upsert_dim_table DimRegion [''South'', ''East'', ''South'', ''Alpha''] two_regions) DimRegion
     = [(1, ''North''), (2, ''South''), (3, ''Alpha''), (4, ''East'')]"
proof -
  have s: "set [''South'', ''East'', ''South'', ''Alpha''] = set [''Alpha'', ''East'', ''South'']"
    by auto
  have e: "upsert_dim_table DimRegion [''South'', ''East'', ''South'', ''Alpha''] two_regions
     = upsert_dim_table DimRegion [''Alpha'', ''East'', ''South''] two_regions"
    using upsert_dim_table_deterministic_in_set
      [of "[''South'', ''East'', ''South'', ''Alpha'']" "[''Alpha'', ''East'', ''South'']"
          DimRegion two_regions] s
    by blast
  have r: "dims (upsert_dim_table DimRegion [''South'', ''East'', ''South'', ''Alpha''] two_regions) DimRegion
     = [(1, ''North''), (2, ''South''), (3, ''Alpha''), (4, ''East'')]"
    by (simp add: dims_upsert_dim_table dims_two_regions insert_missing_def next_id_def)
  show ?thesis using s e r by simp
qed

lemma dict_of_rows_fold_None:
  "fold (\<lambda>r m. m(snd r \<mapsto> fst r)) rows m0 k = None \<longleftrightarrow> m0 k = None \<and> k \<notin> snd ` set rows"
  by (induction rows arbitrary: m0) auto

lemma dict_of_rows_fold_Some:
  "fold (\<lambda>r m. m(snd r \<mapsto> fst r)) rows m0 k = Some i \<Longrightarrow> m0 k = Some i \<or> (i, k) \<in> set rows"
proof (induction rows arbitrary: m0)
  case Nil
  then show ?case by simp
next
  case (Cons r rows)
  from Cons.prems have "fold (\<lambda>r m. m(snd r \<mapsto> fst r)) rows (m0(snd r \<mapsto> fst r)) k = Some i"
    by (simp only: fold_Cons comp_apply)
  then have "(m0(snd r \<mapsto> fst r)) k = Some i \<or> (i, k) \<in> set rows"
    by (rule Cons.IH)
  then show ?case
    by (cases "k = snd r") (auto simp: prod_eq_iff)
qed

lemma dict_of_rows_None: "dict_of_rows rows k = None \<longleftrightarrow> k \<notin> snd ` set rows"
  by (simp add: dict_of_rows_def dict_of_rows_fold_None)

lemma dict_of_rows_Some: "dict_of_rows rows k = Some i \<Longrightarrow> (i, k) \<in> set rows"
  using dict_of_rows_fold_Some [of rows Map.empty k i] by (simp add: dict_of_rows_def)

lemma snd_set_insert_missing:
  "snd ` set (insert_missing rows stg) = snd ` set rows \<union> set stg"
proof -
  obtain new where n: "insert_missing rows stg = rows @ new"
    "map snd new = filter (\<lambda>s. s \<notin> snd ` set rows) stg"
    using insert_missing_append [of rows stg] by auto
  have "snd ` set new = set (map snd new)" by simp
  also have "\<dots> = {s \<in> set stg. s \<notin> snd ` set rows}" by (simp add: n(2))
  finally have "snd ` set new = {s \<in> set stg. s \<notin> snd ` set rows}" .
  then show ?thesis by (auto simp: n(1) image_Un)
qed


text \<open>
  Claim C6.  Row by row, each builder puts in every id column the value that the
  corresponding mapping gives for the row's natural key and copies every metric column;
  a key that the mapping does not have gives a missing id, and the builders are total
  functions with one output row per mart row.  The mappings fetched from the warehouse
  have exactly the natural keys of the dimension's rows, each with the id of a row.
\<close>

theorem fact_builders_substitute_ids:
  "length (build_energy_fact rm sm tm E) = length E
   \<and> (\<forall>i < length E.
        ef_region_id (build_energy_fact rm sm tm E ! i) = rm (em_region (E ! i))
        \<and> ef_source_id (build_energy_fact rm sm tm E ! i) = sm (em_energy_source (E ! i))
        \<and> ef_time_id (build_energy_fact rm sm tm E ! i) = tm (em_year (E ! i), em_month (E ! i))
        \<and> ef_avg_consumption_mwh (build_energy_fact rm sm tm E ! i) = em_avg_consumption_mwh (E ! i)
        \<and> ef_max_consumption_mwh (build_energy_fact rm sm tm E ! i) = em_max_consumption_mwh (E ! i)
        \<and> ef_avg_temp_c (build_energy_fact rm sm tm E ! i) = em_avg_temp_c (E ! i)
        \<and> ef_records (build_energy_fact rm sm tm E ! i) = em_records (E ! i)
        \<and> (em_region (E ! i) \<notin> dom rm \<longrightarrow> ef_region_id (build_energy_fact rm sm tm E ! i) = None)
        \<and> (em_energy_source (E ! i) \<notin> dom sm \<longrightarrow> ef_source_id (build_energy_fact rm sm tm E ! i) = None)
        \<and> ((em_year (E ! i), em_month (E ! i)) \<notin> dom tm \<longrightarrow> ef_time_id (build_energy_fact rm sm tm E ! i) = None))
   \<and> length (build_emissions_fact rm cm tm M) = length M
   \<and> (\<forall>i < length M.
        mf_region_id (build_emissions_fact rm cm tm M ! i) = rm (ms_region (M ! i))
        \<and> mf_sector_id (build_emissions_fact rm cm tm M ! i) = cm (ms_sector (M ! i))
        \<and> mf_time_id (build_emissions_fact rm cm tm M ! i) = tm (ms_year (M ! i), ms_month (M ! i))
        \<and> mf_avg_co2_tonnes (build_emissions_fact rm cm tm M ! i) = ms_avg_co2_tonnes (M ! i)
        \<and> mf_total_co2_tonnes (build_emissions_fact rm cm tm M ! i) = ms_total_co2_tonnes (M ! i)
        \<and> mf_records (build_emissions_fact rm cm tm M ! i) = ms_records (M ! i)
        \<and> (ms_region (M ! i) \<notin> dom rm \<longrightarrow> mf_region_id (build_emissions_fact rm cm tm M ! i) = None)
        \<and> (ms_sector (M ! i) \<notin> dom cm \<longrightarrow> mf_sector_id (build_emissions_fact rm cm tm M ! i) = None)
        \<and> ((ms_year (M ! i), ms_month (M ! i)) \<notin> dom tm \<longrightarrow> mf_time_id (build_emissions_fact rm cm tm M ! i) = None))
   \<and> length (build_intensity_fact rm tm C) = length C
   \<and> (\<forall>i < length C.
        cf_region_id (build_intensity_fact rm tm C ! i) = rm (ci_region (C ! i))
        \<and> cf_time_id (build_intensity_fact rm tm C ! i) = tm (ci_year (C ! i), ci_month (C ! i))
        \<and> cf_total_energy_mwh (build_intensity_fact rm tm C ! i) = ci_total_energy_mwh (C ! i)
        \<and> cf_total_co2_tonnes (build_intensity_fact rm tm C ! i) = ci_total_co2_tonnes (C ! i)
        \<and> cf_co2_per_mwh (build_intensity_fact rm tm C ! i) = ci_co2_per_mwh (C ! i)
        \<and> (ci_region (C ! i) \<notin> dom rm \<longrightarrow> cf_region_id (build_intensity_fact rm tm C ! i) = None)
        \<and> ((ci_year (C ! i), ci_month (C ! i)) \<notin> dom tm \<longrightarrow> cf_time_id (build_intensity_fact rm tm C ! i) = None))
   \<and> dom (fetch_dim_map t conn) = snd ` set (dims conn t)
   \<and> (\<forall>k i. fetch_dim_map t conn k = Some i \<longrightarrow> (i, k) \<in> set (dims conn t))
   \<and> dom (fetch_time_map conn) = snd ` set (dim_time conn)
   \<and> (\<forall>p i. fetch_time_map conn p = Some i \<longrightarrow> (i, p) \<in> set (dim_time conn))"
proof -
  have e: "length (build_energy_fact rm sm tm E) = length E
   \<and> (\<forall>i < length E.
        ef_region_id (build_energy_fact rm sm tm E ! i) = rm (em_region (E ! i))
        \<and> ef_source_id (build_energy_fact rm sm tm E ! i) = sm (em_energy_source (E ! i))
        \<and> ef_time_id (build_energy_fact rm sm tm E ! i) = tm (em_year (E ! i), em_month (E ! i))
        \<and> ef_avg_consumption_mwh (build_energy_fact rm sm tm E ! i) = em_avg_consumption_mwh (E ! i)
        \<and> ef_max_consumption_mwh (build_energy_fact rm sm tm E ! i) = em_max_consumption_mwh (E ! i)
        \<and> ef_avg_temp_c (build_energy_fact rm sm tm E ! i) = em_avg_temp_c (E ! i)
        \<and> ef_records (build_energy_fact rm sm tm E ! i) = em_records (E ! i)
        \<and> (em_region (E ! i) \<notin> dom rm \<longrightarrow> ef_region_id (build_energy_fact rm sm tm E ! i) = None)
        \<and> (em_energy_source (E ! i) \<notin> dom sm \<longrightarrow> ef_source_id (build_energy_fact rm sm tm E ! i) = None)
        \<and> ((em_year (E ! i), em_month (E ! i)) \<notin> dom tm \<longrightarrow> ef_time_id (build_energy_fact rm sm tm E ! i) = None))"
    by (simp add: build_energy_fact_def domIff)
  have m: "length (build_emissions_fact rm cm tm M) = length M
   \<and> (\<forall>i < length M.
        mf_region_id (build_emissions_fact rm cm tm M ! i) = rm (ms_region (M ! i))
        \<and> mf_sector_id (build_emissions_fact rm cm tm M ! i) = cm (ms_sector (M ! i))
        \<and> mf_time_id (build_emissions_fact rm cm tm M ! i) = tm (ms_year (M ! i), ms_month (M ! i))
        \<and> mf_avg_co2_tonnes (build_emissions_fact rm cm tm M ! i) = ms_avg_co2_tonnes (M ! i)
        \<and> mf_total_co2_tonnes (build_emissions_fact rm cm tm M ! i) = ms_total_co2_tonnes (M ! i)
        \<and> mf_records (build_emissions_fact rm cm tm M ! i) = ms_records (M ! i)
        \<and> (ms_region (M ! i) \<notin> dom rm \<longrightarrow> mf_region_id (build_emissions_fact rm cm tm M ! i) = None)
        \<and> (ms_sector (M ! i) \<notin> dom cm \<longrightarrow> mf_sector_id (build_emissions_fact rm cm tm M ! i) = None)
        \<and> ((ms_year (M ! i), ms_month (M ! i)) \<notin> dom tm \<longrightarrow> mf_time_id (build_emissions_fact rm cm tm M ! i) = None))"
    by (simp add: build_emissions_fact_def domIff)
  have c: "length (build_intensity_fact rm tm C) = length C
   \<and> (\<forall>i < length C.
        cf_region_id (build_intensity_fact rm tm C ! i) = rm (ci_region (C ! i))
        \<and> cf_time_id (build_intensity_fact rm tm C ! i) = tm (ci_year (C ! i), ci_month (C ! i))
        \<and> cf_total_energy_mwh (build_intensity_fact rm tm C ! i) = ci_total_energy_mwh (C ! i)
        \<and> cf_total_co2_tonnes (build_intensity_fact rm tm C ! i) = ci_total_co2_tonnes (C ! i)
        \<and> cf_co2_per_mwh (build_intensity_fact rm tm C ! i) = ci_co2_per_mwh (C ! i)
        \<and> (ci_region (C ! i) \<notin> dom rm \<longrightarrow> cf_region_id (build_intensity_fact rm tm C ! i) = None)
        \<and> ((ci_year (C ! i), ci_month (C ! i)) \<notin> dom tm \<longrightarrow> cf_time_id (build_intensity_fact rm tm C ! i) = None))"
    by (simp add: build_intensity_fact_def domIff)
  have d1: "dom (fetch_dim_map t conn) = snd ` set (dims conn t)"
    using dict_of_rows_None [of "dims conn t"]
    by (auto simp: fetch_dim_map_def dom_def)
  have d2: "\<forall>k i. fetch_dim_map t conn k = Some i \<longrightarrow> (i, k) \<in> set (dims conn t)"
    by (simp add: fetch_dim_map_def dict_of_rows_Some)
  have d3: "dom (fetch_time_map conn) = snd ` set (dim_time conn)"
    using dict_of_rows_None [of "dim_time conn"]
    by (auto simp: fetch_time_map_def dom_def)
  have d4: "\<forall>p i. fetch_time_map conn p = Some i \<longrightarrow> (i, p) \<in> set (dim_time conn)"
    by (simp add: fetch_time_map_def dict_of_rows_Some)
  from e m c d1 d2 d3 d4 show ?thesis by blast
qed


lemma fetch_maps_two_regions:
  "fetch_dim_map DimRegion two_regions ''North'' = Some 1"
  "fetch_dim_map DimRegion two_regions ''South'' = Some 2"
  by (simp_all add: fetch_dim_map_def dict_of_rows_def dims_two_regions)

lemma fetch_time_map_one_month: "fetch_time_map one_month (2024, 1) = Some 1"
  by (simp add: fetch_time_map_def dict_of_rows_def dim_time_one_month)

theorem fact_builders_substitute_ids_witness:
  "(0::nat) < length [energy_north]
   \<and> em_energy_source ([energy_north] ! 0) \<notin> dom (Map.empty :: string \<rightharpoonup> int)
   \<and> ef_source_id (build_energy_fact (fetch_dim_map DimRegion two_regions) Map.empty
         (fetch_time_map one_month) [energy_north] ! 0) = None
   \<and> ef_region_id (build_energy_fact (fetch_dim_map DimRegion two_regions) Map.empty
         (fetch_time_map one_month) [energy_north] ! 0) = Some 1
   \<and> ef_time_id (build_energy_fact (fetch_dim_map DimRegion two_regions) Map.empty
         (fetch_time_map one_month) [energy_north] ! 0) = Some 1
   \<and> ef_avg_consumption_mwh (build_energy_fact (fetch_dim_map DimRegion two_regions) Map.empty
         (fetch_time_map one_month) [energy_north] ! 0) = Some 100"
proof -
  let ?f = "build_energy_fact (fetch_dim_map DimRegion two_regions) Map.empty
         (fetch_time_map one_month) [energy_north] ! 0"
  have l: "(0::nat) < length [energy_north]" by simp
  have a: "em_energy_source ([energy_north] ! 0) \<notin> dom (Map.empty :: string \<rightharpoonup> int)" by simp
  note T = fact_builders_substitute_ids
      [of "fetch_dim_map DimRegion two_regions" Map.empty "fetch_time_map one_month"
          "[energy_north]" Map.empty "[]" "[]" DimRegion two_regions]
  note R = T [THEN conjunct2, THEN conjunct1, rule_format, OF l]
  have r1: "ef_region_id ?f = fetch_dim_map DimRegion two_regions (em_region ([energy_north] ! 0))"
    using R by (rule conjunct1)
  have r3: "ef_time_id ?f
      = fetch_time_map one_month (em_year ([energy_north] ! 0), em_month ([energy_north] ! 0))"
    using R by (rule conjunct1 [OF conjunct2 [OF conjunct2]])
  have r4: "ef_avg_consumption_mwh ?f = em_avg_consumption_mwh ([energy_north] ! 0)"
    using R by (rule conjunct1 [OF conjunct2 [OF conjunct2 [OF conjunct2]]])
  have r9: "ef_source_id ?f = None"
    using R [THEN conjunct2, THEN conjunct2, THEN conjunct2, THEN conjunct2, THEN conjunct2,
        THEN conjunct2, THEN conjunct2, THEN conjunct2, THEN conjunct1] a
    by (rule mp)
  have "ef_region_id ?f = Some 1"
    using r1 by (simp add: energy_north_def fetch_maps_two_regions)
  moreover have "ef_time_id ?f = Some 1"
    using r3 by (simp add: energy_north_def fetch_time_map_one_month)
  moreover have "ef_avg_consumption_mwh ?f = Some 100"
    using r4 by (simp add: energy_north_def)
  ultimately show ?thesis using l a r9 by simp
qed


lemma dim_time_register_dimensions:
  "dim_time (register_dimensions m db) =
     insert_missing (dim_time db) (drop_duplicates (year_month_pairs_of m))"
  by (simp add: register_dimensions_def Let_def dim_time_upsert_dim_time
      upsert_dim_table_other_tables)

lemma year_month_pairs_registered:
  "set (year_month_pairs_of m) \<subseteq> dom (fetch_time_map (register_dimensions m db))"
proof
  fix p
  assume "p \<in> set (year_month_pairs_of m)"
  then have "p \<in> snd ` set (dim_time (register_dimensions m db))"
    by (simp add: dim_time_register_dimensions snd_set_insert_missing)
  then have "dict_of_rows (dim_time (register_dimensions m db)) p \<noteq> None"
    by (simp add: dict_of_rows_None)
  then show "p \<in> dom (fetch_time_map (register_dimensions m db))"
    by (simp add: fetch_time_map_def domIff)
qed

lemma set_year_month_pairs_of:
  "set (year_month_pairs_of m) =
     (\<lambda>r. (em_year r, em_month r)) ` set (energy_m m)
     \<union> (\<lambda>r. (ms_year r, ms_month r)) ` set (emis_m m)
     \<union> (\<lambda>r. (ci_year r, ci_month r)) ` set (intensity m)"
  by (simp add: year_month_pairs_of_def Un_assoc)

lemma time_id_energy_fact_of:
  "\<forall>r \<in> set (energy_fact_of m (register_dimensions m db)). ef_time_id r \<noteq> None"
proof
  fix r
  assume "r \<in> set (energy_fact_of m (register_dimensions m db))"
  then obtain x where x: "x \<in> set (energy_m m)"
    "ef_time_id r = fetch_time_map (register_dimensions m db) (em_year x, em_month x)"
    by (auto simp: energy_fact_of_def build_energy_fact_def)
  from x(1) have "(em_year x, em_month x) \<in> set (year_month_pairs_of m)"
    by (auto simp: set_year_month_pairs_of)
  then show "ef_time_id r \<noteq> None"
    using year_month_pairs_registered [of m db] x(2) by (auto simp: domIff)
qed

lemma time_id_emissions_fact_of:
  "\<forall>r \<in> set (emissions_fact_of m (register_dimensions m db)). mf_time_id r \<noteq> None"
proof
  fix r
  assume "r \<in> set (emissions_fact_of m (register_dimensions m db))"
  then obtain x where x: "x \<in> set (emis_m m)"
    "mf_time_id r = fetch_time_map (register_dimensions m db) (ms_year x, ms_month x)"
    by (auto simp: emissions_fact_of_def build_emissions_fact_def)
  from x(1) have "(ms_year x, ms_month x) \<in> set (year_month_pairs_of m)"
    by (auto simp: set_year_month_pairs_of)
  then show "mf_time_id r \<noteq> None"
    using year_month_pairs_registered [of m db] x(2) by (auto simp: domIff)
qed

lemma time_id_intensity_fact_of:
  "\<forall>r \<in> set (intensity_fact_of m (register_dimensions m db)). cf_time_id r \<noteq> None"
proof
  fix r
  assume "r \<in> set (intensity_fact_of m (register_dimensions m db))"
  then obtain x where x: "x \<in> set (intensity m)"
    "cf_time_id r = fetch_time_map (register_dimensions m db) (ci_year x, ci_month x)"
    by (auto simp: intensity_fact_of_def build_intensity_fact_def)
  from x(1) have "(ci_year x, ci_month x) \<in> set (year_month_pairs_of m)"
    by (auto simp: set_year_month_pairs_of)
  then show "cf_time_id r \<noteq> None"
    using year_month_pairs_registered [of m db] x(2) by (auto simp: domIff)
qed

lemma bad_cols_member: "c \<in> set (bad_cols isna) \<longleftrightarrow> (c, True) \<in> set isna"
  by (induction isna) (auto simp: bad_cols_def)

text \<open>
  Claim C9.  The pairs registered in the time dimension are those of all three marts,
  and \<open>main\<close> builds its fact frames on the connection as it is after that registration:
  every (year, month) pair of a mart row is then a key of the fetched time map, no
  \<open>time_id\<close> cell of the three frames is missing, and step 5 never reports \<open>time_id\<close>.
\<close>

theorem time_ids_always_resolve:
  "set (year_month_pairs_of m) =
     (\<lambda>r. (em_year r, em_month r)) ` set (energy_m m)
     \<union> (\<lambda>r. (ms_year r, ms_month r)) ` set (emis_m m)
     \<union> (\<lambda>r. (ci_year r, ci_month r)) ` set (intensity m)
   \<and> (\<forall>p \<in> set (year_month_pairs_of m). fetch_time_map (register_dimensions m db) p \<noteq> None)
   \<and> (\<forall>r \<in> set (energy_fact_of m (register_dimensions m db)). ef_time_id r \<noteq> None)
   \<and> (\<forall>r \<in> set (emissions_fact_of m (register_dimensions m db)). mf_time_id r \<noteq> None)
   \<and> (\<forall>r \<in> set (intensity_fact_of m (register_dimensions m db)). cf_time_id r \<noteq> None)
   \<and> ''time_id'' \<notin> set (bad_cols (ef_isna (energy_fact_of m (register_dimensions m db))))
   \<and> ''time_id'' \<notin> set (bad_cols (mf_isna (emissions_fact_of m (register_dimensions m db))))
   \<and> ''time_id'' \<notin> set (bad_cols (cf_isna (intensity_fact_of m (register_dimensions m db))))"
proof -
  have p: "\<forall>p \<in> set (year_month_pairs_of m). fetch_time_map (register_dimensions m db) p \<noteq> None"
    using year_month_pairs_registered [of m db] by (auto simp: domIff)
  have e: "''time_id'' \<notin> set (bad_cols (ef_isna (energy_fact_of m (register_dimensions m db))))"
    using time_id_energy_fact_of [of m db]
    by (simp add: bad_cols_member ef_isna_def list_ex_iff)
  have s: "''time_id'' \<notin> set (bad_cols (mf_isna (emissions_fact_of m (register_dimensions m db))))"
    using time_id_emissions_fact_of [of m db]
    by (simp add: bad_cols_member mf_isna_def list_ex_iff)
  have c: "''time_id'' \<notin> set (bad_cols (cf_isna (intensity_fact_of m (register_dimensions m db))))"
    using time_id_intensity_fact_of [of m db]
    by (simp add: bad_cols_member cf_isna_def list_ex_iff)
  show ?thesis
    using set_year_month_pairs_of [of m] p time_id_energy_fact_of [of m db]
      time_id_emissions_fact_of [of m db] time_id_intensity_fact_of [of m db] e s c
    by blast
qed


lemma register_dimensions_facts:
  "fact_energy_monthly (register_dimensions m db) = fact_energy_monthly db"
  "fact_emissions_monthly (register_dimensions m db) = fact_emissions_monthly db"
  "fact_carbon_intensity (register_dimensions m db) = fact_carbon_intensity db"
  by (simp_all add: register_dimensions_def Let_def upsert_dim_table_other_tables
      upsert_dim_time_other_tables)

lemma upsert_dim_table_stg_facts:
  "stg_fact_energy (upsert_dim_table t vals conn) = stg_fact_energy conn"
  "stg_fact_emissions (upsert_dim_table t vals conn) = stg_fact_emissions conn"
  "stg_fact_intensity (upsert_dim_table t vals conn) = stg_fact_intensity conn"
  by (simp_all add: upsert_dim_table_def Let_def)

lemma upsert_dim_time_stg_facts:
  "stg_fact_energy (upsert_dim_time ps conn) = stg_fact_energy conn"
  "stg_fact_emissions (upsert_dim_time ps conn) = stg_fact_emissions conn"
  "stg_fact_intensity (upsert_dim_time ps conn) = stg_fact_intensity conn"
  by (simp_all add: upsert_dim_time_def Let_def)

lemma register_dimensions_stg_facts:
  "stg_fact_energy (register_dimensions m db) = stg_fact_energy db"
  "stg_fact_emissions (register_dimensions m db) = stg_fact_emissions db"
  "stg_fact_intensity (register_dimensions m db) = stg_fact_intensity db"
  by (simp_all add: register_dimensions_def Let_def upsert_dim_table_stg_facts
      upsert_dim_time_stg_facts)

lemma dims_register_dimensions:
  "dims (register_dimensions m db) DimRegion
     = insert_missing (dims db DimRegion) (sort (remdups (map em_region (energy_m m))))"
  "dims (register_dimensions m db) DimEnergySource
     = insert_missing (dims db DimEnergySource) (sort (remdups (map em_energy_source (energy_m m))))"
  "dims (register_dimensions m db) DimSector
     = insert_missing (dims db DimSector) (sort (remdups (map ms_sector (emis_m m))))"
  by (simp_all add: register_dimensions_def Let_def dims_upsert_dim_table
      upsert_dim_time_other_tables)

lemma fail_fast_three:
  "fail_fast [(n1, a), (n2, b), (n3, c)] =
     (if any_any a then Some (ValueError n1 (bad_cols a))
      else if any_any b then Some (ValueError n2 (bad_cols b))
      else if any_any c then Some (ValueError n3 (bad_cols c))
      else None)"
  by simp

lemma main_body_unfold:
  "main_body m db =
     (case fail_fast [(''energy_fact'', ef_isna (energy_fact_of m (register_dimensions m db))),
                      (''emissions_fact'', mf_isna (emissions_fact_of m (register_dimensions m db))),
                      (''intensity_fact'', cf_isna (intensity_fact_of m (register_dimensions m db)))] of
        Some e \<Rightarrow> (Some e, register_dimensions m db)
      | None \<Rightarrow>
          and_then (and_then (upsert_fact_energy (energy_fact_of m (register_dimensions m db))
                                (register_dimensions m db))
                             (upsert_fact_emissions (emissions_fact_of m (register_dimensions m db))))
                   (upsert_fact_intensity (intensity_fact_of m (register_dimensions m db))))"
  by (simp add: main_body_def Let_def)

lemma main_rolls_back: "fst (main_body m db) = Some e \<Longrightarrow> main m db = (Some e, db)"
  by (cases "main_body m db") (simp add: main_def engine_begin_def)

lemma main_commits: "fst (main_body m db) = None \<Longrightarrow> main m db = (None, snd (main_body m db))"
  by (cases "main_body m db") (simp add: main_def engine_begin_def)

lemma main_body_guard:
  assumes "fail_fast [(''energy_fact'', ef_isna (energy_fact_of m (register_dimensions m db))),
                      (''emissions_fact'', mf_isna (emissions_fact_of m (register_dimensions m db))),
                      (''intensity_fact'', cf_isna (intensity_fact_of m (register_dimensions m db)))]
           = Some e"
  shows "main_body m db = (Some e, register_dimensions m db)"
  using assms by (simp only: main_body_unfold option.case)

text \<open>The registered dimensions and built frames of the concrete marts.\<close>

lemma good_marts_fields:
  "energy_m good_marts = [energy_north]"
  "emis_m good_marts = [emissions_north]"
  "intensity good_marts = [intensity_north]"
  by (simp_all add: good_marts_def)

lemma year_month_pairs_good: "year_month_pairs_of good_marts = [(2024, 1)]"
  by (simp add: year_month_pairs_of_def good_marts_fields energy_north_def emissions_north_def
      intensity_north_def drop_duplicates_def)

lemma register_good:
  "dims (register_dimensions good_marts empty_warehouse) DimRegion = [(1, ''North'')]"
  "dims (register_dimensions good_marts empty_warehouse) DimEnergySource = [(1, ''Solar'')]"
  "dims (register_dimensions good_marts empty_warehouse) DimSector = [(1, ''Transport'')]"
  "dim_time (register_dimensions good_marts empty_warehouse) = [(1, (2024, 1))]"
  by (simp_all add: dims_register_dimensions dim_time_register_dimensions year_month_pairs_good
      good_marts_fields energy_north_def emissions_north_def empty_warehouse_def
      insert_missing_def next_id_def drop_duplicates_def)

lemma maps_good:
  "fetch_dim_map DimRegion (register_dimensions good_marts empty_warehouse) ''North'' = Some 1"
  "fetch_dim_map DimEnergySource (register_dimensions good_marts empty_warehouse) ''Solar'' = Some 1"
  "fetch_dim_map DimSector (register_dimensions good_marts empty_warehouse) ''Transport'' = Some 1"
  "fetch_time_map (register_dimensions good_marts empty_warehouse) (2024, 1) = Some 1"
  by (simp_all add: fetch_dim_map_def fetch_time_map_def dict_of_rows_def register_good)

lemma facts_good:
  "energy_fact_of good_marts (register_dimensions good_marts empty_warehouse) = [energy_fact_north]"
  "emissions_fact_of good_marts (register_dimensions good_marts empty_warehouse) = [emissions_fact_north]"
  "intensity_fact_of good_marts (register_dimensions good_marts empty_warehouse) = [intensity_fact_north]"
  by (simp_all add: energy_fact_of_def emissions_fact_of_def intensity_fact_of_def
      build_energy_fact_def build_emissions_fact_def build_intensity_fact_def maps_good
      good_marts_fields energy_north_def emissions_north_def intensity_north_def
      energy_fact_north_def emissions_fact_north_def intensity_fact_north_def)

theorem time_ids_always_resolve_witness:
  "(2024, 1) \<in> set (year_month_pairs_of good_marts)
   \<and> fetch_time_map (register_dimensions good_marts empty_warehouse) (2024, 1) \<noteq> None
   \<and> ef_time_id (hd (energy_fact_of good_marts (register_dimensions good_marts empty_warehouse)))
       \<noteq> None"
proof -
  have p: "(2024, 1) \<in> set (year_month_pairs_of good_marts)"
    by (simp add: year_month_pairs_good)
  have r: "hd (energy_fact_of good_marts (register_dimensions good_marts empty_warehouse))
      \<in> set (energy_fact_of good_marts (register_dimensions good_marts empty_warehouse))"
    by (simp add: facts_good)
  note T = time_ids_always_resolve [of good_marts empty_warehouse]
  have "fetch_time_map (register_dimensions good_marts empty_warehouse) (2024, 1) \<noteq> None"
    using T [THEN conjunct2, THEN conjunct1] p by (rule bspec)
  moreover have "ef_time_id (hd (energy_fact_of good_marts
      (register_dimensions good_marts empty_warehouse))) \<noteq> None"
    using T [THEN conjunct2, THEN conjunct2, THEN conjunct1] r by (rule bspec)
  ultimately show ?thesis using p by simp
qed


lemma any_any_ef_isna:
  "any_any (ef_isna df) \<longleftrightarrow>
     (\<exists>r \<in> set df. ef_region_id r = None \<or> ef_source_id r = None \<or> ef_time_id r = None
        \<or> ef_avg_consumption_mwh r = None \<or> ef_max_consumption_mwh r = None
        \<or> ef_avg_temp_c r = None)"
  by (auto simp: any_any_def ef_isna_def list_ex_iff)

lemma any_any_mf_isna:
  "any_any (mf_isna df) \<longleftrightarrow>
     (\<exists>r \<in> set df. mf_region_id r = None \<or> mf_sector_id r = None \<or> mf_time_id r = None
        \<or> mf_avg_co2_tonnes r = None \<or> mf_total_co2_tonnes r = None)"
  by (auto simp: any_any_def mf_isna_def list_ex_iff)

lemma any_any_cf_isna:
  "any_any (cf_isna df) \<longleftrightarrow>
     (\<exists>r \<in> set df. cf_region_id r = None \<or> cf_time_id r = None
        \<or> cf_total_energy_mwh r = None \<or> cf_total_co2_tonnes r = None
        \<or> cf_co2_per_mwh r = None)"
  by (auto simp: any_any_def cf_isna_def list_ex_iff)

lemma set_bad_cols: "set (bad_cols isna) = {c. (c, True) \<in> set isna}"
  using bad_cols_member [of _ isna] by blast

lemma main_guard_error:
  assumes "fail_fast [(''energy_fact'', ef_isna (energy_fact_of m (register_dimensions m db))),
                      (''emissions_fact'', mf_isna (emissions_fact_of m (register_dimensions m db))),
                      (''intensity_fact'', cf_isna (intensity_fact_of m (register_dimensions m db)))]
           = Some e"
  shows "main m db = (Some e, db)"
    and "fact_energy_monthly (snd (main_body m db)) = fact_energy_monthly db"
    and "fact_emissions_monthly (snd (main_body m db)) = fact_emissions_monthly db"
    and "fact_carbon_intensity (snd (main_body m db)) = fact_carbon_intensity db"
proof -
  have b: "main_body m db = (Some e, register_dimensions m db)"
    using assms by (rule main_body_guard)
  then have "fst (main_body m db) = Some e" by simp
  then show "main m db = (Some e, db)" by (rule main_rolls_back)
  show "fact_energy_monthly (snd (main_body m db)) = fact_energy_monthly db"
    and "fact_emissions_monthly (snd (main_body m db)) = fact_emissions_monthly db"
    and "fact_carbon_intensity (snd (main_body m db)) = fact_carbon_intensity db"
    by (simp_all add: b register_dimensions_facts)
qed

lemma bad_cols_Nil: "bad_cols [] = []"
  by (simp add: bad_cols_def)

lemma bad_cols_Cons: "bad_cols ((c, b) # isna) = (if b then [c] else []) @ bad_cols isna"
  by (simp add: bad_cols_def)

lemma bad_cols_ef_isna:
  "bad_cols (ef_isna df) =
     (if \<exists>r \<in> set df. ef_region_id r = None then [''region_id''] else [])
     @ (if \<exists>r \<in> set df. ef_source_id r = None then [''source_id''] else [])
     @ (if \<exists>r \<in> set df. ef_time_id r = None then [''time_id''] else [])
     @ (if \<exists>r \<in> set df. ef_avg_consumption_mwh r = None then [''avg_consumption_mwh''] else [])
     @ (if \<exists>r \<in> set df. ef_max_consumption_mwh r = None then [''max_consumption_mwh''] else [])
     @ (if \<exists>r \<in> set df. ef_avg_temp_c r = None then [''avg_temp_c''] else [])"
  unfolding ef_isna_def
  by (simp only: bad_cols_Cons bad_cols_Nil list_ex_iff if_False append_Nil append_Nil2)

lemma bad_cols_mf_isna:
  "bad_cols (mf_isna df) =
     (if \<exists>r \<in> set df. mf_region_id r = None then [''region_id''] else [])
     @ (if \<exists>r \<in> set df. mf_sector_id r = None then [''sector_id''] else [])
     @ (if \<exists>r \<in> set df. mf_time_id r = None then [''time_id''] else [])
     @ (if \<exists>r \<in> set df. mf_avg_co2_tonnes r = None then [''avg_co2_tonnes''] else [])
     @ (if \<exists>r \<in> set df. mf_total_co2_tonnes r = None then [''total_co2_tonnes''] else [])"
  unfolding mf_isna_def
  by (simp only: bad_cols_Cons bad_cols_Nil list_ex_iff if_False append_Nil append_Nil2)

lemma bad_cols_cf_isna:
  "bad_cols (cf_isna df) =
     (if \<exists>r \<in> set df. cf_region_id r = None then [''region_id''] else [])
     @ (if \<exists>r \<in> set df. cf_time_id r = None then [''time_id''] else [])
     @ (if \<exists>r \<in> set df. cf_total_energy_mwh r = None then [''total_energy_mwh''] else [])
     @ (if \<exists>r \<in> set df. cf_total_co2_tonnes r = None then [''total_co2_tonnes''] else [])
     @ (if \<exists>r \<in> set df. cf_co2_per_mwh r = None then [''co2_per_mwh''] else [])"
  unfolding cf_isna_def
  by (simp only: bad_cols_Cons bad_cols_Nil list_ex_iff if_False append_Nil append_Nil2)

lemma message_ValueError:
  "\<forall>name cols. message (ValueError name cols) =
     name @ '' has NULLs after ID mapping. Bad columns: ['' @ py_list_items cols @ '']''"
  by simp

lemma py_list_items_eqs:
  "py_list_items [] = []"
  "\<forall>c. py_list_items [c] = [CHR 39] @ c @ [CHR 39]"
  "\<forall>c d cs. py_list_items (c # d # cs)
      = [CHR 39] @ c @ [CHR 39] @ '', '' @ py_list_items (d # cs)"
  by simp_all

text \<open>
  Claim C3.  When a frame built in \<open>main\<close> has a missing cell, \<open>main\<close> ends with the
  \<open>ValueError\<close> of the first such frame in the order energy, emissions, intensity; the
  committed warehouse is the one before the load, and no fact table has been written on
  the connection either.  A frame has a missing cell exactly when some row has a missing
  id or metric.  The error carries the name of that frame and its list of bad columns:
  in column order, the name of each column in which some row of the frame has a missing
  cell, and no other.  The message of the error is the frame name, the fixed text and
  that list, each name in quotes, separated by commas.
\<close>

theorem missing_value_aborts_load:
  "let conn = register_dimensions m db;
       E = ef_isna (energy_fact_of m conn);
       M = mf_isna (emissions_fact_of m conn);
       C = cf_isna (intensity_fact_of m conn)
   in (any_any E \<longrightarrow> main m db = (Some (ValueError ''energy_fact'' (bad_cols E)), db))
    \<and> (\<not> any_any E \<and> any_any M \<longrightarrow>
          main m db = (Some (ValueError ''emissions_fact'' (bad_cols M)), db))
    \<and> (\<not> any_any E \<and> \<not> any_any M \<and> any_any C \<longrightarrow>
          main m db = (Some (ValueError ''intensity_fact'' (bad_cols C)), db))
    \<and> (any_any E \<or> any_any M \<or> any_any C \<longrightarrow>
          fact_energy_monthly (snd (main_body m db)) = fact_energy_monthly db
          \<and> fact_emissions_monthly (snd (main_body m db)) = fact_emissions_monthly db
          \<and> fact_carbon_intensity (snd (main_body m db)) = fact_carbon_intensity db)
    \<and> set (bad_cols E) = {c. (c, True) \<in> set E}
    \<and> set (bad_cols M) = {c. (c, True) \<in> set M}
    \<and> set (bad_cols C) = {c. (c, True) \<in> set C}
    \<and> (any_any E \<longleftrightarrow>
          (\<exists>r \<in> set (energy_fact_of m conn). ef_region_id r = None \<or> ef_source_id r = None
             \<or> ef_time_id r = None \<or> ef_avg_consumption_mwh r = None
             \<or> ef_max_consumption_mwh r = None \<or> ef_avg_temp_c r = None))
    \<and> (any_any M \<longleftrightarrow>
          (\<exists>r \<in> set (emissions_fact_of m conn). mf_region_id r = None \<or> mf_sector_id r = None
             \<or> mf_time_id r = None \<or> mf_avg_co2_tonnes r = None \<or> mf_total_co2_tonnes r = None))
    \<and> (any_any C \<longleftrightarrow>
          (\<exists>r \<in> set (intensity_fact_of m conn). cf_region_id r = None \<or> cf_time_id r = None
             \<or> cf_total_energy_mwh r = None \<or> cf_total_co2_tonnes r = None
             \<or> cf_co2_per_mwh r = None))
    \<and> bad_cols E =
         (if \<exists>r \<in> set (energy_fact_of m conn). ef_region_id r = None then [''region_id''] else [])
         @ (if \<exists>r \<in> set (energy_fact_of m conn). ef_source_id r = None then [''source_id''] else [])
         @ (if \<exists>r \<in> set (energy_fact_of m conn). ef_time_id r = None then [''time_id''] else [])
         @ (if \<exists>r \<in> set (energy_fact_of m conn). ef_avg_consumption_mwh r = None
            then [''avg_consumption_mwh''] else [])
         @ (if \<exists>r \<in> set (energy_fact_of m conn). ef_max_consumption_mwh r = None
            then [''max_consumption_mwh''] else [])
         @ (if \<exists>r \<in> set (energy_fact_of m conn). ef_avg_temp_c r = None then [''avg_temp_c''] else [])
    \<and> bad_cols M =
         (if \<exists>r \<in> set (emissions_fact_of m conn). mf_region_id r = None then [''region_id''] else [])
         @ (if \<exists>r \<in> set (emissions_fact_of m conn). mf_sector_id r = None then [''sector_id''] else [])
         @ (if \<exists>r \<in> set (emissions_fact_of m conn). mf_time_id r = None then [''time_id''] else [])
         @ (if \<exists>r \<in> set (emissions_fact_of m conn). mf_avg_co2_tonnes r = None
            then [''avg_co2_tonnes''] else [])
         @ (if \<exists>r \<in> set (emissions_fact_of m conn). mf_total_co2_tonnes r = None
            then [''total_co2_tonnes''] else [])
    \<and> bad_cols C =
         (if \<exists>r \<in> set (intensity_fact_of m conn). cf_region_id r = None then [''region_id''] else [])
         @ (if \<exists>r \<in> set (intensity_fact_of m conn). cf_time_id r = None then [''time_id''] else [])
         @ (if \<exists>r \<in> set (intensity_fact_of m conn). cf_total_energy_mwh r = None
            then [''total_energy_mwh''] else [])
         @ (if \<exists>r \<in> set (intensity_fact_of m conn). cf_total_co2_tonnes r = None
            then [''total_co2_tonnes''] else [])
         @ (if \<exists>r \<in> set (intensity_fact_of m conn). cf_co2_per_mwh r = None
            then [''co2_per_mwh''] else [])
    \<and> (\<forall>name cols. message (ValueError name cols) =
          name @ '' has NULLs after ID mapping. Bad columns: ['' @ py_list_items cols @ '']'')
    \<and> py_list_items [] = []
    \<and> (\<forall>c. py_list_items [c] = [CHR 39] @ c @ [CHR 39])
    \<and> (\<forall>c d cs. py_list_items (c # d # cs)
          = [CHR 39] @ c @ [CHR 39] @ '', '' @ py_list_items (d # cs))"
proof -
  let ?conn = "register_dimensions m db"
  let ?E = "ef_isna (energy_fact_of m ?conn)"
  let ?M = "mf_isna (emissions_fact_of m ?conn)"
  let ?C = "cf_isna (intensity_fact_of m ?conn)"
  let ?ff = "fail_fast [(''energy_fact'', ?E), (''emissions_fact'', ?M), (''intensity_fact'', ?C)]"
  have e: "any_any ?E \<longrightarrow> main m db = (Some (ValueError ''energy_fact'' (bad_cols ?E)), db)"
  proof
    assume "any_any ?E"
    then have "?ff = Some (ValueError ''energy_fact'' (bad_cols ?E))"
      by (simp only: fail_fast_three if_True)
    then show "main m db = (Some (ValueError ''energy_fact'' (bad_cols ?E)), db)"
      by (rule main_guard_error)
  qed
  have s: "\<not> any_any ?E \<and> any_any ?M \<longrightarrow>
          main m db = (Some (ValueError ''emissions_fact'' (bad_cols ?M)), db)"
  proof
    assume "\<not> any_any ?E \<and> any_any ?M"
    then have "?ff = Some (ValueError ''emissions_fact'' (bad_cols ?M))"
      by (simp only: fail_fast_three if_True if_False)
    then show "main m db = (Some (ValueError ''emissions_fact'' (bad_cols ?M)), db)"
      by (rule main_guard_error)
  qed
  have c: "\<not> any_any ?E \<and> \<not> any_any ?M \<and> any_any ?C \<longrightarrow>
          main m db = (Some (ValueError ''intensity_fact'' (bad_cols ?C)), db)"
  proof
    assume "\<not> any_any ?E \<and> \<not> any_any ?M \<and> any_any ?C"
    then have "?ff = Some (ValueError ''intensity_fact'' (bad_cols ?C))"
      by (simp only: fail_fast_three if_True if_False)
    then show "main m db = (Some (ValueError ''intensity_fact'' (bad_cols ?C)), db)"
      by (rule main_guard_error)
  qed
  have w: "any_any ?E \<or> any_any ?M \<or> any_any ?C \<longrightarrow>
          fact_energy_monthly (snd (main_body m db)) = fact_energy_monthly db
          \<and> fact_emissions_monthly (snd (main_body m db)) = fact_emissions_monthly db
          \<and> fact_carbon_intensity (snd (main_body m db)) = fact_carbon_intensity db"
  proof
    assume "any_any ?E \<or> any_any ?M \<or> any_any ?C"
    then have "?ff \<noteq> None"
      by (auto simp: fail_fast_three)
    then obtain e where "?ff = Some e"
      by blast
    then show "fact_energy_monthly (snd (main_body m db)) = fact_energy_monthly db
          \<and> fact_emissions_monthly (snd (main_body m db)) = fact_emissions_monthly db
          \<and> fact_carbon_intensity (snd (main_body m db)) = fact_carbon_intensity db"
      by (intro conjI main_guard_error)
  qed
  show ?thesis
    unfolding Let_def
    using e s c w set_bad_cols [of ?E] set_bad_cols [of ?M] set_bad_cols [of ?C]
      any_any_ef_isna [of "energy_fact_of m ?conn"] any_any_mf_isna [of "emissions_fact_of m ?conn"]
      any_any_cf_isna [of "intensity_fact_of m ?conn"]
      bad_cols_ef_isna [of "energy_fact_of m ?conn"] bad_cols_mf_isna [of "emissions_fact_of m ?conn"]
      bad_cols_cf_isna [of "intensity_fact_of m ?conn"]
      message_ValueError py_list_items_eqs
    by (intro conjI)
qed


lemma west_marts_fields:
  "energy_m west_marts = [energy_north]"
  "emis_m west_marts = [emissions_north\<lparr>ms_region := ''West'', ms_year := 2024, ms_month := 2\<rparr>]"
  "intensity west_marts = [intensity_north]"
  by (simp_all add: west_marts_def)

lemma year_month_pairs_west: "year_month_pairs_of west_marts = [(2024, 1), (2024, 2)]"
  by (simp add: year_month_pairs_of_def west_marts_fields energy_north_def emissions_north_def
      intensity_north_def drop_duplicates_def)

lemma register_west:
  "dims (register_dimensions west_marts empty_warehouse) DimRegion = [(1, ''North'')]"
  "dims (register_dimensions west_marts empty_warehouse) DimEnergySource = [(1, ''Solar'')]"
  "dims (register_dimensions west_marts empty_warehouse) DimSector = [(1, ''Transport'')]"
  "dim_time (register_dimensions west_marts empty_warehouse) = [(1, (2024, 1)), (2, (2024, 2))]"
  by (simp_all add: dims_register_dimensions dim_time_register_dimensions year_month_pairs_west
      west_marts_fields energy_north_def emissions_north_def empty_warehouse_def
      insert_missing_def next_id_def drop_duplicates_def)

lemma facts_west:
  "energy_fact_of west_marts (register_dimensions west_marts empty_warehouse) = [energy_fact_north]"
  "emissions_fact_of west_marts (register_dimensions west_marts empty_warehouse) =
     [emissions_fact_north\<lparr>mf_region_id := None, mf_time_id := Some 2\<rparr>]"
  by (simp_all add: energy_fact_of_def emissions_fact_of_def
      build_energy_fact_def build_emissions_fact_def
      fetch_dim_map_def fetch_time_map_def dict_of_rows_def register_west
      west_marts_fields energy_north_def emissions_north_def
      energy_fact_north_def emissions_fact_north_def)

theorem missing_value_aborts_load_witness:
  "\<not> any_any (ef_isna (energy_fact_of west_marts (register_dimensions west_marts empty_warehouse)))
   \<and> any_any (mf_isna (emissions_fact_of west_marts (register_dimensions west_marts empty_warehouse)))
   \<and> main west_marts empty_warehouse
       = (Some (ValueError ''emissions_fact'' [''region_id'']), empty_warehouse)
   \<and> message (ValueError ''emissions_fact'' [''region_id''])
       = ''emissions_fact has NULLs after ID mapping. Bad columns: ['' @ [CHR 39]
           @ ''region_id'' @ [CHR 39] @ '']''"
proof -
  have e: "\<not> any_any (ef_isna (energy_fact_of west_marts (register_dimensions west_marts empty_warehouse)))"
    by (simp add: facts_west any_any_def ef_isna_def energy_fact_north_def)
  have s: "any_any (mf_isna (emissions_fact_of west_marts (register_dimensions west_marts empty_warehouse)))"
    by (simp add: facts_west any_any_def mf_isna_def emissions_fact_north_def)
  note T = missing_value_aborts_load [of west_marts empty_warehouse, unfolded Let_def]
  note cols = T [THEN conjunct2, THEN conjunct2, THEN conjunct2, THEN conjunct2, THEN conjunct2,
      THEN conjunct2, THEN conjunct2, THEN conjunct2, THEN conjunct2, THEN conjunct2,
      THEN conjunct2, THEN conjunct1]
  note msg = T [THEN conjunct2, THEN conjunct2, THEN conjunct2, THEN conjunct2, THEN conjunct2,
      THEN conjunct2, THEN conjunct2, THEN conjunct2, THEN conjunct2, THEN conjunct2,
      THEN conjunct2, THEN conjunct2, THEN conjunct2, THEN conjunct1, rule_format]
  note one = T [THEN conjunct2, THEN conjunct2, THEN conjunct2, THEN conjunct2, THEN conjunct2,
      THEN conjunct2, THEN conjunct2, THEN conjunct2, THEN conjunct2, THEN conjunct2,
      THEN conjunct2, THEN conjunct2, THEN conjunct2, THEN conjunct2, THEN conjunct2,
      THEN conjunct1, rule_format]
  have b: "bad_cols (mf_isna (emissions_fact_of west_marts (register_dimensions west_marts empty_warehouse)))
      = [''region_id'']"
    by (simp only: cols) (simp add: facts_west emissions_fact_north_def)
  have "main west_marts empty_warehouse
      = (Some (ValueError ''emissions_fact'' (bad_cols (mf_isna (emissions_fact_of west_marts
            (register_dimensions west_marts empty_warehouse))))), empty_warehouse)"
    using T [THEN conjunct2, THEN conjunct1] e s by blast
  then have "main west_marts empty_warehouse
       = (Some (ValueError ''emissions_fact'' [''region_id'']), empty_warehouse)"
    by (simp only: b)
  moreover have "message (ValueError ''emissions_fact'' [''region_id''])
       = ''emissions_fact has NULLs after ID mapping. Bad columns: ['' @ [CHR 39]
           @ ''region_id'' @ [CHR 39] @ '']''"
    by (simp only: msg one) simp
  ultimately show ?thesis using e s by blast
qed

lemma zero_energy_marts_fields:
  "energy_m zero_energy_marts =
     [\<lparr>em_region = ''North'', em_energy_source = ''Solar'', em_year = 2024,
       em_month = 1, em_avg_consumption_mwh = Some 0,
       em_max_consumption_mwh = Some 0, em_avg_temp_c = Some 5, em_records = 1\<rparr>]"
  "emis_m zero_energy_marts =
     [\<lparr>ms_region = ''North'', ms_sector = ''Transport'', ms_year = 2024,
       ms_month = 1, ms_avg_co2_tonnes = Some 120, ms_total_co2_tonnes = Some 120,
       ms_records = 1\<rparr>]"
  "intensity zero_energy_marts =
     [\<lparr>ci_region = ''North'', ci_year = 2024, ci_month = 1,
       ci_total_energy_mwh = Some 0, ci_total_co2_tonnes = Some 120, ci_co2_per_mwh = None\<rparr>]"
  by (simp_all add: zero_energy_marts_def carbon_intensity_row_def co2_per_mwh_def
      replace_zero_na_def)

lemma year_month_pairs_zero: "year_month_pairs_of zero_energy_marts = [(2024, 1)]"
  by (simp add: year_month_pairs_of_def zero_energy_marts_fields drop_duplicates_def)

lemma register_zero:
  "dims (register_dimensions zero_energy_marts empty_warehouse) DimRegion = [(1, ''North'')]"
  "dims (register_dimensions zero_energy_marts empty_warehouse) DimEnergySource = [(1, ''Solar'')]"
  "dims (register_dimensions zero_energy_marts empty_warehouse) DimSector = [(1, ''Transport'')]"
  "dim_time (register_dimensions zero_energy_marts empty_warehouse) = [(1, (2024, 1))]"
  by (simp_all add: dims_register_dimensions dim_time_register_dimensions year_month_pairs_zero
      zero_energy_marts_fields empty_warehouse_def
      insert_missing_def next_id_def drop_duplicates_def)

lemma facts_zero:
  "energy_fact_of zero_energy_marts (register_dimensions zero_energy_marts empty_warehouse) =
     [\<lparr>ef_region_id = Some 1, ef_source_id = Some 1, ef_time_id = Some 1,
       ef_avg_consumption_mwh = Some 0, ef_max_consumption_mwh = Some 0,
       ef_avg_temp_c = Some 5, ef_records = 1\<rparr>]"
  "emissions_fact_of zero_energy_marts (register_dimensions zero_energy_marts empty_warehouse) =
     [\<lparr>mf_region_id = Some 1, mf_sector_id = Some 1, mf_time_id = Some 1,
       mf_avg_co2_tonnes = Some 120, mf_total_co2_tonnes = Some 120, mf_records = 1\<rparr>]"
  "intensity_fact_of zero_energy_marts (register_dimensions zero_energy_marts empty_warehouse) =
     [\<lparr>cf_region_id = Some 1, cf_time_id = Some 1, cf_total_energy_mwh = Some 0,
       cf_total_co2_tonnes = Some 120, cf_co2_per_mwh = None\<rparr>]"
  by (simp_all add: energy_fact_of_def emissions_fact_of_def intensity_fact_of_def
      build_energy_fact_def build_emissions_fact_def build_intensity_fact_def
      fetch_dim_map_def fetch_time_map_def dict_of_rows_def register_zero
      zero_energy_marts_fields)

text \<open>
  Claim C4.  The GOLD step gives the carbon-intensity row of a month with zero total
  energy a missing \<open>co2_per_mwh\<close> and no division error.  Loading the marts of such a month
  into an empty warehouse does not store that row: step 5 of \<open>main\<close> counts the missing
  ratio as a failed id mapping, raises the \<open>ValueError\<close> for \<open>intensity_fact\<close> with the
  column \<open>co2_per_mwh\<close>, and the load is rolled back.
\<close>

theorem zero_energy_month_rejected:
  "ci_co2_per_mwh (carbon_intensity_row ''North'' 2024 1 (Some 0) (Some 120)) = None
   \<and> intensity zero_energy_marts
       = [\<lparr>ci_region = ''North'', ci_year = 2024, ci_month = 1, ci_total_energy_mwh = Some 0,
           ci_total_co2_tonnes = Some 120, ci_co2_per_mwh = None\<rparr>]
   \<and> main zero_energy_marts empty_warehouse
       = (Some (ValueError ''intensity_fact'' [''co2_per_mwh'']), empty_warehouse)
   \<and> fact_carbon_intensity (snd (main zero_energy_marts empty_warehouse)) = []"
proof -
  have g: "ci_co2_per_mwh (carbon_intensity_row ''North'' 2024 1 (Some 0) (Some 120)) = None"
    by (simp add: carbon_intensity_row_def co2_per_mwh_def replace_zero_na_def)
  have "fail_fast
      [(''energy_fact'', ef_isna (energy_fact_of zero_energy_marts
           (register_dimensions zero_energy_marts empty_warehouse))),
       (''emissions_fact'', mf_isna (emissions_fact_of zero_energy_marts
           (register_dimensions zero_energy_marts empty_warehouse))),
       (''intensity_fact'', cf_isna (intensity_fact_of zero_energy_marts
           (register_dimensions zero_energy_marts empty_warehouse)))]
      = Some (ValueError ''intensity_fact'' [''co2_per_mwh''])"
    by (simp add: facts_zero any_any_def bad_cols_def ef_isna_def mf_isna_def cf_isna_def)
  then have m: "main zero_energy_marts empty_warehouse
       = (Some (ValueError ''intensity_fact'' [''co2_per_mwh'']), empty_warehouse)"
    by (rule main_guard_error)
  have "fact_carbon_intensity (snd (main zero_energy_marts empty_warehouse)) = []"
    by (simp add: m) (simp add: empty_warehouse_def)
  with g m zero_energy_marts_fields(3) show ?thesis by simp
qed


lemma upsert_fact_energy_cases:
  "upsert_fact_energy df conn =
     (case insert_on_conflict ef_key ef_update (fact_energy_monthly conn) df of
        Inl e \<Rightarrow> (Some e, conn\<lparr>stg_fact_energy := Some df\<rparr>)
      | Inr rows \<Rightarrow> (None, conn\<lparr>fact_energy_monthly := rows, stg_fact_energy := None\<rparr>))"
  by (simp add: upsert_fact_energy_def Let_def split: sum.splits)

lemma upsert_fact_emissions_cases:
  "upsert_fact_emissions df conn =
     (case insert_on_conflict mf_key mf_update (fact_emissions_monthly conn) df of
        Inl e \<Rightarrow> (Some e, conn\<lparr>stg_fact_emissions := Some df\<rparr>)
      | Inr rows \<Rightarrow> (None, conn\<lparr>fact_emissions_monthly := rows, stg_fact_emissions := None\<rparr>))"
  by (simp add: upsert_fact_emissions_def Let_def split: sum.splits)

lemma upsert_fact_intensity_cases:
  "upsert_fact_intensity df conn =
     (case insert_on_conflict cf_key cf_update (fact_carbon_intensity conn) df of
        Inl e \<Rightarrow> (Some e, conn\<lparr>stg_fact_intensity := Some df\<rparr>)
      | Inr rows \<Rightarrow> (None, conn\<lparr>fact_carbon_intensity := rows, stg_fact_intensity := None\<rparr>))"
  by (simp add: upsert_fact_intensity_def Let_def split: sum.splits)

lemma main_body_passed:
  assumes "fst (main_body m db) = None"
  shows "fail_fast [(''energy_fact'', ef_isna (energy_fact_of m (register_dimensions m db))),
                    (''emissions_fact'', mf_isna (emissions_fact_of m (register_dimensions m db))),
                    (''intensity_fact'', cf_isna (intensity_fact_of m (register_dimensions m db)))]
         = None"
proof (rule ccontr)
  assume "fail_fast [(''energy_fact'', ef_isna (energy_fact_of m (register_dimensions m db))),
                    (''emissions_fact'', mf_isna (emissions_fact_of m (register_dimensions m db))),
                    (''intensity_fact'', cf_isna (intensity_fact_of m (register_dimensions m db)))]
         \<noteq> None"
  then obtain e where "fail_fast [(''energy_fact'', ef_isna (energy_fact_of m (register_dimensions m db))),
                    (''emissions_fact'', mf_isna (emissions_fact_of m (register_dimensions m db))),
                    (''intensity_fact'', cf_isna (intensity_fact_of m (register_dimensions m db)))]
         = Some e"
    by blast
  then have "main_body m db = (Some e, register_dimensions m db)"
    by (rule main_body_guard)
  with assms show False by simp
qed

lemma main_body_merges:
  assumes "fail_fast [(''energy_fact'', ef_isna (energy_fact_of m (register_dimensions m db))),
                    (''emissions_fact'', mf_isna (emissions_fact_of m (register_dimensions m db))),
                    (''intensity_fact'', cf_isna (intensity_fact_of m (register_dimensions m db)))]
         = None"
  shows "main_body m db =
     and_then (and_then (upsert_fact_energy (energy_fact_of m (register_dimensions m db))
                                (register_dimensions m db))
                             (upsert_fact_emissions (emissions_fact_of m (register_dimensions m db))))
                   (upsert_fact_intensity (intensity_fact_of m (register_dimensions m db)))"
  using assms by (simp only: main_body_unfold option.case)

lemma main_body_success:
  assumes "fst (main_body m db) = None"
  shows "\<exists>re rs rc.
     insert_on_conflict ef_key ef_update (fact_energy_monthly db)
        (energy_fact_of m (register_dimensions m db)) = Inr re
     \<and> insert_on_conflict mf_key mf_update (fact_emissions_monthly db)
        (emissions_fact_of m (register_dimensions m db)) = Inr rs
     \<and> insert_on_conflict cf_key cf_update (fact_carbon_intensity db)
        (intensity_fact_of m (register_dimensions m db)) = Inr rc
     \<and> main_body m db = (None, (register_dimensions m db)
          \<lparr>fact_energy_monthly := re, fact_emissions_monthly := rs, fact_carbon_intensity := rc,
           stg_fact_energy := None, stg_fact_emissions := None, stg_fact_intensity := None\<rparr>)"
proof -
  let ?conn = "register_dimensions m db"
  have mb: "main_body m db =
     and_then (and_then (upsert_fact_energy (energy_fact_of m ?conn) ?conn)
                        (upsert_fact_emissions (emissions_fact_of m ?conn)))
              (upsert_fact_intensity (intensity_fact_of m ?conn))"
    using assms by (intro main_body_merges main_body_passed)
  show ?thesis
  proof (cases "insert_on_conflict ef_key ef_update (fact_energy_monthly db) (energy_fact_of m ?conn)")
    case (Inl e)
    then have "fst (main_body m db) = Some e"
      by (simp add: mb and_then_def upsert_fact_energy_cases register_dimensions_facts)
    with assms show ?thesis by simp
  next
    case re: (Inr re)
    show ?thesis
    proof (cases "insert_on_conflict mf_key mf_update (fact_emissions_monthly db) (emissions_fact_of m ?conn)")
      case (Inl e)
      then have "fst (main_body m db) = Some e"
        using re
        by (simp add: mb and_then_def upsert_fact_energy_cases upsert_fact_emissions_cases
            register_dimensions_facts)
      with assms show ?thesis by simp
    next
      case rs: (Inr rs)
      show ?thesis
      proof (cases "insert_on_conflict cf_key cf_update (fact_carbon_intensity db) (intensity_fact_of m ?conn)")
        case (Inl e)
        then have "fst (main_body m db) = Some e"
          using re rs
          by (simp add: mb and_then_def upsert_fact_energy_cases upsert_fact_emissions_cases
              upsert_fact_intensity_cases register_dimensions_facts)
        with assms show ?thesis by simp
      next
        case rc: (Inr rc)
        have "main_body m db = (None, ?conn
          \<lparr>fact_energy_monthly := re, fact_emissions_monthly := rs, fact_carbon_intensity := rc,
           stg_fact_energy := None, stg_fact_emissions := None, stg_fact_intensity := None\<rparr>)"
          using re rs rc
          by (simp add: mb and_then_def upsert_fact_energy_cases upsert_fact_emissions_cases
              upsert_fact_intensity_cases register_dimensions_facts)
        with re rs rc show ?thesis by blast
      qed
    qed
  qed
qed

text \<open>
  Claim C7.  \<open>main\<close> is its whole body run in one transaction.  When the body raises, at
  step 5 or in a merge, \<open>main\<close> raises the same error and the committed warehouse is the
  one before the load, whatever the body had written on the connection.  When the body
  ends normally, the committed warehouse is the state of the connection at the end of
  the body: the registered dimensions, the registered time dimension and the three
  merged fact tables together.
\<close>

theorem load_is_one_transaction:
  "fst (main m db) = fst (main_body m db)
   \<and> (fst (main_body m db) \<noteq> None \<longrightarrow> snd (main m db) = db)
   \<and> (fst (main_body m db) = None \<longrightarrow>
        snd (main m db) = snd (main_body m db)
        \<and> dims (snd (main m db)) = dims (register_dimensions m db)
        \<and> dim_time (snd (main m db)) = dim_time (register_dimensions m db)
        \<and> insert_on_conflict ef_key ef_update (fact_energy_monthly db)
             (energy_fact_of m (register_dimensions m db))
           = Inr (fact_energy_monthly (snd (main m db)))
        \<and> insert_on_conflict mf_key mf_update (fact_emissions_monthly db)
             (emissions_fact_of m (register_dimensions m db))
           = Inr (fact_emissions_monthly (snd (main m db)))
        \<and> insert_on_conflict cf_key cf_update (fact_carbon_intensity db)
             (intensity_fact_of m (register_dimensions m db))
           = Inr (fact_carbon_intensity (snd (main m db))))"
proof (intro conjI impI)
  show "fst (main m db) = fst (main_body m db)"
    by (cases "main_body m db") (simp add: main_def engine_begin_def split: option.splits)
next
  assume "fst (main_body m db) \<noteq> None"
  then obtain e where "fst (main_body m db) = Some e" by blast
  then have "main m db = (Some e, db)" by (rule main_rolls_back)
  then show "snd (main m db) = db" by simp
next
  assume ok: "fst (main_body m db) = None"
  then have c: "main m db = (None, snd (main_body m db))" by (rule main_commits)
  from ok obtain re rs rc where r:
    "insert_on_conflict ef_key ef_update (fact_energy_monthly db)
        (energy_fact_of m (register_dimensions m db)) = Inr re"
    "insert_on_conflict mf_key mf_update (fact_emissions_monthly db)
        (emissions_fact_of m (register_dimensions m db)) = Inr rs"
    "insert_on_conflict cf_key cf_update (fact_carbon_intensity db)
        (intensity_fact_of m (register_dimensions m db)) = Inr rc"
    "main_body m db = (None, (register_dimensions m db)
          \<lparr>fact_energy_monthly := re, fact_emissions_monthly := rs, fact_carbon_intensity := rc,
           stg_fact_energy := None, stg_fact_emissions := None, stg_fact_intensity := None\<rparr>)"
    using main_body_success [of m db] by blast
  show "snd (main m db) = snd (main_body m db)" by (simp add: c)
  show "dims (snd (main m db)) = dims (register_dimensions m db)" by (simp add: c r(4))
  show "dim_time (snd (main m db)) = dim_time (register_dimensions m db)" by (simp add: c r(4))
  show "insert_on_conflict ef_key ef_update (fact_energy_monthly db)
             (energy_fact_of m (register_dimensions m db))
           = Inr (fact_energy_monthly (snd (main m db)))"
    by (simp add: c r(4) r(1))
  show "insert_on_conflict mf_key mf_update (fact_emissions_monthly db)
             (emissions_fact_of m (register_dimensions m db))
           = Inr (fact_emissions_monthly (snd (main m db)))"
    by (simp add: c r(4) r(2))
  show "insert_on_conflict cf_key cf_update (fact_carbon_intensity db)
             (intensity_fact_of m (register_dimensions m db))
           = Inr (fact_carbon_intensity (snd (main m db)))"
    by (simp add: c r(4) r(3))
qed


lemma repeated_key_marts_fields:
  "energy_m repeated_key_marts = [energy_north]"
  "emis_m repeated_key_marts
     = [emissions_north, emissions_north\<lparr>ms_total_co2_tonnes := Some 130\<rparr>]"
  "intensity repeated_key_marts = [intensity_north]"
  by (simp_all add: repeated_key_marts_def)

lemma year_month_pairs_repeated: "year_month_pairs_of repeated_key_marts = [(2024, 1)]"
  by (simp add: year_month_pairs_of_def repeated_key_marts_fields energy_north_def
      emissions_north_def intensity_north_def drop_duplicates_def)

lemma register_repeated:
  "dims (register_dimensions repeated_key_marts empty_warehouse) DimRegion = [(1, ''North'')]"
  "dims (register_dimensions repeated_key_marts empty_warehouse) DimEnergySource = [(1, ''Solar'')]"
  "dims (register_dimensions repeated_key_marts empty_warehouse) DimSector = [(1, ''Transport'')]"
  "dim_time (register_dimensions repeated_key_marts empty_warehouse) = [(1, (2024, 1))]"
  by (simp_all add: dims_register_dimensions dim_time_register_dimensions
      year_month_pairs_repeated repeated_key_marts_fields energy_north_def emissions_north_def
      empty_warehouse_def insert_missing_def next_id_def drop_duplicates_def)

lemma facts_repeated:
  "energy_fact_of repeated_key_marts (register_dimensions repeated_key_marts empty_warehouse)
     = [energy_fact_north]"
  "emissions_fact_of repeated_key_marts (register_dimensions repeated_key_marts empty_warehouse)
     = [emissions_fact_north, emissions_fact_north\<lparr>mf_total_co2_tonnes := Some 130\<rparr>]"
  "intensity_fact_of repeated_key_marts (register_dimensions repeated_key_marts empty_warehouse)
     = [intensity_fact_north]"
  by (simp_all add: energy_fact_of_def emissions_fact_of_def intensity_fact_of_def
      build_energy_fact_def build_emissions_fact_def build_intensity_fact_def
      fetch_dim_map_def fetch_time_map_def dict_of_rows_def register_repeated
      repeated_key_marts_fields energy_north_def emissions_north_def intensity_north_def
      energy_fact_north_def emissions_fact_north_def intensity_fact_north_def)

lemma no_missing_north:
  "\<not> any_any (ef_isna [energy_fact_north])"
  "\<not> any_any (mf_isna [emissions_fact_north])"
  "\<not> any_any (mf_isna [emissions_fact_north, emissions_fact_north\<lparr>mf_total_co2_tonnes := Some 130\<rparr>])"
  "\<not> any_any (cf_isna [intensity_fact_north])"
  by (simp_all add: any_any_def ef_isna_def mf_isna_def cf_isna_def energy_fact_north_def
      emissions_fact_north_def intensity_fact_north_def)

lemma merge_north:
  "insert_on_conflict ef_key ef_update [] [energy_fact_north] = Inr [energy_fact_north]"
  "insert_on_conflict mf_key mf_update [] [emissions_fact_north] = Inr [emissions_fact_north]"
  "insert_on_conflict cf_key cf_update [] [intensity_fact_north] = Inr [intensity_fact_north]"
  "insert_on_conflict mf_key mf_update []
     [emissions_fact_north, emissions_fact_north\<lparr>mf_total_co2_tonnes := Some 130\<rparr>]
     = Inl CardinalityViolation"
  by (simp_all add: insert_on_conflict_def ef_key_def mf_key_def cf_key_def
      energy_fact_north_def emissions_fact_north_def intensity_fact_north_def)

lemma empty_warehouse_facts:
  "fact_energy_monthly empty_warehouse = []"
  "fact_emissions_monthly empty_warehouse = []"
  "fact_carbon_intensity empty_warehouse = []"
  "stg_fact_energy empty_warehouse = None"
  "stg_fact_emissions empty_warehouse = None"
  "stg_fact_intensity empty_warehouse = None"
  by (simp_all add: empty_warehouse_def)

lemma main_body_repeated:
  "fst (main_body repeated_key_marts empty_warehouse) = Some CardinalityViolation"
  "fact_energy_monthly (snd (main_body repeated_key_marts empty_warehouse)) = [energy_fact_north]"
proof -
  have "fail_fast
      [(''energy_fact'', ef_isna (energy_fact_of repeated_key_marts
           (register_dimensions repeated_key_marts empty_warehouse))),
       (''emissions_fact'', mf_isna (emissions_fact_of repeated_key_marts
           (register_dimensions repeated_key_marts empty_warehouse))),
       (''intensity_fact'', cf_isna (intensity_fact_of repeated_key_marts
           (register_dimensions repeated_key_marts empty_warehouse)))]
      = None"
    by (simp add: facts_repeated no_missing_north)
  then have mb: "main_body repeated_key_marts empty_warehouse =
     and_then (and_then (upsert_fact_energy [energy_fact_north]
                           (register_dimensions repeated_key_marts empty_warehouse))
                 (upsert_fact_emissions
                    [emissions_fact_north, emissions_fact_north\<lparr>mf_total_co2_tonnes := Some 130\<rparr>]))
       (upsert_fact_intensity [intensity_fact_north])"
    using main_body_merges [of repeated_key_marts empty_warehouse]
    by (simp only: facts_repeated)
  show "fst (main_body repeated_key_marts empty_warehouse) = Some CardinalityViolation"
    by (simp add: mb and_then_def upsert_fact_energy_cases upsert_fact_emissions_cases
        register_dimensions_facts empty_warehouse_facts merge_north)
  show "fact_energy_monthly (snd (main_body repeated_key_marts empty_warehouse)) = [energy_fact_north]"
    by (simp add: mb and_then_def upsert_fact_energy_cases upsert_fact_emissions_cases
        register_dimensions_facts empty_warehouse_facts merge_north)
qed

lemma main_body_good: "fst (main_body good_marts empty_warehouse) = None"
proof -
  have "fail_fast
      [(''energy_fact'', ef_isna (energy_fact_of good_marts
           (register_dimensions good_marts empty_warehouse))),
       (''emissions_fact'', mf_isna (emissions_fact_of good_marts
           (register_dimensions good_marts empty_warehouse))),
       (''intensity_fact'', cf_isna (intensity_fact_of good_marts
           (register_dimensions good_marts empty_warehouse)))]
      = None"
    by (simp add: facts_good no_missing_north)
  then have mb: "main_body good_marts empty_warehouse =
     and_then (and_then (upsert_fact_energy [energy_fact_north]
                           (register_dimensions good_marts empty_warehouse))
                 (upsert_fact_emissions [emissions_fact_north]))
       (upsert_fact_intensity [intensity_fact_north])"
    using main_body_merges [of good_marts empty_warehouse]
    by (simp only: facts_good)
  show ?thesis
    by (simp add: mb and_then_def upsert_fact_energy_cases upsert_fact_emissions_cases
        upsert_fact_intensity_cases register_dimensions_facts empty_warehouse_facts merge_north)
qed

theorem load_is_one_transaction_witness:
  "fst (main_body repeated_key_marts empty_warehouse) \<noteq> None
   \<and> fact_energy_monthly (snd (main_body repeated_key_marts empty_warehouse)) = [energy_fact_north]
   \<and> snd (main repeated_key_marts empty_warehouse) = empty_warehouse
   \<and> fst (main_body good_marts empty_warehouse) = None
   \<and> fact_energy_monthly (snd (main good_marts empty_warehouse)) = [energy_fact_north]
   \<and> dims (snd (main good_marts empty_warehouse)) DimRegion = [(1, ''North'')]"
proof -
  have f: "fst (main_body repeated_key_marts empty_warehouse) \<noteq> None"
    by (simp add: main_body_repeated)
  have r: "snd (main repeated_key_marts empty_warehouse) = empty_warehouse"
    using load_is_one_transaction [of repeated_key_marts empty_warehouse] f by blast
  note G = load_is_one_transaction [of good_marts empty_warehouse, THEN conjunct2, THEN conjunct2,
      rule_format, OF main_body_good]
  have "insert_on_conflict ef_key ef_update (fact_energy_monthly empty_warehouse)
             (energy_fact_of good_marts (register_dimensions good_marts empty_warehouse))
           = Inr (fact_energy_monthly (snd (main good_marts empty_warehouse)))"
    using G by blast
  then have e: "fact_energy_monthly (snd (main good_marts empty_warehouse)) = [energy_fact_north]"
    by (simp add: facts_good empty_warehouse_facts merge_north)
  have "dims (snd (main good_marts empty_warehouse)) = dims (register_dimensions good_marts empty_warehouse)"
    using G by blast
  then have d: "dims (snd (main good_marts empty_warehouse)) DimRegion = [(1, ''North'')]"
    by (simp add: register_good)
  show ?thesis
    using f r e d main_body_good main_body_repeated(2) by blast
qed



lemma key_fields:
  "ef_key r = None \<longleftrightarrow> ef_region_id r = None \<or> ef_source_id r = None \<or> ef_time_id r = None"
  "ef_key r \<noteq> None \<longrightarrow>
     (ef_key t = ef_key r \<longleftrightarrow>
        ef_region_id t = ef_region_id r \<and> ef_source_id t = ef_source_id r
        \<and> ef_time_id t = ef_time_id r)"
  "mf_key v = None \<longleftrightarrow> mf_region_id v = None \<or> mf_sector_id v = None \<or> mf_time_id v = None"
  "mf_key v \<noteq> None \<longrightarrow>
     (mf_key u = mf_key v \<longleftrightarrow>
        mf_region_id u = mf_region_id v \<and> mf_sector_id u = mf_sector_id v
        \<and> mf_time_id u = mf_time_id v)"
  "cf_key y = None \<longleftrightarrow> cf_region_id y = None \<or> cf_time_id y = None"
  "cf_key y \<noteq> None \<longrightarrow>
     (cf_key x = cf_key y \<longleftrightarrow> cf_region_id x = cf_region_id y \<and> cf_time_id x = cf_time_id y)"
  by (auto simp: ef_key_def mf_key_def cf_key_def split: option.splits)







section \<open>The merge statement\<close>

lemma on_conflict_row_absent:
  "key s = None \<or> key s \<notin> set (map key T) \<Longrightarrow> on_conflict_row key upd T s = T @ [s]"
  by (induction T) auto

lemma unique_constraint_Cons:
  "unique_constraint key (t # ts) \<longleftrightarrow>
     (key t \<noteq> None \<longrightarrow> key t \<notin> set (map key ts)) \<and> unique_constraint key ts"
  by (auto simp: unique_constraint_def)

lemma on_conflict_row_present:
  assumes "key s \<noteq> None" and "key s \<in> set (map key T)" and "unique_constraint key T"
  shows "on_conflict_row key upd T s = map (\<lambda>t. if key t = key s then upd t s else t) T"
  using assms(2,3)
proof (induction T)
  case Nil
  then show ?case by simp
next
  case (Cons t ts)
  show ?case
  proof (cases "key t = key s")
    case True
    then have "key s \<notin> set (map key ts)"
      using Cons.prems(2) assms(1) by (simp add: unique_constraint_Cons)
    then have "map (\<lambda>t. if key t = key s then upd t s else t) ts = ts"
      by (induction ts) auto
    then show ?thesis using True assms(1) by simp
  next
    case False
    then have "key s \<in> set (map key ts)" using Cons.prems(1) by auto
    moreover have "unique_constraint key ts"
      using Cons.prems(2) by (simp add: unique_constraint_Cons)
    ultimately have "on_conflict_row key upd ts s
        = map (\<lambda>t. if key t = key s then upd t s else t) ts"
      by (rule Cons.IH)
    then show ?thesis using False by simp
  qed
qed

lemma map_key_on_conflict_row:
  assumes same: "\<And>t s. key s \<noteq> None \<Longrightarrow> key t = key s \<Longrightarrow> upd t s = s"
  shows "map key (on_conflict_row key upd T s) =
     (if key s \<noteq> None \<and> key s \<in> set (map key T) then map key T else map key T @ [key s])"
proof (induction T)
  case Nil
  then show ?case by simp
next
  case (Cons t ts)
  show ?case
  proof (cases "key s \<noteq> None \<and> key t = key s")
    case True
    then have "upd t s = s" using same by blast
    then show ?thesis using True by simp
  next
    case False
    then show ?thesis using Cons.IH by auto
  qed
qed

lemma find_on_conflict_row_same:
  assumes same: "\<And>t s. key s \<noteq> None \<Longrightarrow> key t = key s \<Longrightarrow> upd t s = s"
    and "key s \<noteq> None"
  shows "find (\<lambda>t. key t = key s) (on_conflict_row key upd T s) = Some s"
proof (induction T)
  case Nil
  then show ?case by simp
next
  case (Cons t ts)
  show ?case
  proof (cases "key t = key s")
    case True
    then have "upd t s = s" using same assms(2) by blast
    then show ?thesis using True assms(2) by simp
  next
    case False
    then show ?thesis using Cons.IH by simp
  qed
qed

lemma find_on_conflict_row_other:
  assumes same: "\<And>t s. key s \<noteq> None \<Longrightarrow> key t = key s \<Longrightarrow> upd t s = s"
    and "key s \<noteq> k"
  shows "find (\<lambda>t. key t = k) (on_conflict_row key upd T s) = find (\<lambda>t. key t = k) T"
proof (induction T)
  case Nil
  then show ?case using assms(2) by simp
next
  case (Cons t ts)
  show ?case
  proof (cases "key s \<noteq> None \<and> key t = key s")
    case True
    then have "upd t s = s" using same by blast
    then show ?thesis using True assms(2) by simp
  next
    case False
    then show ?thesis using Cons.IH by auto
  qed
qed

lemma on_conflict_row_unchanged:
  assumes same: "\<And>t s. key s \<noteq> None \<Longrightarrow> key t = key s \<Longrightarrow> upd t s = s"
    and "key s \<noteq> None"
    and "find (\<lambda>t. key t = key s) T = Some s"
  shows "on_conflict_row key upd T s = T"
  using assms(3)
proof (induction T)
  case Nil
  then show ?case by simp
next
  case (Cons t ts)
  show ?case
  proof (cases "key t = key s")
    case True
    then have "t = s" using Cons.prems by simp
    moreover have "upd s s = s" using same assms(2) by blast
    ultimately show ?thesis using assms(2) by simp
  next
    case False
    then have "find (\<lambda>t. key t = key s) ts = Some s" using Cons.prems by simp
    then have "on_conflict_row key upd ts s = ts" by (rule Cons.IH)
    then show ?thesis using False by simp
  qed
qed

lemma find_foldl_other:
  assumes same: "\<And>t s. key s \<noteq> None \<Longrightarrow> key t = key s \<Longrightarrow> upd t s = s"
    and "\<forall>s \<in> set S. key s \<noteq> k"
  shows "find (\<lambda>t. key t = k) (foldl (on_conflict_row key upd) T S) = find (\<lambda>t. key t = k) T"
  using assms(2)
proof (induction S arbitrary: T)
  case Nil
  then show ?case by simp
next
  case (Cons a S)
  have "find (\<lambda>t. key t = k) (foldl (on_conflict_row key upd) (on_conflict_row key upd T a) S)
      = find (\<lambda>t. key t = k) (on_conflict_row key upd T a)"
    using Cons.prems by (intro Cons.IH) simp
  also have "\<dots> = find (\<lambda>t. key t = k) T"
    using same Cons.prems by (intro find_on_conflict_row_other) simp_all
  finally show ?case by simp
qed

lemma find_foldl_same:
  assumes same: "\<And>t s. key s \<noteq> None \<Longrightarrow> key t = key s \<Longrightarrow> upd t s = s"
    and "distinct (map key S)" and "\<forall>s \<in> set S. key s \<noteq> None"
  shows "\<forall>s \<in> set S. find (\<lambda>t. key t = key s) (foldl (on_conflict_row key upd) T S) = Some s"
  using assms(2,3)
proof (induction S arbitrary: T)
  case Nil
  then show ?case by simp
next
  case (Cons a S)
  let ?T = "on_conflict_row key upd T a"
  have a: "find (\<lambda>t. key t = key a) (foldl (on_conflict_row key upd) ?T S) = Some a"
  proof -
    have "\<forall>s \<in> set S. key s \<noteq> key a" using Cons.prems(1) by (force simp: image_iff)
    with same have "find (\<lambda>t. key t = key a) (foldl (on_conflict_row key upd) ?T S)
        = find (\<lambda>t. key t = key a) ?T"
      by (rule find_foldl_other)
    also have "\<dots> = Some a"
      using same Cons.prems(2) by (intro find_on_conflict_row_same) simp_all
    finally show ?thesis .
  qed
  have "\<forall>s \<in> set S. find (\<lambda>t. key t = key s) (foldl (on_conflict_row key upd) ?T S) = Some s"
    using Cons.prems by (intro Cons.IH) simp_all
  with a show ?case by simp
qed

lemma foldl_unchanged:
  assumes same: "\<And>t s. key s \<noteq> None \<Longrightarrow> key t = key s \<Longrightarrow> upd t s = s"
    and "\<forall>s \<in> set S. key s \<noteq> None \<and> find (\<lambda>t. key t = key s) T = Some s"
  shows "foldl (on_conflict_row key upd) T S = T"
  using assms(2)
proof (induction S)
  case Nil
  then show ?case by simp
next
  case (Cons a S)
  have "on_conflict_row key upd T a = T"
    using same Cons.prems by (intro on_conflict_row_unchanged) simp_all
  moreover have "foldl (on_conflict_row key upd) T S = T"
    using Cons.prems by (intro Cons.IH) simp
  ultimately show ?case by simp
qed

lemma foldl_on_conflict_idem:
  assumes same: "\<And>t s. key s \<noteq> None \<Longrightarrow> key t = key s \<Longrightarrow> upd t s = s"
    and "distinct (map key S)" and "\<forall>s \<in> set S. key s \<noteq> None"
  shows "foldl (on_conflict_row key upd) (foldl (on_conflict_row key upd) T S) S
     = foldl (on_conflict_row key upd) T S"
proof -
  have "\<forall>s \<in> set S. find (\<lambda>t. key t = key s) (foldl (on_conflict_row key upd) T S) = Some s"
    using assms by (rule find_foldl_same)
  with assms(3) have "\<forall>s \<in> set S. key s \<noteq> None
      \<and> find (\<lambda>t. key t = key s) (foldl (on_conflict_row key upd) T S) = Some s"
    by blast
  with same show ?thesis by (rule foldl_unchanged)
qed

lemma map_key_foldl:
  assumes same: "\<And>t s. key s \<noteq> None \<Longrightarrow> key t = key s \<Longrightarrow> upd t s = s"
    and "distinct (map key S)" and "\<forall>s \<in> set S. key s \<noteq> None"
  shows "map key (foldl (on_conflict_row key upd) T S)
     = map key T @ filter (\<lambda>k. k \<notin> set (map key T)) (map key S)"
  using assms(2,3)
proof (induction S arbitrary: T)
  case Nil
  then show ?case by simp
next
  case (Cons a S)
  let ?T = "on_conflict_row key upd T a"
  have ka: "key a \<noteq> None" "key a \<notin> set (map key S)" using Cons.prems by auto
  have ih: "map key (foldl (on_conflict_row key upd) ?T S)
      = map key ?T @ filter (\<lambda>k. k \<notin> set (map key ?T)) (map key S)"
    using Cons.prems by (intro Cons.IH) simp_all
  show ?case
  proof (cases "key a \<in> set (map key T)")
    case True
    then have "map key ?T = map key T"
      using map_key_on_conflict_row [of key upd T a, OF same] ka(1) by simp
    then show ?thesis using ih True by simp
  next
    case False
    then have k: "map key ?T = map key T @ [key a]"
      using map_key_on_conflict_row [of key upd T a, OF same] by simp
    have "filter (\<lambda>k. k \<notin> set (map key T @ [key a])) (map key S)
        = filter (\<lambda>k. k \<notin> set (map key T)) (map key S)"
      using ka(2) by (intro filter_cong) (force simp: image_iff)+
    then show ?thesis using ih False by (simp add: k)
  qed
qed

lemma unique_constraint_foldl:
  assumes same: "\<And>t s. key s \<noteq> None \<Longrightarrow> key t = key s \<Longrightarrow> upd t s = s"
    and "distinct (map key S)" and "\<forall>s \<in> set S. key s \<noteq> None"
    and "unique_constraint key T"
  shows "unique_constraint key (foldl (on_conflict_row key upd) T S)"
proof -
  have "distinct (filter (\<lambda>k. k \<noteq> None)
      (filter (\<lambda>k. k \<notin> set (map key T)) (map key S)))"
    using assms(2) by (intro distinct_filter) simp
  moreover have "set (filter (\<lambda>k. k \<noteq> None) (map key T))
      \<inter> set (filter (\<lambda>k. k \<noteq> None) (filter (\<lambda>k. k \<notin> set (map key T)) (map key S))) = {}"
    by auto
  ultimately have "distinct (filter (\<lambda>k. k \<noteq> None)
      (map key T @ filter (\<lambda>k. k \<notin> set (map key T)) (map key S)))"
    using assms(4) by (simp only: filter_append distinct_append unique_constraint_def simp_thms)
  moreover have "map key (foldl (on_conflict_row key upd) T S)
     = map key T @ filter (\<lambda>k. k \<notin> set (map key T)) (map key S)"
    using assms(1-3) by (rule map_key_foldl)
  ultimately show ?thesis
    by (simp only: unique_constraint_def)
qed

lemma unique_constraint_same_key:
  assumes "unique_constraint key T" and "t \<in> set T" and "s \<in> set T"
    and "key t = key s" and "key s \<noteq> None"
  shows "t = s"
proof -
  have "filter (\<lambda>k. k \<noteq> None) (map key T) = map key (filter (\<lambda>t. key t \<noteq> None) T)"
    by (simp add: filter_map comp_def)
  then have "inj_on key (set (filter (\<lambda>t. key t \<noteq> None) T))"
    using assms(1) by (simp add: unique_constraint_def distinct_map)
  moreover have "t \<in> set (filter (\<lambda>t. key t \<noteq> None) T)" "s \<in> set (filter (\<lambda>t. key t \<noteq> None) T)"
    using assms(2-5) by simp_all
  ultimately show ?thesis using assms(4) by (auto dest: inj_onD)
qed


lemma insert_on_conflict_complete:
  assumes "\<forall>s \<in> set S. key s \<noteq> None"
  shows "insert_on_conflict key upd T S =
     (if distinct (map key S) then Inr (foldl (on_conflict_row key upd) T S)
      else Inl CardinalityViolation)"
proof -
  have "filter (\<lambda>k. k \<noteq> None) (map key S) = map key S"
    using assms by (auto simp: filter_id_conv)
  then show ?thesis by (simp add: insert_on_conflict_def)
qed

lemma insert_on_conflict_single:
  "insert_on_conflict key upd T [s] = Inr (on_conflict_row key upd T s)"
  by (simp add: insert_on_conflict_def)

lemma insert_on_conflict_idem:
  assumes same: "\<And>t s. key s \<noteq> None \<Longrightarrow> key t = key s \<Longrightarrow> upd t s = s"
    and "\<forall>s \<in> set S. key s \<noteq> None"
    and "insert_on_conflict key upd T S = Inr T1"
  shows "insert_on_conflict key upd T1 S = Inr T1"
proof -
  have d: "distinct (map key S)" and t1: "T1 = foldl (on_conflict_row key upd) T S"
    using assms(3) by (auto simp: insert_on_conflict_complete [OF assms(2)] split: if_splits)
  have "foldl (on_conflict_row key upd) (foldl (on_conflict_row key upd) T S) S
     = foldl (on_conflict_row key upd) T S"
    using same d assms(2) by (rule foldl_on_conflict_idem)
  then show ?thesis
    by (simp add: insert_on_conflict_complete [OF assms(2)] d t1)
qed

lemma insert_on_conflict_converges:
  assumes same: "\<And>t s. key s \<noteq> None \<Longrightarrow> key t = key s \<Longrightarrow> upd t s = s"
    and nn: "\<forall>s \<in> set A. key s \<noteq> None"
    and dA: "distinct (map key A)" and dA': "distinct (map key A')"
    and keys: "set (map key A') = set (map key A)"
    and uq: "unique_constraint key T"
  shows "\<exists>T1 T2. insert_on_conflict key upd T A = Inr T1
     \<and> insert_on_conflict key upd T1 A' = Inr T2
     \<and> set A' \<subseteq> set T2
     \<and> (\<forall>t \<in> set T2. key t \<in> set (map key A') \<longrightarrow> t \<in> set A')
     \<and> unique_constraint key T2
     \<and> length T2 = length T1"
proof -
  let ?T1 = "foldl (on_conflict_row key upd) T A"
  let ?T2 = "foldl (on_conflict_row key upd) ?T1 A'"
  have nn': "\<forall>s \<in> set A'. key s \<noteq> None"
  proof
    fix s assume "s \<in> set A'"
    then have "key s \<in> set (map key A)" using keys by auto
    then show "key s \<noteq> None" using nn by auto
  qed
  have i1: "insert_on_conflict key upd T A = Inr ?T1"
    by (simp add: insert_on_conflict_complete [OF nn] dA)
  have i2: "insert_on_conflict key upd ?T1 A' = Inr ?T2"
    by (simp add: insert_on_conflict_complete [OF nn'] dA')
  have f: "\<forall>s \<in> set A'. find (\<lambda>t. key t = key s) ?T2 = Some s"
    using same dA' nn' by (rule find_foldl_same)
  have sub: "set A' \<subseteq> set ?T2"
  proof
    fix s assume "s \<in> set A'"
    then have "find (\<lambda>t. key t = key s) ?T2 = Some s" using f by blast
    then show "s \<in> set ?T2" by (auto simp: find_Some_iff)
  qed
  have u1: "unique_constraint key ?T1"
    using same dA nn uq by (rule unique_constraint_foldl)
  have u2: "unique_constraint key ?T2"
    using same dA' nn' u1 by (rule unique_constraint_foldl)
  have only: "\<forall>t \<in> set ?T2. key t \<in> set (map key A') \<longrightarrow> t \<in> set A'"
  proof (intro ballI impI)
    fix t assume t: "t \<in> set ?T2" "key t \<in> set (map key A')"
    then obtain s where s: "s \<in> set A'" "key t = key s" by auto
    have "t = s"
      using u2 t(1) _ s(2)
    proof (rule unique_constraint_same_key)
      show "s \<in> set ?T2" using sub s(1) by blast
      show "key s \<noteq> None" using nn' s(1) by blast
    qed
    then show "t \<in> set A'" using s(1) by simp
  qed
  have k1: "map key ?T1 = map key T @ filter (\<lambda>k. k \<notin> set (map key T)) (map key A)"
    using same dA nn by (rule map_key_foldl)
  have k2: "map key ?T2 = map key ?T1 @ filter (\<lambda>k. k \<notin> set (map key ?T1)) (map key A')"
    using same dA' nn' by (rule map_key_foldl)
  have "set (map key A') \<subseteq> set (map key ?T1)"
    unfolding k1 keys by auto
  then have "filter (\<lambda>k. k \<notin> set (map key ?T1)) (map key A') = []"
    by (auto simp: filter_empty_conv)
  then have "map key ?T2 = map key ?T1" using k2 by simp
  then have len: "length ?T2 = length ?T1" by (rule map_eq_imp_length_eq)
  from i1 i2 sub only u2 len show ?thesis by blast
qed

lemma ef_update_same: "ef_key s \<noteq> None \<Longrightarrow> ef_key t = ef_key s \<Longrightarrow> ef_update t s = s"
  by (cases t, cases s) (auto simp: ef_key_def ef_update_def split: option.splits)

lemma mf_update_same: "mf_key s \<noteq> None \<Longrightarrow> mf_key t = mf_key s \<Longrightarrow> mf_update t s = s"
  by (cases t, cases s) (auto simp: mf_key_def mf_update_def split: option.splits)

lemma cf_update_same: "cf_key s \<noteq> None \<Longrightarrow> cf_key t = cf_key s \<Longrightarrow> cf_update t s = s"
  by (cases t, cases s) (auto simp: cf_key_def cf_update_def split: option.splits)


lemma upsert_fact_energy_converges:
  assumes "\<forall>r \<in> set A. ef_key r \<noteq> None" and "distinct (map ef_key A)"
    and "distinct (map ef_key A')" and "set (map ef_key A') = set (map ef_key A)"
    and "unique_constraint ef_key (fact_energy_monthly conn)"
  shows "fst (upsert_fact_energy A conn) = None
     \<and> fst (upsert_fact_energy A' (snd (upsert_fact_energy A conn))) = None
     \<and> set A' \<subseteq> set (fact_energy_monthly (snd (upsert_fact_energy A' (snd (upsert_fact_energy A conn)))))
     \<and> (\<forall>t \<in> set (fact_energy_monthly (snd (upsert_fact_energy A' (snd (upsert_fact_energy A conn))))).
           ef_key t \<in> set (map ef_key A') \<longrightarrow> t \<in> set A')
     \<and> unique_constraint ef_key
           (fact_energy_monthly (snd (upsert_fact_energy A' (snd (upsert_fact_energy A conn)))))
     \<and> length (fact_energy_monthly (snd (upsert_fact_energy A' (snd (upsert_fact_energy A conn)))))
         = length (fact_energy_monthly (snd (upsert_fact_energy A conn)))"
proof -
  obtain T1 T2 where r:
    "insert_on_conflict ef_key ef_update (fact_energy_monthly conn) A = Inr T1"
    "insert_on_conflict ef_key ef_update T1 A' = Inr T2"
    "set A' \<subseteq> set T2" "\<forall>t \<in> set T2. ef_key t \<in> set (map ef_key A') \<longrightarrow> t \<in> set A'"
    "unique_constraint ef_key T2" "length T2 = length T1"
    using insert_on_conflict_converges [of ef_key ef_update A A' "fact_energy_monthly conn",
        OF ef_update_same assms]
    by blast
  have 1: "upsert_fact_energy A conn
      = (None, conn\<lparr>fact_energy_monthly := T1, stg_fact_energy := None\<rparr>)"
    by (simp add: upsert_fact_energy_cases r(1))
  have 2: "upsert_fact_energy A' (conn\<lparr>fact_energy_monthly := T1, stg_fact_energy := None\<rparr>)
      = (None, conn\<lparr>fact_energy_monthly := T2, stg_fact_energy := None\<rparr>)"
    by (simp add: upsert_fact_energy_cases r(2))
  show ?thesis using r(3-6) by (simp add: 1 2)
qed

lemma upsert_fact_emissions_converges:
  assumes "\<forall>r \<in> set A. mf_key r \<noteq> None" and "distinct (map mf_key A)"
    and "distinct (map mf_key A')" and "set (map mf_key A') = set (map mf_key A)"
    and "unique_constraint mf_key (fact_emissions_monthly conn)"
  shows "fst (upsert_fact_emissions A conn) = None
     \<and> fst (upsert_fact_emissions A' (snd (upsert_fact_emissions A conn))) = None
     \<and> set A' \<subseteq> set (fact_emissions_monthly (snd (upsert_fact_emissions A' (snd (upsert_fact_emissions A conn)))))
     \<and> (\<forall>t \<in> set (fact_emissions_monthly (snd (upsert_fact_emissions A' (snd (upsert_fact_emissions A conn))))).
           mf_key t \<in> set (map mf_key A') \<longrightarrow> t \<in> set A')
     \<and> unique_constraint mf_key
           (fact_emissions_monthly (snd (upsert_fact_emissions A' (snd (upsert_fact_emissions A conn)))))
     \<and> length (fact_emissions_monthly (snd (upsert_fact_emissions A' (snd (upsert_fact_emissions A conn)))))
         = length (fact_emissions_monthly (snd (upsert_fact_emissions A conn)))"
proof -
  obtain T1 T2 where r:
    "insert_on_conflict mf_key mf_update (fact_emissions_monthly conn) A = Inr T1"
    "insert_on_conflict mf_key mf_update T1 A' = Inr T2"
    "set A' \<subseteq> set T2" "\<forall>t \<in> set T2. mf_key t \<in> set (map mf_key A') \<longrightarrow> t \<in> set A'"
    "unique_constraint mf_key T2" "length T2 = length T1"
    using insert_on_conflict_converges [of mf_key mf_update A A' "fact_emissions_monthly conn",
        OF mf_update_same assms]
    by blast
  have 1: "upsert_fact_emissions A conn
      = (None, conn\<lparr>fact_emissions_monthly := T1, stg_fact_emissions := None\<rparr>)"
    by (simp add: upsert_fact_emissions_cases r(1))
  have 2: "upsert_fact_emissions A' (conn\<lparr>fact_emissions_monthly := T1, stg_fact_emissions := None\<rparr>)
      = (None, conn\<lparr>fact_emissions_monthly := T2, stg_fact_emissions := None\<rparr>)"
    by (simp add: upsert_fact_emissions_cases r(2))
  show ?thesis using r(3-6) by (simp add: 1 2)
qed

lemma upsert_fact_intensity_converges:
  assumes "\<forall>r \<in> set A. cf_key r \<noteq> None" and "distinct (map cf_key A)"
    and "distinct (map cf_key A')" and "set (map cf_key A') = set (map cf_key A)"
    and "unique_constraint cf_key (fact_carbon_intensity conn)"
  shows "fst (upsert_fact_intensity A conn) = None
     \<and> fst (upsert_fact_intensity A' (snd (upsert_fact_intensity A conn))) = None
     \<and> set A' \<subseteq> set (fact_carbon_intensity (snd (upsert_fact_intensity A' (snd (upsert_fact_intensity A conn)))))
     \<and> (\<forall>t \<in> set (fact_carbon_intensity (snd (upsert_fact_intensity A' (snd (upsert_fact_intensity A conn))))).
           cf_key t \<in> set (map cf_key A') \<longrightarrow> t \<in> set A')
     \<and> unique_constraint cf_key
           (fact_carbon_intensity (snd (upsert_fact_intensity A' (snd (upsert_fact_intensity A conn)))))
     \<and> length (fact_carbon_intensity (snd (upsert_fact_intensity A' (snd (upsert_fact_intensity A conn)))))
         = length (fact_carbon_intensity (snd (upsert_fact_intensity A conn)))"
proof -
  obtain T1 T2 where r:
    "insert_on_conflict cf_key cf_update (fact_carbon_intensity conn) A = Inr T1"
    "insert_on_conflict cf_key cf_update T1 A' = Inr T2"
    "set A' \<subseteq> set T2" "\<forall>t \<in> set T2. cf_key t \<in> set (map cf_key A') \<longrightarrow> t \<in> set A'"
    "unique_constraint cf_key T2" "length T2 = length T1"
    using insert_on_conflict_converges [of cf_key cf_update A A' "fact_carbon_intensity conn",
        OF cf_update_same assms]
    by blast
  have 1: "upsert_fact_intensity A conn
      = (None, conn\<lparr>fact_carbon_intensity := T1, stg_fact_intensity := None\<rparr>)"
    by (simp add: upsert_fact_intensity_cases r(1))
  have 2: "upsert_fact_intensity A' (conn\<lparr>fact_carbon_intensity := T1, stg_fact_intensity := None\<rparr>)
      = (None, conn\<lparr>fact_carbon_intensity := T2, stg_fact_intensity := None\<rparr>)"
    by (simp add: upsert_fact_intensity_cases r(2))
  show ?thesis using r(3-6) by (simp add: 1 2)
qed

lemma upsert_fact_energy_row:
  "(ef_key s \<noteq> None \<and> ef_key s \<in> set (map ef_key (fact_energy_monthly conn))
      \<and> unique_constraint ef_key (fact_energy_monthly conn) \<longrightarrow>
      upsert_fact_energy [s] conn =
        (None, conn\<lparr>fact_energy_monthly :=
                       map (\<lambda>t. if ef_key t = ef_key s then ef_update t s else t)
                         (fact_energy_monthly conn),
                     stg_fact_energy := None\<rparr>))
   \<and> (ef_key s \<notin> set (map ef_key (fact_energy_monthly conn)) \<longrightarrow>
      upsert_fact_energy [s] conn =
        (None, conn\<lparr>fact_energy_monthly := fact_energy_monthly conn @ [s],
                     stg_fact_energy := None\<rparr>))"
  by (simp add: upsert_fact_energy_cases insert_on_conflict_single on_conflict_row_present
      on_conflict_row_absent)

lemma upsert_fact_emissions_row:
  "(mf_key s \<noteq> None \<and> mf_key s \<in> set (map mf_key (fact_emissions_monthly conn))
      \<and> unique_constraint mf_key (fact_emissions_monthly conn) \<longrightarrow>
      upsert_fact_emissions [s] conn =
        (None, conn\<lparr>fact_emissions_monthly :=
                       map (\<lambda>t. if mf_key t = mf_key s then mf_update t s else t)
                         (fact_emissions_monthly conn),
                     stg_fact_emissions := None\<rparr>))
   \<and> (mf_key s \<notin> set (map mf_key (fact_emissions_monthly conn)) \<longrightarrow>
      upsert_fact_emissions [s] conn =
        (None, conn\<lparr>fact_emissions_monthly := fact_emissions_monthly conn @ [s],
                     stg_fact_emissions := None\<rparr>))"
  by (simp add: upsert_fact_emissions_cases insert_on_conflict_single on_conflict_row_present
      on_conflict_row_absent)

lemma upsert_fact_intensity_row:
  "(cf_key s \<noteq> None \<and> cf_key s \<in> set (map cf_key (fact_carbon_intensity conn))
      \<and> unique_constraint cf_key (fact_carbon_intensity conn) \<longrightarrow>
      upsert_fact_intensity [s] conn =
        (None, conn\<lparr>fact_carbon_intensity :=
                       map (\<lambda>t. if cf_key t = cf_key s then cf_update t s else t)
                         (fact_carbon_intensity conn),
                     stg_fact_intensity := None\<rparr>))
   \<and> (cf_key s \<notin> set (map cf_key (fact_carbon_intensity conn)) \<longrightarrow>
      upsert_fact_intensity [s] conn =
        (None, conn\<lparr>fact_carbon_intensity := fact_carbon_intensity conn @ [s],
                     stg_fact_intensity := None\<rparr>))"
  by (simp add: upsert_fact_intensity_cases insert_on_conflict_single on_conflict_row_present
      on_conflict_row_absent)

lemma update_overwrites_metrics:
  "ef_update t s = t\<lparr>ef_avg_consumption_mwh := ef_avg_consumption_mwh s,
                     ef_max_consumption_mwh := ef_max_consumption_mwh s,
                     ef_avg_temp_c := ef_avg_temp_c s, ef_records := ef_records s\<rparr>"
  "mf_update u v = u\<lparr>mf_avg_co2_tonnes := mf_avg_co2_tonnes v,
                     mf_total_co2_tonnes := mf_total_co2_tonnes v, mf_records := mf_records v\<rparr>"
  "cf_update x y = x\<lparr>cf_total_energy_mwh := cf_total_energy_mwh y,
                     cf_total_co2_tonnes := cf_total_co2_tonnes y,
                     cf_co2_per_mwh := cf_co2_per_mwh y\<rparr>"
  by (simp_all add: ef_update_def mf_update_def cf_update_def)


lemma same_key_in_distinct:
  assumes "distinct (map key A)" and "t \<in> set A" and "a \<in> set A" and "key t = key a"
  shows "t = a"
proof -
  have "inj_on key (set A)" using assms(1) by (simp add: distinct_map)
  then show ?thesis using assms(2-4) by (auto dest: inj_onD)
qed

lemma revised_keys_complete:
  assumes "\<forall>r \<in> set A. key r \<noteq> None" and "set (map key A') = set (map key A)"
    and "a \<in> set A'"
  shows "key a \<noteq> None"
proof -
  have "key a \<in> set (map key A)" using assms(2,3) by auto
  then show ?thesis using assms(1) by auto
qed

lemma upsert_fact_energy_rows:
  assumes "\<forall>r \<in> set A. ef_key r \<noteq> None" and "distinct (map ef_key A)"
    and "distinct (map ef_key A')" and "set (map ef_key A') = set (map ef_key A)"
    and "unique_constraint ef_key (fact_energy_monthly conn)"
  shows "\<forall>t \<in> set (fact_energy_monthly (snd (upsert_fact_energy A' (snd (upsert_fact_energy A conn))))).
     \<forall>a \<in> set A'. ef_region_id t = ef_region_id a \<and> ef_source_id t = ef_source_id a \<and> ef_time_id t = ef_time_id a \<longrightarrow> t = a"
proof (intro ballI impI)
  fix t a
  assume t: "t \<in> set (fact_energy_monthly (snd (upsert_fact_energy A' (snd (upsert_fact_energy A conn)))))"
    and a: "a \<in> set A'"
    and ids: "ef_region_id t = ef_region_id a \<and> ef_source_id t = ef_source_id a \<and> ef_time_id t = ef_time_id a"
  have ka: "ef_key a \<noteq> None"
    using assms(1,4) a by (rule revised_keys_complete)
  then have "ef_key t = ef_key a"
    using key_fields(2) [of a t] ids by blast
  then have kt: "ef_key t \<in> set (map ef_key A')" using a by auto
  have "\<forall>t \<in> set (fact_energy_monthly (snd (upsert_fact_energy A' (snd (upsert_fact_energy A conn))))).
      ef_key t \<in> set (map ef_key A') \<longrightarrow> t \<in> set A'"
    using upsert_fact_energy_converges [OF assms] by blast
  then have "t \<in> set A'" using t kt by blast
  then show "t = a"
    using assms(3) a \<open>ef_key t = ef_key a\<close> same_key_in_distinct [of ef_key A' t a] by blast
qed

lemma upsert_fact_emissions_rows:
  assumes "\<forall>r \<in> set A. mf_key r \<noteq> None" and "distinct (map mf_key A)"
    and "distinct (map mf_key A')" and "set (map mf_key A') = set (map mf_key A)"
    and "unique_constraint mf_key (fact_emissions_monthly conn)"
  shows "\<forall>t \<in> set (fact_emissions_monthly (snd (upsert_fact_emissions A' (snd (upsert_fact_emissions A conn))))).
     \<forall>a \<in> set A'. mf_region_id t = mf_region_id a \<and> mf_sector_id t = mf_sector_id a \<and> mf_time_id t = mf_time_id a \<longrightarrow> t = a"
proof (intro ballI impI)
  fix t a
  assume t: "t \<in> set (fact_emissions_monthly (snd (upsert_fact_emissions A' (snd (upsert_fact_emissions A conn)))))"
    and a: "a \<in> set A'"
    and ids: "mf_region_id t = mf_region_id a \<and> mf_sector_id t = mf_sector_id a \<and> mf_time_id t = mf_time_id a"
  have ka: "mf_key a \<noteq> None"
    using assms(1,4) a by (rule revised_keys_complete)
  then have "mf_key t = mf_key a"
    using key_fields(4) [of a t] ids by blast
  then have kt: "mf_key t \<in> set (map mf_key A')" using a by auto
  have "\<forall>t \<in> set (fact_emissions_monthly (snd (upsert_fact_emissions A' (snd (upsert_fact_emissions A conn))))).
      mf_key t \<in> set (map mf_key A') \<longrightarrow> t \<in> set A'"
    using upsert_fact_emissions_converges [OF assms] by blast
  then have "t \<in> set A'" using t kt by blast
  then show "t = a"
    using assms(3) a \<open>mf_key t = mf_key a\<close> same_key_in_distinct [of mf_key A' t a] by blast
qed

lemma upsert_fact_intensity_rows:
  assumes "\<forall>r \<in> set A. cf_key r \<noteq> None" and "distinct (map cf_key A)"
    and "distinct (map cf_key A')" and "set (map cf_key A') = set (map cf_key A)"
    and "unique_constraint cf_key (fact_carbon_intensity conn)"
  shows "\<forall>t \<in> set (fact_carbon_intensity (snd (upsert_fact_intensity A' (snd (upsert_fact_intensity A conn))))).
     \<forall>a \<in> set A'. cf_region_id t = cf_region_id a \<and> cf_time_id t = cf_time_id a \<longrightarrow> t = a"
proof (intro ballI impI)
  fix t a
  assume t: "t \<in> set (fact_carbon_intensity (snd (upsert_fact_intensity A' (snd (upsert_fact_intensity A conn)))))"
    and a: "a \<in> set A'"
    and ids: "cf_region_id t = cf_region_id a \<and> cf_time_id t = cf_time_id a"
  have ka: "cf_key a \<noteq> None"
    using assms(1,4) a by (rule revised_keys_complete)
  then have "cf_key t = cf_key a"
    using key_fields(6) [of a t] ids by blast
  then have kt: "cf_key t \<in> set (map cf_key A')" using a by auto
  have "\<forall>t \<in> set (fact_carbon_intensity (snd (upsert_fact_intensity A' (snd (upsert_fact_intensity A conn))))).
      cf_key t \<in> set (map cf_key A') \<longrightarrow> t \<in> set A'"
    using upsert_fact_intensity_converges [OF assms] by blast
  then have "t \<in> set A'" using t kt by blast
  then show "t = a"
    using assms(3) a \<open>cf_key t = cf_key a\<close> same_key_in_distinct [of cf_key A' t a] by blast
qed

text \<open>
  Claim C2.  The key tuple of a fact row is its id columns: two rows have the same key
  tuple when their id columns are equal and none is missing.  For each of the three
  fact tables: upserting one row whose key tuple a row of the table has replaces that
  row by itself with the metric columns of the incoming row and leaves the number of
  rows and all other rows as they were; upserting one row whose key tuple no row has
  appends it.  Loading a frame \<open>A\<close> and then a frame \<open>A'\<close> with the same key tuples,
  distinct and without missing ids, into a table that satisfies its unique constraint
  succeeds twice; afterwards every row of \<open>A'\<close> is in the table, every row of the table
  with the id columns of a row of \<open>A'\<close> is that row of \<open>A'\<close>, the table still satisfies
  its unique constraint, and it has as many rows as after loading \<open>A\<close> alone.
\<close>

theorem fact_upsert_last_write_wins:
  "((ef_key s \<noteq> None \<and> ef_key s \<in> set (map ef_key (fact_energy_monthly conn))
      \<and> unique_constraint ef_key (fact_energy_monthly conn) \<longrightarrow>
      upsert_fact_energy [s] conn =
        (None, conn\<lparr>fact_energy_monthly :=
                       map (\<lambda>t. if ef_key t = ef_key s then ef_update t s else t)
                         (fact_energy_monthly conn),
                     stg_fact_energy := None\<rparr>))
    \<and> (ef_key s \<notin> set (map ef_key (fact_energy_monthly conn)) \<longrightarrow>
      upsert_fact_energy [s] conn =
        (None, conn\<lparr>fact_energy_monthly := fact_energy_monthly conn @ [s],
                     stg_fact_energy := None\<rparr>)))
   \<and> ((mf_key v \<noteq> None \<and> mf_key v \<in> set (map mf_key (fact_emissions_monthly conn))
      \<and> unique_constraint mf_key (fact_emissions_monthly conn) \<longrightarrow>
      upsert_fact_emissions [v] conn =
        (None, conn\<lparr>fact_emissions_monthly :=
                       map (\<lambda>t. if mf_key t = mf_key v then mf_update t v else t)
                         (fact_emissions_monthly conn),
                     stg_fact_emissions := None\<rparr>))
    \<and> (mf_key v \<notin> set (map mf_key (fact_emissions_monthly conn)) \<longrightarrow>
      upsert_fact_emissions [v] conn =
        (None, conn\<lparr>fact_emissions_monthly := fact_emissions_monthly conn @ [v],
                     stg_fact_emissions := None\<rparr>)))
   \<and> ((cf_key y \<noteq> None \<and> cf_key y \<in> set (map cf_key (fact_carbon_intensity conn))
      \<and> unique_constraint cf_key (fact_carbon_intensity conn) \<longrightarrow>
      upsert_fact_intensity [y] conn =
        (None, conn\<lparr>fact_carbon_intensity :=
                       map (\<lambda>t. if cf_key t = cf_key y then cf_update t y else t)
                         (fact_carbon_intensity conn),
                     stg_fact_intensity := None\<rparr>))
    \<and> (cf_key y \<notin> set (map cf_key (fact_carbon_intensity conn)) \<longrightarrow>
      upsert_fact_intensity [y] conn =
        (None, conn\<lparr>fact_carbon_intensity := fact_carbon_intensity conn @ [y],
                     stg_fact_intensity := None\<rparr>)))
   \<and> ef_update t s = t\<lparr>ef_avg_consumption_mwh := ef_avg_consumption_mwh s,
                       ef_max_consumption_mwh := ef_max_consumption_mwh s,
                       ef_avg_temp_c := ef_avg_temp_c s, ef_records := ef_records s\<rparr>
   \<and> mf_update u v = u\<lparr>mf_avg_co2_tonnes := mf_avg_co2_tonnes v,
                       mf_total_co2_tonnes := mf_total_co2_tonnes v, mf_records := mf_records v\<rparr>
   \<and> cf_update x y = x\<lparr>cf_total_energy_mwh := cf_total_energy_mwh y,
                       cf_total_co2_tonnes := cf_total_co2_tonnes y,
                       cf_co2_per_mwh := cf_co2_per_mwh y\<rparr>
   \<and> (((\<forall>r \<in> set A. ef_key r \<noteq> None) \<and> distinct (map ef_key A) \<and> distinct (map ef_key A')
        \<and> set (map ef_key A') = set (map ef_key A)
        \<and> unique_constraint ef_key (fact_energy_monthly conn)) \<longrightarrow>
       fst (upsert_fact_energy A conn) = None
       \<and> fst (upsert_fact_energy A' (snd (upsert_fact_energy A conn))) = None
       \<and> set A' \<subseteq> set (fact_energy_monthly (snd (upsert_fact_energy A' (snd (upsert_fact_energy A conn)))))
       \<and> (\<forall>t \<in> set (fact_energy_monthly (snd (upsert_fact_energy A' (snd (upsert_fact_energy A conn))))).
             ef_key t \<in> set (map ef_key A') \<longrightarrow> t \<in> set A')
       \<and> unique_constraint ef_key
             (fact_energy_monthly (snd (upsert_fact_energy A' (snd (upsert_fact_energy A conn)))))
       \<and> length (fact_energy_monthly (snd (upsert_fact_energy A' (snd (upsert_fact_energy A conn)))))
           = length (fact_energy_monthly (snd (upsert_fact_energy A conn)))
       \<and> (\<forall>t \<in> set (fact_energy_monthly (snd (upsert_fact_energy A' (snd (upsert_fact_energy A conn))))).
            \<forall>a \<in> set A'. ef_region_id t = ef_region_id a \<and> ef_source_id t = ef_source_id a \<and> ef_time_id t = ef_time_id a \<longrightarrow> t = a))
   \<and> (((\<forall>r \<in> set B. mf_key r \<noteq> None) \<and> distinct (map mf_key B) \<and> distinct (map mf_key B')
        \<and> set (map mf_key B') = set (map mf_key B)
        \<and> unique_constraint mf_key (fact_emissions_monthly conn)) \<longrightarrow>
       fst (upsert_fact_emissions B conn) = None
       \<and> fst (upsert_fact_emissions B' (snd (upsert_fact_emissions B conn))) = None
       \<and> set B' \<subseteq> set (fact_emissions_monthly (snd (upsert_fact_emissions B' (snd (upsert_fact_emissions B conn)))))
       \<and> (\<forall>t \<in> set (fact_emissions_monthly (snd (upsert_fact_emissions B' (snd (upsert_fact_emissions B conn))))).
             mf_key t \<in> set (map mf_key B') \<longrightarrow> t \<in> set B')
       \<and> unique_constraint mf_key
             (fact_emissions_monthly (snd (upsert_fact_emissions B' (snd (upsert_fact_emissions B conn)))))
       \<and> length (fact_emissions_monthly (snd (upsert_fact_emissions B' (snd (upsert_fact_emissions B conn)))))
           = length (fact_emissions_monthly (snd (upsert_fact_emissions B conn)))
       \<and> (\<forall>t \<in> set (fact_emissions_monthly (snd (upsert_fact_emissions B' (snd (upsert_fact_emissions B conn))))).
            \<forall>a \<in> set B'. mf_region_id t = mf_region_id a \<and> mf_sector_id t = mf_sector_id a \<and> mf_time_id t = mf_time_id a \<longrightarrow> t = a))
   \<and> (((\<forall>r \<in> set C. cf_key r \<noteq> None) \<and> distinct (map cf_key C) \<and> distinct (map cf_key C')
        \<and> set (map cf_key C') = set (map cf_key C)
        \<and> unique_constraint cf_key (fact_carbon_intensity conn)) \<longrightarrow>
       fst (upsert_fact_intensity C conn) = None
       \<and> fst (upsert_fact_intensity C' (snd (upsert_fact_intensity C conn))) = None
       \<and> set C' \<subseteq> set (fact_carbon_intensity (snd (upsert_fact_intensity C' (snd (upsert_fact_intensity C conn)))))
       \<and> (\<forall>t \<in> set (fact_carbon_intensity (snd (upsert_fact_intensity C' (snd (upsert_fact_intensity C conn))))).
             cf_key t \<in> set (map cf_key C') \<longrightarrow> t \<in> set C')
       \<and> unique_constraint cf_key
             (fact_carbon_intensity (snd (upsert_fact_intensity C' (snd (upsert_fact_intensity C conn)))))
       \<and> length (fact_carbon_intensity (snd (upsert_fact_intensity C' (snd (upsert_fact_intensity C conn)))))
           = length (fact_carbon_intensity (snd (upsert_fact_intensity C conn)))
       \<and> (\<forall>t \<in> set (fact_carbon_intensity (snd (upsert_fact_intensity C' (snd (upsert_fact_intensity C conn))))).
            \<forall>a \<in> set C'. cf_region_id t = cf_region_id a \<and> cf_time_id t = cf_time_id a \<longrightarrow> t = a))
   \<and> (ef_key s = None \<longleftrightarrow> ef_region_id s = None \<or> ef_source_id s = None \<or> ef_time_id s = None)
   \<and> (ef_key s \<noteq> None \<longrightarrow>
        (ef_key t = ef_key s \<longleftrightarrow> ef_region_id t = ef_region_id s \<and> ef_source_id t = ef_source_id s \<and> ef_time_id t = ef_time_id s))
   \<and> (mf_key v = None \<longleftrightarrow> mf_region_id v = None \<or> mf_sector_id v = None \<or> mf_time_id v = None)
   \<and> (mf_key v \<noteq> None \<longrightarrow>
        (mf_key u = mf_key v \<longleftrightarrow> mf_region_id u = mf_region_id v \<and> mf_sector_id u = mf_sector_id v \<and> mf_time_id u = mf_time_id v))
   \<and> (cf_key y = None \<longleftrightarrow> cf_region_id y = None \<or> cf_time_id y = None)
   \<and> (cf_key y \<noteq> None \<longrightarrow>
        (cf_key x = cf_key y \<longleftrightarrow> cf_region_id x = cf_region_id y \<and> cf_time_id x = cf_time_id y))"
proof (intro conjI)
  show "(ef_key s \<noteq> None \<and> ef_key s \<in> set (map ef_key (fact_energy_monthly conn))
      \<and> unique_constraint ef_key (fact_energy_monthly conn) \<longrightarrow>
      upsert_fact_energy [s] conn =
        (None, conn\<lparr>fact_energy_monthly :=
                       map (\<lambda>t. if ef_key t = ef_key s then ef_update t s else t)
                         (fact_energy_monthly conn),
                     stg_fact_energy := None\<rparr>))"
    using upsert_fact_energy_row [of s conn] by (rule conjunct1)
  show "ef_key s \<notin> set (map ef_key (fact_energy_monthly conn)) \<longrightarrow>
      upsert_fact_energy [s] conn =
        (None, conn\<lparr>fact_energy_monthly := fact_energy_monthly conn @ [s],
                     stg_fact_energy := None\<rparr>)"
    using upsert_fact_energy_row [of s conn] by (rule conjunct2)
  show "(mf_key v \<noteq> None \<and> mf_key v \<in> set (map mf_key (fact_emissions_monthly conn))
      \<and> unique_constraint mf_key (fact_emissions_monthly conn) \<longrightarrow>
      upsert_fact_emissions [v] conn =
        (None, conn\<lparr>fact_emissions_monthly :=
                       map (\<lambda>t. if mf_key t = mf_key v then mf_update t v else t)
                         (fact_emissions_monthly conn),
                     stg_fact_emissions := None\<rparr>))"
    using upsert_fact_emissions_row [of v conn] by (rule conjunct1)
  show "mf_key v \<notin> set (map mf_key (fact_emissions_monthly conn)) \<longrightarrow>
      upsert_fact_emissions [v] conn =
        (None, conn\<lparr>fact_emissions_monthly := fact_emissions_monthly conn @ [v],
                     stg_fact_emissions := None\<rparr>)"
    using upsert_fact_emissions_row [of v conn] by (rule conjunct2)
  show "(cf_key y \<noteq> None \<and> cf_key y \<in> set (map cf_key (fact_carbon_intensity conn))
      \<and> unique_constraint cf_key (fact_carbon_intensity conn) \<longrightarrow>
      upsert_fact_intensity [y] conn =
        (None, conn\<lparr>fact_carbon_intensity :=
                       map (\<lambda>t. if cf_key t = cf_key y then cf_update t y else t)
                         (fact_carbon_intensity conn),
                     stg_fact_intensity := None\<rparr>))"
    using upsert_fact_intensity_row [of y conn] by (rule conjunct1)
  show "cf_key y \<notin> set (map cf_key (fact_carbon_intensity conn)) \<longrightarrow>
      upsert_fact_intensity [y] conn =
        (None, conn\<lparr>fact_carbon_intensity := fact_carbon_intensity conn @ [y],
                     stg_fact_intensity := None\<rparr>)"
    using upsert_fact_intensity_row [of y conn] by (rule conjunct2)
  show "ef_update t s = t\<lparr>ef_avg_consumption_mwh := ef_avg_consumption_mwh s,
                       ef_max_consumption_mwh := ef_max_consumption_mwh s,
                       ef_avg_temp_c := ef_avg_temp_c s, ef_records := ef_records s\<rparr>"
    by (rule update_overwrites_metrics)
  show "mf_update u v = u\<lparr>mf_avg_co2_tonnes := mf_avg_co2_tonnes v,
                       mf_total_co2_tonnes := mf_total_co2_tonnes v, mf_records := mf_records v\<rparr>"
    by (rule update_overwrites_metrics)
  show "cf_update x y = x\<lparr>cf_total_energy_mwh := cf_total_energy_mwh y,
                       cf_total_co2_tonnes := cf_total_co2_tonnes y,
                       cf_co2_per_mwh := cf_co2_per_mwh y\<rparr>"
    by (rule update_overwrites_metrics)
  show "((\<forall>r \<in> set A. ef_key r \<noteq> None) \<and> distinct (map ef_key A) \<and> distinct (map ef_key A')
        \<and> set (map ef_key A') = set (map ef_key A)
        \<and> unique_constraint ef_key (fact_energy_monthly conn)) \<longrightarrow>
       fst (upsert_fact_energy A conn) = None
       \<and> fst (upsert_fact_energy A' (snd (upsert_fact_energy A conn))) = None
       \<and> set A' \<subseteq> set (fact_energy_monthly (snd (upsert_fact_energy A' (snd (upsert_fact_energy A conn)))))
       \<and> (\<forall>t \<in> set (fact_energy_monthly (snd (upsert_fact_energy A' (snd (upsert_fact_energy A conn))))).
             ef_key t \<in> set (map ef_key A') \<longrightarrow> t \<in> set A')
       \<and> unique_constraint ef_key
             (fact_energy_monthly (snd (upsert_fact_energy A' (snd (upsert_fact_energy A conn)))))
       \<and> length (fact_energy_monthly (snd (upsert_fact_energy A' (snd (upsert_fact_energy A conn)))))
           = length (fact_energy_monthly (snd (upsert_fact_energy A conn)))
       \<and> (\<forall>t \<in> set (fact_energy_monthly (snd (upsert_fact_energy A' (snd (upsert_fact_energy A conn))))).
            \<forall>a \<in> set A'. ef_region_id t = ef_region_id a \<and> ef_source_id t = ef_source_id a \<and> ef_time_id t = ef_time_id a \<longrightarrow> t = a)"
  proof
    assume h: "(\<forall>r \<in> set A. ef_key r \<noteq> None) \<and> distinct (map ef_key A) \<and> distinct (map ef_key A')
        \<and> set (map ef_key A') = set (map ef_key A)
        \<and> unique_constraint ef_key (fact_energy_monthly conn)"
    then have h1: "\<forall>r \<in> set A. ef_key r \<noteq> None" and h2: "distinct (map ef_key A)"
      and h3: "distinct (map ef_key A')"
      and h4: "set (map ef_key A') = set (map ef_key A)"
      and h5: "unique_constraint ef_key (fact_energy_monthly conn)"
      by blast+
    have old: "fst (upsert_fact_energy A conn) = None
       \<and> fst (upsert_fact_energy A' (snd (upsert_fact_energy A conn))) = None
       \<and> set A' \<subseteq> set (fact_energy_monthly (snd (upsert_fact_energy A' (snd (upsert_fact_energy A conn)))))
       \<and> (\<forall>t \<in> set (fact_energy_monthly (snd (upsert_fact_energy A' (snd (upsert_fact_energy A conn))))).
             ef_key t \<in> set (map ef_key A') \<longrightarrow> t \<in> set A')
       \<and> unique_constraint ef_key
             (fact_energy_monthly (snd (upsert_fact_energy A' (snd (upsert_fact_energy A conn)))))
       \<and> length (fact_energy_monthly (snd (upsert_fact_energy A' (snd (upsert_fact_energy A conn)))))
           = length (fact_energy_monthly (snd (upsert_fact_energy A conn)))"
      using h1 h2 h3 h4 h5 by (rule upsert_fact_energy_converges)
    have new: "\<forall>t \<in> set (fact_energy_monthly (snd (upsert_fact_energy A' (snd (upsert_fact_energy A conn))))).
            \<forall>a \<in> set A'. ef_region_id t = ef_region_id a \<and> ef_source_id t = ef_source_id a \<and> ef_time_id t = ef_time_id a \<longrightarrow> t = a"
      using h1 h2 h3 h4 h5 by (rule upsert_fact_energy_rows)
    show "fst (upsert_fact_energy A conn) = None
       \<and> fst (upsert_fact_energy A' (snd (upsert_fact_energy A conn))) = None
       \<and> set A' \<subseteq> set (fact_energy_monthly (snd (upsert_fact_energy A' (snd (upsert_fact_energy A conn)))))
       \<and> (\<forall>t \<in> set (fact_energy_monthly (snd (upsert_fact_energy A' (snd (upsert_fact_energy A conn))))).
             ef_key t \<in> set (map ef_key A') \<longrightarrow> t \<in> set A')
       \<and> unique_constraint ef_key
             (fact_energy_monthly (snd (upsert_fact_energy A' (snd (upsert_fact_energy A conn)))))
       \<and> length (fact_energy_monthly (snd (upsert_fact_energy A' (snd (upsert_fact_energy A conn)))))
           = length (fact_energy_monthly (snd (upsert_fact_energy A conn)))
       \<and> (\<forall>t \<in> set (fact_energy_monthly (snd (upsert_fact_energy A' (snd (upsert_fact_energy A conn))))).
            \<forall>a \<in> set A'. ef_region_id t = ef_region_id a \<and> ef_source_id t = ef_source_id a \<and> ef_time_id t = ef_time_id a \<longrightarrow> t = a)"
      by (insert old new, (elim conjE; intro conjI; assumption))
  qed
  show "((\<forall>r \<in> set B. mf_key r \<noteq> None) \<and> distinct (map mf_key B) \<and> distinct (map mf_key B')
        \<and> set (map mf_key B') = set (map mf_key B)
        \<and> unique_constraint mf_key (fact_emissions_monthly conn)) \<longrightarrow>
       fst (upsert_fact_emissions B conn) = None
       \<and> fst (upsert_fact_emissions B' (snd (upsert_fact_emissions B conn))) = None
       \<and> set B' \<subseteq> set (fact_emissions_monthly (snd (upsert_fact_emissions B' (snd (upsert_fact_emissions B conn)))))
       \<and> (\<forall>t \<in> set (fact_emissions_monthly (snd (upsert_fact_emissions B' (snd (upsert_fact_emissions B conn))))).
             mf_key t \<in> set (map mf_key B') \<longrightarrow> t \<in> set B')
       \<and> unique_constraint mf_key
             (fact_emissions_monthly (snd (upsert_fact_emissions B' (snd (upsert_fact_emissions B conn)))))
       \<and> length (fact_emissions_monthly (snd (upsert_fact_emissions B' (snd (upsert_fact_emissions B conn)))))
           = length (fact_emissions_monthly (snd (upsert_fact_emissions B conn)))
       \<and> (\<forall>t \<in> set (fact_emissions_monthly (snd (upsert_fact_emissions B' (snd (upsert_fact_emissions B conn))))).
            \<forall>a \<in> set B'. mf_region_id t = mf_region_id a \<and> mf_sector_id t = mf_sector_id a \<and> mf_time_id t = mf_time_id a \<longrightarrow> t = a)"
  proof
    assume h: "(\<forall>r \<in> set B. mf_key r \<noteq> None) \<and> distinct (map mf_key B) \<and> distinct (map mf_key B')
        \<and> set (map mf_key B') = set (map mf_key B)
        \<and> unique_constraint mf_key (fact_emissions_monthly conn)"
    then have h1: "\<forall>r \<in> set B. mf_key r \<noteq> None" and h2: "distinct (map mf_key B)"
      and h3: "distinct (map mf_key B')"
      and h4: "set (map mf_key B') = set (map mf_key B)"
      and h5: "unique_constraint mf_key (fact_emissions_monthly conn)"
      by blast+
    have old: "fst (upsert_fact_emissions B conn) = None
       \<and> fst (upsert_fact_emissions B' (snd (upsert_fact_emissions B conn))) = None
       \<and> set B' \<subseteq> set (fact_emissions_monthly (snd (upsert_fact_emissions B' (snd (upsert_fact_emissions B conn)))))
       \<and> (\<forall>t \<in> set (fact_emissions_monthly (snd (upsert_fact_emissions B' (snd (upsert_fact_emissions B conn))))).
             mf_key t \<in> set (map mf_key B') \<longrightarrow> t \<in> set B')
       \<and> unique_constraint mf_key
             (fact_emissions_monthly (snd (upsert_fact_emissions B' (snd (upsert_fact_emissions B conn)))))
       \<and> length (fact_emissions_monthly (snd (upsert_fact_emissions B' (snd (upsert_fact_emissions B conn)))))
           = length (fact_emissions_monthly (snd (upsert_fact_emissions B conn)))"
      using h1 h2 h3 h4 h5 by (rule upsert_fact_emissions_converges)
    have new: "\<forall>t \<in> set (fact_emissions_monthly (snd (upsert_fact_emissions B' (snd (upsert_fact_emissions B conn))))).
            \<forall>a \<in> set B'. mf_region_id t = mf_region_id a \<and> mf_sector_id t = mf_sector_id a \<and> mf_time_id t = mf_time_id a \<longrightarrow> t = a"
      using h1 h2 h3 h4 h5 by (rule upsert_fact_emissions_rows)
    show "fst (upsert_fact_emissions B conn) = None
       \<and> fst (upsert_fact_emissions B' (snd (upsert_fact_emissions B conn))) = None
       \<and> set B' \<subseteq> set (fact_emissions_monthly (snd (upsert_fact_emissions B' (snd (upsert_fact_emissions B conn)))))
       \<and> (\<forall>t \<in> set (fact_emissions_monthly (snd (upsert_fact_emissions B' (snd (upsert_fact_emissions B conn))))).
             mf_key t \<in> set (map mf_key B') \<longrightarrow> t \<in> set B')
       \<and> unique_constraint mf_key
             (fact_emissions_monthly (snd (upsert_fact_emissions B' (snd (upsert_fact_emissions B conn)))))
       \<and> length (fact_emissions_monthly (snd (upsert_fact_emissions B' (snd (upsert_fact_emissions B conn)))))
           = length (fact_emissions_monthly (snd (upsert_fact_emissions B conn)))
       \<and> (\<forall>t \<in> set (fact_emissions_monthly (snd (upsert_fact_emissions B' (snd (upsert_fact_emissions B conn))))).
            \<forall>a \<in> set B'. mf_region_id t = mf_region_id a \<and> mf_sector_id t = mf_sector_id a \<and> mf_time_id t = mf_time_id a \<longrightarrow> t = a)"
      by (insert old new, (elim conjE; intro conjI; assumption))
  qed
  show "((\<forall>r \<in> set C. cf_key r \<noteq> None) \<and> distinct (map cf_key C) \<and> distinct (map cf_key C')
        \<and> set (map cf_key C') = set (map cf_key C)
        \<and> unique_constraint cf_key (fact_carbon_intensity conn)) \<longrightarrow>
       fst (upsert_fact_intensity C conn) = None
       \<and> fst (upsert_fact_intensity C' (snd (upsert_fact_intensity C conn))) = None
       \<and> set C' \<subseteq> set (fact_carbon_intensity (snd (upsert_fact_intensity C' (snd (upsert_fact_intensity C conn)))))
       \<and> (\<forall>t \<in> set (fact_carbon_intensity (snd (upsert_fact_intensity C' (snd (upsert_fact_intensity C conn))))).
             cf_key t \<in> set (map cf_key C') \<longrightarrow> t \<in> set C')
       \<and> unique_constraint cf_key
             (fact_carbon_intensity (snd (upsert_fact_intensity C' (snd (upsert_fact_intensity C conn)))))
       \<and> length (fact_carbon_intensity (snd (upsert_fact_intensity C' (snd (upsert_fact_intensity C conn)))))
           = length (fact_carbon_intensity (snd (upsert_fact_intensity C conn)))
       \<and> (\<forall>t \<in> set (fact_carbon_intensity (snd (upsert_fact_intensity C' (snd (upsert_fact_intensity C conn))))).
            \<forall>a \<in> set C'. cf_region_id t = cf_region_id a \<and> cf_time_id t = cf_time_id a \<longrightarrow> t = a)"
  proof
    assume h: "(\<forall>r \<in> set C. cf_key r \<noteq> None) \<and> distinct (map cf_key C) \<and> distinct (map cf_key C')
        \<and> set (map cf_key C') = set (map cf_key C)
        \<and> unique_constraint cf_key (fact_carbon_intensity conn)"
    then have h1: "\<forall>r \<in> set C. cf_key r \<noteq> None" and h2: "distinct (map cf_key C)"
      and h3: "distinct (map cf_key C')"
      and h4: "set (map cf_key C') = set (map cf_key C)"
      and h5: "unique_constraint cf_key (fact_carbon_intensity conn)"
      by blast+
    have old: "fst (upsert_fact_intensity C conn) = None
       \<and> fst (upsert_fact_intensity C' (snd (upsert_fact_intensity C conn))) = None
       \<and> set C' \<subseteq> set (fact_carbon_intensity (snd (upsert_fact_intensity C' (snd (upsert_fact_intensity C conn)))))
       \<and> (\<forall>t \<in> set (fact_carbon_intensity (snd (upsert_fact_intensity C' (snd (upsert_fact_intensity C conn))))).
             cf_key t \<in> set (map cf_key C') \<longrightarrow> t \<in> set C')
       \<and> unique_constraint cf_key
             (fact_carbon_intensity (snd (upsert_fact_intensity C' (snd (upsert_fact_intensity C conn)))))
       \<and> length (fact_carbon_intensity (snd (upsert_fact_intensity C' (snd (upsert_fact_intensity C conn)))))
           = length (fact_carbon_intensity (snd (upsert_fact_intensity C conn)))"
      using h1 h2 h3 h4 h5 by (rule upsert_fact_intensity_converges)
    have new: "\<forall>t \<in> set (fact_carbon_intensity (snd (upsert_fact_intensity C' (snd (upsert_fact_intensity C conn))))).
            \<forall>a \<in> set C'. cf_region_id t = cf_region_id a \<and> cf_time_id t = cf_time_id a \<longrightarrow> t = a"
      using h1 h2 h3 h4 h5 by (rule upsert_fact_intensity_rows)
    show "fst (upsert_fact_intensity C conn) = None
       \<and> fst (upsert_fact_intensity C' (snd (upsert_fact_intensity C conn))) = None
       \<and> set C' \<subseteq> set (fact_carbon_intensity (snd (upsert_fact_intensity C' (snd (upsert_fact_intensity C conn)))))
       \<and> (\<forall>t \<in> set (fact_carbon_intensity (snd (upsert_fact_intensity C' (snd (upsert_fact_intensity C conn))))).
             cf_key t \<in> set (map cf_key C') \<longrightarrow> t \<in> set C')
       \<and> unique_constraint cf_key
             (fact_carbon_intensity (snd (upsert_fact_intensity C' (snd (upsert_fact_intensity C conn)))))
       \<and> length (fact_carbon_intensity (snd (upsert_fact_intensity C' (snd (upsert_fact_intensity C conn)))))
           = length (fact_carbon_intensity (snd (upsert_fact_intensity C conn)))
       \<and> (\<forall>t \<in> set (fact_carbon_intensity (snd (upsert_fact_intensity C' (snd (upsert_fact_intensity C conn))))).
            \<forall>a \<in> set C'. cf_region_id t = cf_region_id a \<and> cf_time_id t = cf_time_id a \<longrightarrow> t = a)"
      by (insert old new, (elim conjE; intro conjI; assumption))
  qed
  show "ef_key s = None \<longleftrightarrow> ef_region_id s = None \<or> ef_source_id s = None \<or> ef_time_id s = None"
    by (rule key_fields(1))
  show "ef_key s \<noteq> None \<longrightarrow>
        (ef_key t = ef_key s \<longleftrightarrow> ef_region_id t = ef_region_id s \<and> ef_source_id t = ef_source_id s \<and> ef_time_id t = ef_time_id s)"
    by (rule key_fields(2))
  show "mf_key v = None \<longleftrightarrow> mf_region_id v = None \<or> mf_sector_id v = None \<or> mf_time_id v = None"
    by (rule key_fields(3))
  show "mf_key v \<noteq> None \<longrightarrow>
        (mf_key u = mf_key v \<longleftrightarrow> mf_region_id u = mf_region_id v \<and> mf_sector_id u = mf_sector_id v \<and> mf_time_id u = mf_time_id v)"
    by (rule key_fields(4))
  show "cf_key y = None \<longleftrightarrow> cf_region_id y = None \<or> cf_time_id y = None"
    by (rule key_fields(5))
  show "cf_key y \<noteq> None \<longrightarrow>
        (cf_key x = cf_key y \<longleftrightarrow> cf_region_id x = cf_region_id y \<and> cf_time_id x = cf_time_id y)"
    by (rule key_fields(6))
qed

lemma keys_north:
  "ef_key energy_fact_north = Some (1, 1, 1)"
  "ef_key energy_fact_revised = Some (1, 1, 1)"
  "mf_key emissions_fact_north = Some (1, 1, 1)"
  "mf_key emissions_fact_revised = Some (1, 1, 1)"
  "cf_key intensity_fact_north = Some (1, 1)"
  "cf_key intensity_fact_revised = Some (1, 1)"
  by (simp_all add: ef_key_def mf_key_def cf_key_def energy_fact_north_def energy_fact_revised_def
      emissions_fact_north_def emissions_fact_revised_def intensity_fact_north_def
      intensity_fact_revised_def)

theorem fact_upsert_last_write_wins_witness:
  "ef_key energy_fact_north \<noteq> None
   \<and> distinct (map ef_key [energy_fact_north]) \<and> distinct (map ef_key [energy_fact_revised])
   \<and> set (map ef_key [energy_fact_revised]) = set (map ef_key [energy_fact_north])
   \<and> unique_constraint ef_key (fact_energy_monthly empty_warehouse)
   \<and> fact_energy_monthly (snd (upsert_fact_energy [energy_fact_north] empty_warehouse))
       = [energy_fact_north]
   \<and> fact_energy_monthly (snd (upsert_fact_energy [energy_fact_revised]
         (snd (upsert_fact_energy [energy_fact_north] empty_warehouse)))) = [energy_fact_revised]
   \<and> mf_key emissions_fact_north \<noteq> None
   \<and> set (map mf_key [emissions_fact_revised]) = set (map mf_key [emissions_fact_north])
   \<and> unique_constraint mf_key (fact_emissions_monthly empty_warehouse)
   \<and> fact_emissions_monthly (snd (upsert_fact_emissions [emissions_fact_revised]
         (snd (upsert_fact_emissions [emissions_fact_north] empty_warehouse))))
       = [emissions_fact_revised]
   \<and> cf_key intensity_fact_north \<noteq> None
   \<and> set (map cf_key [intensity_fact_revised]) = set (map cf_key [intensity_fact_north])
   \<and> unique_constraint cf_key (fact_carbon_intensity empty_warehouse)
   \<and> fact_carbon_intensity (snd (upsert_fact_intensity [intensity_fact_revised]
         (snd (upsert_fact_intensity [intensity_fact_north] empty_warehouse))))
       = [intensity_fact_revised]"
proof -
  have one: "\<And>xs (x::'a). x \<in> set xs \<Longrightarrow> length xs = 1 \<Longrightarrow> xs = [x]"
  proof -
    fix xs and x :: 'a
    assume "x \<in> set xs" "length xs = 1"
    then show "xs = [x]" by (cases xs) auto
  qed
  have he: "(\<forall>r \<in> set [energy_fact_north]. ef_key r \<noteq> None)
     \<and> distinct (map ef_key [energy_fact_north]) \<and> distinct (map ef_key [energy_fact_revised])
     \<and> set (map ef_key [energy_fact_revised]) = set (map ef_key [energy_fact_north])
     \<and> unique_constraint ef_key (fact_energy_monthly empty_warehouse)"
    by (simp add: keys_north unique_constraint_def empty_warehouse_facts)
  have hm: "(\<forall>r \<in> set [emissions_fact_north]. mf_key r \<noteq> None)
     \<and> distinct (map mf_key [emissions_fact_north]) \<and> distinct (map mf_key [emissions_fact_revised])
     \<and> set (map mf_key [emissions_fact_revised]) = set (map mf_key [emissions_fact_north])
     \<and> unique_constraint mf_key (fact_emissions_monthly empty_warehouse)"
    by (simp add: keys_north unique_constraint_def empty_warehouse_facts)
  have hc: "(\<forall>r \<in> set [intensity_fact_north]. cf_key r \<noteq> None)
     \<and> distinct (map cf_key [intensity_fact_north]) \<and> distinct (map cf_key [intensity_fact_revised])
     \<and> set (map cf_key [intensity_fact_revised]) = set (map cf_key [intensity_fact_north])
     \<and> unique_constraint cf_key (fact_carbon_intensity empty_warehouse)"
    by (simp add: keys_north unique_constraint_def empty_warehouse_facts)
  have f1: "fact_energy_monthly (snd (upsert_fact_energy [energy_fact_north] empty_warehouse))
       = [energy_fact_north]"
    "fact_emissions_monthly (snd (upsert_fact_emissions [emissions_fact_north] empty_warehouse))
       = [emissions_fact_north]"
    "fact_carbon_intensity (snd (upsert_fact_intensity [intensity_fact_north] empty_warehouse))
       = [intensity_fact_north]"
    by (simp_all add: upsert_fact_energy_cases upsert_fact_emissions_cases
        upsert_fact_intensity_cases empty_warehouse_facts merge_north)
  note T = fact_upsert_last_write_wins
      [where A = "[energy_fact_north]" and A' = "[energy_fact_revised]"
         and B = "[emissions_fact_north]" and B' = "[emissions_fact_revised]"
         and C = "[intensity_fact_north]" and C' = "[intensity_fact_revised]"
         and conn = empty_warehouse,
       THEN conjunct2, THEN conjunct2, THEN conjunct2, THEN conjunct2, THEN conjunct2,
       THEN conjunct2]
  note Te = T [THEN conjunct1, THEN mp, OF he]
  note Tm = T [THEN conjunct2, THEN conjunct1, THEN mp, OF hm]
  note Tc = T [THEN conjunct2, THEN conjunct2, THEN conjunct1, THEN mp, OF hc]
  have e: "fact_energy_monthly (snd (upsert_fact_energy [energy_fact_revised]
         (snd (upsert_fact_energy [energy_fact_north] empty_warehouse)))) = [energy_fact_revised]"
  proof (rule one)
    show "energy_fact_revised \<in> set (fact_energy_monthly (snd (upsert_fact_energy
         [energy_fact_revised] (snd (upsert_fact_energy [energy_fact_north] empty_warehouse)))))"
      using Te [THEN conjunct2, THEN conjunct2, THEN conjunct1] by simp
    show "length (fact_energy_monthly (snd (upsert_fact_energy [energy_fact_revised]
         (snd (upsert_fact_energy [energy_fact_north] empty_warehouse))))) = 1"
      using Te [THEN conjunct2, THEN conjunct2, THEN conjunct2, THEN conjunct2, THEN conjunct2,
          THEN conjunct1]
      by (simp add: f1)
  qed
  have m: "fact_emissions_monthly (snd (upsert_fact_emissions [emissions_fact_revised]
         (snd (upsert_fact_emissions [emissions_fact_north] empty_warehouse))))
       = [emissions_fact_revised]"
  proof (rule one)
    show "emissions_fact_revised \<in> set (fact_emissions_monthly (snd (upsert_fact_emissions
         [emissions_fact_revised] (snd (upsert_fact_emissions [emissions_fact_north] empty_warehouse)))))"
      using Tm [THEN conjunct2, THEN conjunct2, THEN conjunct1] by simp
    show "length (fact_emissions_monthly (snd (upsert_fact_emissions [emissions_fact_revised]
         (snd (upsert_fact_emissions [emissions_fact_north] empty_warehouse))))) = 1"
      using Tm [THEN conjunct2, THEN conjunct2, THEN conjunct2, THEN conjunct2, THEN conjunct2,
          THEN conjunct1]
      by (simp add: f1)
  qed
  have c: "fact_carbon_intensity (snd (upsert_fact_intensity [intensity_fact_revised]
         (snd (upsert_fact_intensity [intensity_fact_north] empty_warehouse))))
       = [intensity_fact_revised]"
  proof (rule one)
    show "intensity_fact_revised \<in> set (fact_carbon_intensity (snd (upsert_fact_intensity
         [intensity_fact_revised] (snd (upsert_fact_intensity [intensity_fact_north] empty_warehouse)))))"
      using Tc [THEN conjunct2, THEN conjunct2, THEN conjunct1] by simp
    show "length (fact_carbon_intensity (snd (upsert_fact_intensity [intensity_fact_revised]
         (snd (upsert_fact_intensity [intensity_fact_north] empty_warehouse))))) = 1"
      using Tc [THEN conjunct2, THEN conjunct2, THEN conjunct2, THEN conjunct2, THEN conjunct2,
          THEN conjunct1]
      by (simp add: f1)
  qed
  have k: "ef_key energy_fact_north \<noteq> None" "mf_key emissions_fact_north \<noteq> None"
    "cf_key intensity_fact_north \<noteq> None"
    by (simp_all add: keys_north)
  from k he hm hc f1(1) e m c show ?thesis by (intro conjI) blast+
qed

section \<open>Loading twice\<close>

lemma upsert_dim_table_known:
  assumes "set vals \<subseteq> snd ` set (dims conn t)"
    and "sort (remdups vals) \<noteq> [] \<longrightarrow> stg_dims conn t = None"
  shows "upsert_dim_table t vals conn = conn"
proof (cases "sort (remdups vals) = []")
  case True
  then show ?thesis by (simp add: upsert_dim_table_def)
next
  case False
  have "insert_missing (dims conn t) (sort (remdups vals)) = dims conn t"
    using assms(1) by (intro insert_missing_known) simp
  moreover have "stg_dims conn t = None" using assms(2) False by simp
  then have "(stg_dims conn)(t := None) = stg_dims conn" by auto
  ultimately show ?thesis using False by (simp add: upsert_dim_table_def Let_def)
qed

lemma upsert_dim_time_known:
  assumes "set pairs \<subseteq> snd ` set (dim_time conn)"
    and "pairs \<noteq> [] \<longrightarrow> stg_dim_time conn = None"
  shows "upsert_dim_time pairs conn = conn"
proof (cases "pairs = []")
  case True
  then show ?thesis by (simp add: upsert_dim_time_def)
next
  case False
  have "insert_missing (dim_time conn) (drop_duplicates pairs) = dim_time conn"
    using assms(1) by (intro insert_missing_known) simp
  moreover have "stg_dim_time conn = None" using assms(2) False by simp
  ultimately show ?thesis using False by (simp add: upsert_dim_time_def Let_def)
qed

lemma stg_dims_upsert_dim_table:
  "stg_dims (upsert_dim_table t vals conn) =
     (if sort (remdups vals) = [] then stg_dims conn else (stg_dims conn)(t := None))"
  by (simp add: upsert_dim_table_def Let_def)

lemma stg_dim_time_upsert_dim_table:
  "stg_dim_time (upsert_dim_table t vals conn) = stg_dim_time conn"
  by (simp add: upsert_dim_table_def Let_def)

lemma stg_upsert_dim_time:
  "stg_dims (upsert_dim_time pairs conn) = stg_dims conn"
  "stg_dim_time (upsert_dim_time pairs conn) = (if pairs = [] then stg_dim_time conn else None)"
  by (simp_all add: upsert_dim_time_def Let_def)

lemma stg_register_dimensions:
  "sort (remdups (map em_region (energy_m m))) \<noteq> [] \<longrightarrow>
     stg_dims (register_dimensions m db) DimRegion = None"
  "sort (remdups (map em_energy_source (energy_m m))) \<noteq> [] \<longrightarrow>
     stg_dims (register_dimensions m db) DimEnergySource = None"
  "sort (remdups (map ms_sector (emis_m m))) \<noteq> [] \<longrightarrow>
     stg_dims (register_dimensions m db) DimSector = None"
  "year_month_pairs_of m \<noteq> [] \<longrightarrow> stg_dim_time (register_dimensions m db) = None"
  by (simp_all add: register_dimensions_def Let_def stg_upsert_dim_time
      stg_dims_upsert_dim_table)

lemma names_register_dimensions:
  "set (map em_region (energy_m m)) \<subseteq> snd ` set (dims (register_dimensions m db) DimRegion)"
  "set (map em_energy_source (energy_m m))
     \<subseteq> snd ` set (dims (register_dimensions m db) DimEnergySource)"
  "set (map ms_sector (emis_m m)) \<subseteq> snd ` set (dims (register_dimensions m db) DimSector)"
  "set (year_month_pairs_of m) \<subseteq> snd ` set (dim_time (register_dimensions m db))"
  by (simp_all add: dims_register_dimensions dim_time_register_dimensions snd_set_insert_missing)

lemma register_dimensions_idem:
  "register_dimensions m (register_dimensions m db) = register_dimensions m db"
proof -
  let ?c = "register_dimensions m db"
  have 1: "upsert_dim_table DimRegion (map em_region (energy_m m)) ?c = ?c"
    using names_register_dimensions(1) stg_register_dimensions(1) by (rule upsert_dim_table_known)
  have 2: "upsert_dim_table DimEnergySource (map em_energy_source (energy_m m)) ?c = ?c"
    using names_register_dimensions(2) stg_register_dimensions(2) by (rule upsert_dim_table_known)
  have 3: "upsert_dim_table DimSector (map ms_sector (emis_m m)) ?c = ?c"
    using names_register_dimensions(3) stg_register_dimensions(3) by (rule upsert_dim_table_known)
  have 4: "upsert_dim_time (year_month_pairs_of m) ?c = ?c"
    using names_register_dimensions(4) stg_register_dimensions(4) by (rule upsert_dim_time_known)
  have "register_dimensions m ?c
      = upsert_dim_time (year_month_pairs_of m)
          (upsert_dim_table DimSector (map ms_sector (emis_m m))
             (upsert_dim_table DimEnergySource (map em_energy_source (energy_m m))
                (upsert_dim_table DimRegion (map em_region (energy_m m)) ?c)))"
    by (simp add: register_dimensions_def Let_def)
  then show ?thesis by (simp only: 1 2 3 4)
qed

lemma upsert_dim_table_facts_update:
  "upsert_dim_table t vals
     (c\<lparr>fact_energy_monthly := a, fact_emissions_monthly := b, fact_carbon_intensity := d,
        stg_fact_energy := e, stg_fact_emissions := f, stg_fact_intensity := g\<rparr>)
   = (upsert_dim_table t vals c)
     \<lparr>fact_energy_monthly := a, fact_emissions_monthly := b, fact_carbon_intensity := d,
      stg_fact_energy := e, stg_fact_emissions := f, stg_fact_intensity := g\<rparr>"
  by (simp add: upsert_dim_table_def Let_def)

lemma upsert_dim_time_facts_update:
  "upsert_dim_time ps
     (c\<lparr>fact_energy_monthly := a, fact_emissions_monthly := b, fact_carbon_intensity := d,
        stg_fact_energy := e, stg_fact_emissions := f, stg_fact_intensity := g\<rparr>)
   = (upsert_dim_time ps c)
     \<lparr>fact_energy_monthly := a, fact_emissions_monthly := b, fact_carbon_intensity := d,
      stg_fact_energy := e, stg_fact_emissions := f, stg_fact_intensity := g\<rparr>"
  by (simp add: upsert_dim_time_def Let_def)

lemma register_dimensions_facts_update:
  "register_dimensions m
     (c\<lparr>fact_energy_monthly := a, fact_emissions_monthly := b, fact_carbon_intensity := d,
        stg_fact_energy := e, stg_fact_emissions := f, stg_fact_intensity := g\<rparr>)
   = (register_dimensions m c)
     \<lparr>fact_energy_monthly := a, fact_emissions_monthly := b, fact_carbon_intensity := d,
      stg_fact_energy := e, stg_fact_emissions := f, stg_fact_intensity := g\<rparr>"
  by (simp only: register_dimensions_def Let_def upsert_dim_table_facts_update
      upsert_dim_time_facts_update)

lemma facts_of_facts_update:
  "energy_fact_of m
     (c\<lparr>fact_energy_monthly := a, fact_emissions_monthly := b, fact_carbon_intensity := d,
        stg_fact_energy := e, stg_fact_emissions := f, stg_fact_intensity := g\<rparr>)
   = energy_fact_of m c"
  "emissions_fact_of m
     (c\<lparr>fact_energy_monthly := a, fact_emissions_monthly := b, fact_carbon_intensity := d,
        stg_fact_energy := e, stg_fact_emissions := f, stg_fact_intensity := g\<rparr>)
   = emissions_fact_of m c"
  "intensity_fact_of m
     (c\<lparr>fact_energy_monthly := a, fact_emissions_monthly := b, fact_carbon_intensity := d,
        stg_fact_energy := e, stg_fact_emissions := f, stg_fact_intensity := g\<rparr>)
   = intensity_fact_of m c"
  by (simp_all add: energy_fact_of_def emissions_fact_of_def intensity_fact_of_def
      fetch_dim_map_def fetch_time_map_def)

lemma keys_complete:
  "\<not> any_any (ef_isna E) \<Longrightarrow> \<forall>r \<in> set E. ef_key r \<noteq> None"
  "\<not> any_any (mf_isna M) \<Longrightarrow> \<forall>r \<in> set M. mf_key r \<noteq> None"
  "\<not> any_any (cf_isna C) \<Longrightarrow> \<forall>r \<in> set C. cf_key r \<noteq> None"
  by (auto simp: any_any_ef_isna any_any_mf_isna any_any_cf_isna ef_key_def mf_key_def cf_key_def
      split: option.splits)


lemma main_body_second_run:
  assumes "fst (main_body m db) = None"
  shows "main_body m (snd (main_body m db)) = (None, snd (main_body m db))"
proof -
  let ?conn = "register_dimensions m db"
  let ?E = "energy_fact_of m ?conn"
  let ?M = "emissions_fact_of m ?conn"
  let ?C = "intensity_fact_of m ?conn"
  obtain re rs rc where r:
    "insert_on_conflict ef_key ef_update (fact_energy_monthly db) ?E = Inr re"
    "insert_on_conflict mf_key mf_update (fact_emissions_monthly db) ?M = Inr rs"
    "insert_on_conflict cf_key cf_update (fact_carbon_intensity db) ?C = Inr rc"
    "main_body m db = (None, ?conn
          \<lparr>fact_energy_monthly := re, fact_emissions_monthly := rs, fact_carbon_intensity := rc,
           stg_fact_energy := None, stg_fact_emissions := None, stg_fact_intensity := None\<rparr>)"
    using main_body_success [OF assms] by blast
  let ?db1 = "?conn
          \<lparr>fact_energy_monthly := re, fact_emissions_monthly := rs, fact_carbon_intensity := rc,
           stg_fact_energy := None, stg_fact_emissions := None, stg_fact_intensity := None\<rparr>"
  have reg: "register_dimensions m ?db1 = ?db1"
    by (simp only: register_dimensions_facts_update register_dimensions_idem)
  have fE: "energy_fact_of m ?db1 = ?E" and fM: "emissions_fact_of m ?db1 = ?M"
    and fC: "intensity_fact_of m ?db1 = ?C"
    by (rule facts_of_facts_update)+
  have ff: "fail_fast [(''energy_fact'', ef_isna ?E), (''emissions_fact'', mf_isna ?M),
      (''intensity_fact'', cf_isna ?C)] = None"
    using assms by (rule main_body_passed)
  then have nn: "\<not> any_any (ef_isna ?E)" "\<not> any_any (mf_isna ?M)" "\<not> any_any (cf_isna ?C)"
    by (auto simp: fail_fast_three split: if_splits)
  have ie: "insert_on_conflict ef_key ef_update re ?E = Inr re"
    using ef_update_same keys_complete(1) [OF nn(1)] r(1) by (rule insert_on_conflict_idem)
  have im: "insert_on_conflict mf_key mf_update rs ?M = Inr rs"
    using mf_update_same keys_complete(2) [OF nn(2)] r(2) by (rule insert_on_conflict_idem)
  have ic: "insert_on_conflict cf_key cf_update rc ?C = Inr rc"
    using cf_update_same keys_complete(3) [OF nn(3)] r(3) by (rule insert_on_conflict_idem)
  have ff1: "fail_fast [(''energy_fact'', ef_isna (energy_fact_of m (register_dimensions m ?db1))),
      (''emissions_fact'', mf_isna (emissions_fact_of m (register_dimensions m ?db1))),
      (''intensity_fact'', cf_isna (intensity_fact_of m (register_dimensions m ?db1)))] = None"
    using ff by (simp only: reg fE fM fC)
  have "main_body m ?db1 =
     and_then (and_then (upsert_fact_energy (energy_fact_of m (register_dimensions m ?db1))
                                (register_dimensions m ?db1))
                             (upsert_fact_emissions (emissions_fact_of m (register_dimensions m ?db1))))
                   (upsert_fact_intensity (intensity_fact_of m (register_dimensions m ?db1)))"
    using ff1 by (rule main_body_merges)
  then have mb: "main_body m ?db1 =
     and_then (and_then (upsert_fact_energy ?E ?db1) (upsert_fact_emissions ?M))
       (upsert_fact_intensity ?C)"
    by (simp only: reg fE fM fC)
  have e: "upsert_fact_energy ?E ?db1 = (None, ?db1)"
    by (simp add: upsert_fact_energy_cases ie)
  have s: "upsert_fact_emissions ?M ?db1 = (None, ?db1)"
    by (simp add: upsert_fact_emissions_cases im)
  have c: "upsert_fact_intensity ?C ?db1 = (None, ?db1)"
    by (simp add: upsert_fact_intensity_cases ic)
  have "main_body m ?db1 = (None, ?db1)"
    by (simp add: mb and_then_def e s c)
  then show ?thesis by (simp add: r(4))
qed

text \<open>
  Claim C1.  Running \<open>main\<close> again on the same marts, against the warehouse the first run
  left, ends as the first run did and leaves exactly that warehouse: every dimension
  table and every fact table has the same rows.  After a committed first run the second
  registration changes nothing, the second run builds the same three frames, and each
  merge of a frame into its fact table returns the table as it was.
\<close>

theorem loading_twice_is_loading_once:
  "main m (snd (main m db)) = main m db
   \<and> (fst (main m db) = None \<longrightarrow>
        register_dimensions m (snd (main m db)) = snd (main m db)
        \<and> energy_fact_of m (snd (main m db)) = energy_fact_of m (register_dimensions m db)
        \<and> emissions_fact_of m (snd (main m db)) = emissions_fact_of m (register_dimensions m db)
        \<and> intensity_fact_of m (snd (main m db)) = intensity_fact_of m (register_dimensions m db)
        \<and> insert_on_conflict ef_key ef_update (fact_energy_monthly (snd (main m db)))
             (energy_fact_of m (snd (main m db))) = Inr (fact_energy_monthly (snd (main m db)))
        \<and> insert_on_conflict mf_key mf_update (fact_emissions_monthly (snd (main m db)))
             (emissions_fact_of m (snd (main m db))) = Inr (fact_emissions_monthly (snd (main m db)))
        \<and> insert_on_conflict cf_key cf_update (fact_carbon_intensity (snd (main m db)))
             (intensity_fact_of m (snd (main m db))) = Inr (fact_carbon_intensity (snd (main m db))))"
proof (cases "fst (main_body m db)")
  case (Some e)
  then have m: "main m db = (Some e, db)" by (rule main_rolls_back)
  then show ?thesis by simp
next
  case None
  let ?conn = "register_dimensions m db"
  let ?E = "energy_fact_of m ?conn"
  let ?M = "emissions_fact_of m ?conn"
  let ?C = "intensity_fact_of m ?conn"
  from None have m1: "main m db = (None, snd (main_body m db))" by (rule main_commits)
  have "main_body m (snd (main_body m db)) = (None, snd (main_body m db))"
    using None by (rule main_body_second_run)
  then have "fst (main_body m (snd (main_body m db))) = None"
    and s2: "snd (main_body m (snd (main_body m db))) = snd (main_body m db)"
    by simp_all
  then have "main m (snd (main_body m db)) = (None, snd (main_body m (snd (main_body m db))))"
    by (intro main_commits)
  then have twice: "main m (snd (main m db)) = main m db"
    by (simp add: m1 s2)
  obtain re rs rc where r:
    "insert_on_conflict ef_key ef_update (fact_energy_monthly db) ?E = Inr re"
    "insert_on_conflict mf_key mf_update (fact_emissions_monthly db) ?M = Inr rs"
    "insert_on_conflict cf_key cf_update (fact_carbon_intensity db) ?C = Inr rc"
    "main_body m db = (None, ?conn
          \<lparr>fact_energy_monthly := re, fact_emissions_monthly := rs, fact_carbon_intensity := rc,
           stg_fact_energy := None, stg_fact_emissions := None, stg_fact_intensity := None\<rparr>)"
    using main_body_success [OF None] by blast
  let ?db1 = "?conn
          \<lparr>fact_energy_monthly := re, fact_emissions_monthly := rs, fact_carbon_intensity := rc,
           stg_fact_energy := None, stg_fact_emissions := None, stg_fact_intensity := None\<rparr>"
  have db1: "snd (main m db) = ?db1" by (simp add: m1 r(4))
  have reg: "register_dimensions m ?db1 = ?db1"
    by (simp only: register_dimensions_facts_update register_dimensions_idem)
  have fE: "energy_fact_of m ?db1 = ?E" and fM: "emissions_fact_of m ?db1 = ?M"
    and fC: "intensity_fact_of m ?db1 = ?C"
    by (rule facts_of_facts_update)+
  have "fail_fast [(''energy_fact'', ef_isna ?E), (''emissions_fact'', mf_isna ?M),
      (''intensity_fact'', cf_isna ?C)] = None"
    using None by (rule main_body_passed)
  then have nn: "\<not> any_any (ef_isna ?E)" "\<not> any_any (mf_isna ?M)" "\<not> any_any (cf_isna ?C)"
    by (auto simp: fail_fast_three split: if_splits)
  have ie: "insert_on_conflict ef_key ef_update re ?E = Inr re"
    using ef_update_same keys_complete(1) [OF nn(1)] r(1) by (rule insert_on_conflict_idem)
  have im: "insert_on_conflict mf_key mf_update rs ?M = Inr rs"
    using mf_update_same keys_complete(2) [OF nn(2)] r(2) by (rule insert_on_conflict_idem)
  have ic: "insert_on_conflict cf_key cf_update rc ?C = Inr rc"
    using cf_update_same keys_complete(3) [OF nn(3)] r(3) by (rule insert_on_conflict_idem)
  have "register_dimensions m (snd (main m db)) = snd (main m db)"
    "energy_fact_of m (snd (main m db)) = ?E"
    "emissions_fact_of m (snd (main m db)) = ?M"
    "intensity_fact_of m (snd (main m db)) = ?C"
    "insert_on_conflict ef_key ef_update (fact_energy_monthly (snd (main m db)))
             (energy_fact_of m (snd (main m db))) = Inr (fact_energy_monthly (snd (main m db)))"
    "insert_on_conflict mf_key mf_update (fact_emissions_monthly (snd (main m db)))
             (emissions_fact_of m (snd (main m db))) = Inr (fact_emissions_monthly (snd (main m db)))"
    "insert_on_conflict cf_key cf_update (fact_carbon_intensity (snd (main m db)))
             (intensity_fact_of m (snd (main m db))) = Inr (fact_carbon_intensity (snd (main m db)))"
    unfolding db1
    by (simp_all only: reg fE fM fC) (simp_all add: ie im ic)
  with twice show ?thesis by blast
qed

lemma main_good_energy:
  "fact_energy_monthly (snd (main good_marts empty_warehouse)) = [energy_fact_north]"
proof -
  obtain re rs rc where r:
    "insert_on_conflict ef_key ef_update (fact_energy_monthly empty_warehouse)
        (energy_fact_of good_marts (register_dimensions good_marts empty_warehouse)) = Inr re"
    "main_body good_marts empty_warehouse = (None, (register_dimensions good_marts empty_warehouse)
          \<lparr>fact_energy_monthly := re, fact_emissions_monthly := rs, fact_carbon_intensity := rc,
           stg_fact_energy := None, stg_fact_emissions := None, stg_fact_intensity := None\<rparr>)"
    using main_body_success [OF main_body_good] by blast
  from r(1) have "re = [energy_fact_north]"
    by (simp add: facts_good empty_warehouse_facts merge_north)
  then show ?thesis
    using main_commits [OF main_body_good] by (simp add: r(2))
qed

theorem loading_twice_is_loading_once_witness:
  "fst (main good_marts empty_warehouse) = None
   \<and> main good_marts (snd (main good_marts empty_warehouse)) = main good_marts empty_warehouse
   \<and> register_dimensions good_marts (snd (main good_marts empty_warehouse))
       = snd (main good_marts empty_warehouse)
   \<and> fact_energy_monthly (snd (main good_marts (snd (main good_marts empty_warehouse))))
       = [energy_fact_north]"
proof -
  have ok: "fst (main good_marts empty_warehouse) = None"
    using main_commits [OF main_body_good] by simp
  note T = loading_twice_is_loading_once [of good_marts empty_warehouse]
  have twice: "main good_marts (snd (main good_marts empty_warehouse)) = main good_marts empty_warehouse"
    using T by (rule conjunct1)
  have reg: "register_dimensions good_marts (snd (main good_marts empty_warehouse))
       = snd (main good_marts empty_warehouse)"
    using T ok by blast
  have "fact_energy_monthly (snd (main good_marts empty_warehouse)) = [energy_fact_north]"
    by (rule main_good_energy)
  then have "fact_energy_monthly (snd (main good_marts (snd (main good_marts empty_warehouse))))
       = [energy_fact_north]"
    by (simp only: twice)
  with ok twice reg show ?thesis by blast
qed

end
